theory Spec2Isabelle
  imports Main "HOL-Library.Sublist"
begin

text \<open>
  A model of the symbol index and refactoring engine of the PHP refactoring extension:
  the namespace resolver (\<open>psr4.ts\<close>), the indexer (\<open>indexer.ts\<close>), the rename
  provider (\<open>renameProvider.ts\<close>), the edit planner (\<open>refactorPreview.ts\<close>) and the
  import diagnostics (\<open>importDiagnostics.ts\<close>). The parser, the file system and the
  editor are outside the code: a parsed file is a value of the type \<open>jv\<close> below, and what
  the editor and the file system answer is an argument of the function that asks.
\<close>

text \<open>The backslash, the namespace separator.\<close>

abbreviation (input) bsl :: char where "bsl \<equiv> CHR 0x5C"

section \<open>Namespace resolver (src/src/psr4.ts)\<close>

text \<open>
  The value of one key of the \<open>psr-4\<close> object: \<open>string | string[]\<close>.
\<close>

datatype paths = One string | Many "string list"

text \<open>\<open>Array.isArray(paths) ? paths : [paths]\<close>\<close>

fun pathArray :: "paths \<Rightarrow> string list" where
  "pathArray (One p) = [p]"
| "pathArray (Many ps) = ps"

text \<open>
  \<open>toUnix = p.split(path.sep).join('/')\<close>; \<open>path.sep\<close> is one character, so the
  split and join replace every occurrence of it.
\<close>

definition toUnix :: "char \<Rightarrow> string \<Rightarrow> string" where
  "toUnix sep p = map (\<lambda>c. if c = sep then CHR ''/'' else c) p"

text \<open>\<open>s.replace(/c$/, '')\<close>: one trailing \<open>c\<close> is removed, if there is one.\<close>

definition dropTrailing :: "char \<Rightarrow> string \<Rightarrow> string" where
  "dropTrailing c s = (if s \<noteq> [] \<and> last s = c then butlast s else s)"

text \<open>\<open>s.replace(/^c/, '')\<close>: one leading \<open>c\<close> is removed, if there is one.\<close>

fun dropLeading :: "char \<Rightarrow> string \<Rightarrow> string" where
  "dropLeading c [] = []"
| "dropLeading c (x # xs) = (if x = c then xs else x # xs)"

text \<open>\<open>subPath.split('/').join('\\')\<close>\<close>

definition toNamespace :: "string \<Rightarrow> string" where
  "toNamespace s = map (\<lambda>c. if c = CHR ''/'' then CHR 0x5C else c) s"

text \<open>\<open>toUnix(p).replace(/\/$/, '')\<close>\<close>

definition normalizePrefix :: "char \<Rightarrow> string \<Rightarrow> string" where
  "normalizePrefix sep p = dropTrailing CHR ''/'' (toUnix sep p)"

text \<open>
  \<open>relativeDir === normalizedPrefix || relativeDir.startsWith(normalizedPrefix + '/')\<close>
\<close>

definition prefixMatches :: "string \<Rightarrow> string \<Rightarrow> bool" where
  "prefixMatches relativeDir normalizedPrefix \<longleftrightarrow>
     relativeDir = normalizedPrefix \<or> prefix (normalizedPrefix @ ''/'') relativeDir"

text \<open>
  \<open>namespace + subNamespace\<close>, the sub-namespace being the rest of the directory after
  the prefix, without its leading slash, slashes turned into backslashes.
\<close>

definition candidateNamespace :: "string \<Rightarrow> string \<Rightarrow> string \<Rightarrow> string" where
  "candidateNamespace relativeDir namespace normalizedPrefix =
     namespace @ toNamespace (dropLeading CHR ''/'' (drop (length normalizedPrefix) relativeDir))"

text \<open>The two loop variables \<open>bestMatchNamespace\<close> and \<open>bestMatchLength\<close>.\<close>

record best =
  bestMatchNamespace :: string
  bestMatchLength :: nat

definition initBest :: best where
  "initBest = \<lparr>bestMatchNamespace = [], bestMatchLength = 0\<rparr>"

text \<open>The body of the inner loop, for one namespace and one already normalized prefix.\<close>

definition tryPrefix :: "string \<Rightarrow> string \<times> string \<Rightarrow> best \<Rightarrow> best" where
  "tryPrefix relativeDir c b =
     (if prefixMatches relativeDir (snd c) then
        (if length (snd c) \<ge> bestMatchLength b then
           \<lparr>bestMatchNamespace = candidateNamespace relativeDir (fst c) (snd c),
            bestMatchLength = length (snd c)\<rparr>
         else b)
      else b)"

text \<open>
  The pairs (namespace, normalized prefix) in the order in which the two nested loops
  over \<open>Object.entries(autoloads)\<close> and \<open>pathArray\<close> visit them.
\<close>

definition candidates :: "char \<Rightarrow> (string \<times> paths) list \<Rightarrow> (string \<times> string) list" where
  "candidates sep autoloads =
     concat (map (\<lambda>(namespace, ps). map (\<lambda>p. (namespace, normalizePrefix sep p)) (pathArray ps))
                 autoloads)"

definition bestMatch :: "char \<Rightarrow> (string \<times> paths) list \<Rightarrow> string \<Rightarrow> best" where
  "bestMatch sep autoloads relativeDir =
     fold (tryPrefix relativeDir) (candidates sep autoloads) initBest"

text \<open>
  \<open>{...(composer.autoload?.['psr-4'] || {}), ...(composer['autoload-dev']?.['psr-4'] || {})}\<close>:
  a key of the second object replaces the value of the same key of the first one where
  it stands, and a new key goes to the end.
\<close>

fun setKey :: "string \<Rightarrow> 'v \<Rightarrow> (string \<times> 'v) list \<Rightarrow> (string \<times> 'v) list" where
  "setKey k v [] = [(k, v)]"
| "setKey k v ((k', v') # kvs) = (if k = k' then (k, v) # kvs else (k', v') # setKey k v kvs)"

definition spread :: "(string \<times> 'v) list \<Rightarrow> (string \<times> 'v) list \<Rightarrow> (string \<times> 'v) list" where
  "spread a b = fold (\<lambda>(k, v) acc. setKey k v acc) b a"

record composerJson =
  autoload :: "(string \<times> paths) list option"
  autoloadDev :: "(string \<times> paths) list option"

definition autoloadsOf :: "composerJson \<Rightarrow> (string \<times> paths) list" where
  "autoloadsOf composer =
     spread (case autoload composer of None \<Rightarrow> [] | Some a \<Rightarrow> a)
            (case autoloadDev composer of None \<Rightarrow> [] | Some a \<Rightarrow> a)"

text \<open>
  What \<open>getNamespaceFromPath\<close> reads from its surroundings: whether the file lies in a
  workspace folder, whether that folder has a \<open>composer.json\<close>, what \<open>fs.readJson\<close>
  gives for it (\<open>None\<close> when it throws), the platform's \<open>path.sep\<close>, and the directory
  of the file relative to the workspace folder as \<open>path.relative\<close> and \<open>path.dirname\<close>
  return it.
\<close>

record psr4Env =
  inWorkspaceFolder :: bool
  composerExists :: bool
  readJson :: "composerJson option"
  pathSep :: char
  relativeDirOf :: "string \<Rightarrow> string"

definition getNamespaceFromPath :: "psr4Env \<Rightarrow> string \<Rightarrow> string option" where
  "getNamespaceFromPath env filePath =
     (if \<not> inWorkspaceFolder env then None
      else if \<not> composerExists env then None
      else case readJson env of
             None \<Rightarrow> None
           | Some composer \<Rightarrow>
               Some (dropTrailing (CHR 0x5C)
                      (bestMatchNamespace
                         (bestMatch (pathSep env) (autoloadsOf composer)
                            (toUnix (pathSep env) (relativeDirOf env filePath))))))"

section \<open>Parsed files and positions\<close>
text \<open>
  The tree of the parser (\<open>php-parser\<close>, \<open>withPositions: true\<close>) as the code reads
  it: a JavaScript value. A node is an object with a \<open>kind\<close> and further properties;
  \<open>loc\<close> is kept as one value holding the start line (1-based), start column, end line
  and end column. \<open>JNull\<close> stands for \<open>null\<close>, \<open>undefined\<close> and an absent property.
\<close>

datatype jv =
    JNull
  | JBool bool
  | JStr string
  | JLoc nat nat nat nat
  | JArr "jv list"
  | JObj "(string \<times> jv) list"

text \<open>
  \<open>v.k\<close> for a value that is not \<open>null\<close> or \<open>undefined\<close>: the property of an object,
  \<open>undefined\<close> otherwise. Where the code reads a property of a value that may be
  \<open>null\<close>, the model tests for \<open>JNull\<close> first and raises.
\<close>

fun field :: "string \<Rightarrow> jv \<Rightarrow> jv" where
  "field k (JObj ps) = (case map_of ps k of None \<Rightarrow> JNull | Some v \<Rightarrow> v)"
| "field k v = JNull"

text \<open>
  JavaScript's truthiness, \<open>Array.isArray\<close>, and what \<open>for (const x of v)\<close>
  iterates: the elements of an array, the characters of a string, and a \<open>TypeError\<close>
  (\<open>None\<close>) for any other value.
\<close>

fun truthy :: "jv \<Rightarrow> bool" where
  "truthy JNull = False"
| "truthy (JBool b) = b"
| "truthy (JStr s) = (s \<noteq> [])"
| "truthy v = True"

fun isArray :: "jv \<Rightarrow> bool" where
  "isArray (JArr xs) = True"
| "isArray v = False"

fun elems :: "jv \<Rightarrow> jv list option" where
  "elems (JArr xs) = Some xs"
| "elems (JStr s) = Some (map (\<lambda>c. JStr [c]) s)"
| "elems v = None"

text \<open>
  The string a template literal \<open>`${v}`\<close> makes of a value.
\<close>

fun joinWith :: "string \<Rightarrow> string list \<Rightarrow> string" where
  "joinWith sep [] = []"
| "joinWith sep [x] = x"
| "joinWith sep (x # y # ys) = x @ sep @ joinWith sep (y # ys)"

fun jsToString :: "jv \<Rightarrow> string" where
  "jsToString JNull = ''undefined''"
| "jsToString (JBool b) = (if b then ''true'' else ''false'')"
| "jsToString (JStr s) = s"
| "jsToString (JLoc a b c d) = ''[object Object]''"
| "jsToString (JObj ps) = ''[object Object]''"
| "jsToString (JArr xs) =
     joinWith '','' (map (\<lambda>x. if x = JNull then [] else jsToString x) xs)"

text \<open>
  A child reached through a property is smaller than the node: the measure of every
  traversal below.
\<close>

lemma size_map_of: "map_of ps k = Some v \<Longrightarrow> size v < Suc (size_list (size_prod (\<lambda>_. 0) size) ps)"
  by (induction ps) (auto split: if_splits)

lemma size_field: "field k n \<noteq> JNull \<Longrightarrow> size (field k n) < size n"
  by (cases n) (auto split: option.splits dest: size_map_of)

lemma size_mem: "x \<in> set xs \<Longrightarrow> size (x::jv) \<le> size_list size xs"
  by (induction xs) auto

lemma size_elems: "elems v = Some xs \<Longrightarrow> x \<in> set xs \<Longrightarrow> size x \<le> size v"
  by (cases v) (auto dest: size_mem)

lemma size_elems_field:
  "elems (field k n) = Some xs \<Longrightarrow> x \<in> set xs \<Longrightarrow> size x < size n"
proof -
  assume a: "elems (field k n) = Some xs" "x \<in> set xs"
  then have "field k n \<noteq> JNull" by auto
  from size_field[OF this] size_elems[OF a] show ?thesis by simp
qed

lemma size_elems_field2:
  "elems (field k2 (field k n)) = Some xs \<Longrightarrow> x \<in> set xs \<Longrightarrow> size x < size n"
proof -
  assume a: "elems (field k2 (field k n)) = Some xs" "x \<in> set xs"
  then have "field k2 (field k n) \<noteq> JNull" by auto
  then have "field k n \<noteq> JNull" by (cases "field k n") auto
  from size_field[OF this] size_elems_field[OF a] show ?thesis by simp
qed

text \<open>
  \<open>vscode.Position\<close> and \<open>vscode.Range\<close>; the constructor of a range orders its two
  ends. \<open>locRange\<close> is the range the code builds from a \<open>loc\<close>:
  \<open>new Range(new Position(loc.start.line - 1, loc.start.column),
  new Position(loc.end.line - 1, loc.end.column))\<close>.
\<close>

datatype position = Position (line: nat) (character: nat)

definition posLess :: "position \<Rightarrow> position \<Rightarrow> bool" where
  "posLess a b \<longleftrightarrow> line a < line b \<or> (line a = line b \<and> character a < character b)"

datatype vsRange = VsRange (rangeStart: position) (rangeEnd: position)

definition mkRange :: "position \<Rightarrow> position \<Rightarrow> vsRange" where
  "mkRange a b = (if posLess b a then VsRange b a else VsRange a b)"

fun locRange :: "jv \<Rightarrow> vsRange option" where
  "locRange (JLoc sl sc el ec) = Some (mkRange (Position (sl - 1) sc) (Position (el - 1) ec))"
| "locRange v = None"

section \<open>The indexer (indexer.ts)\<close>

text \<open>
  \<open>SymbolDef\<close> and \<open>InheritanceInfo\<close> of the indexer. \<open>extends\<close> and the elements of
  \<open>implements\<close> are kept as the values the code stores (strings for parser output).
\<close>

record symbolDef =
  defName :: string
  defPath :: string
  defKind :: string
  defRange :: "vsRange option"
  defParent :: "string option"
  defFqn :: "string option"

record inheritanceInfo =
  className :: string
  extendsName :: jv
  implementsNames :: "jv list"

text \<open>
  The writes of \<open>updateIndexForFile\<close>'s traversal. The traversal never reads the index
  (the \<open>get(name) || []\<close> before a push belongs to the push), so the model collects its
  writes in order and applies them afterwards (\<open>applyOp\<close>):
  \<^item> \<open>AddSymbol n\<close>: \<open>symbolsFound.add(n)\<close>;
  \<^item> \<open>DefineClass name kind range fqn inh\<close>: the definition pushed for a class, interface
    or trait, and the inheritance entry set after it; \<open>inh\<close> is \<open>None\<close> when computing
    the entry raised, after the push and before \<open>this.inheritance.set\<close>;
  \<^item> \<open>DefineMethod class method range\<close>: the method definition pushed under
    \<open>class::method\<close>.
  \<open>threw\<close> records a \<open>TypeError\<close>: the traversal stops there, and \<open>scanFile\<close> swallows it.
\<close>

datatype indexOp =
    AddSymbol string
  | DefineClass string string "vsRange option" string "inheritanceInfo option"
  | DefineMethod string string "vsRange option"

record scan =
  currentNamespace :: jv
  ops :: "indexOp list"
  threw :: bool

text \<open>
  \<open>parts[parts.length - 1]\<close> of \<open>name.split('\\')\<close>: what follows the last backslash.
\<close>

definition lastPart :: "string \<Rightarrow> string" where
  "lastPart s = rev (takeWhile (\<lambda>c. c \<noteq> bsl) (rev s))"

fun strOf :: "jv \<Rightarrow> string option" where
  "strOf (JStr s) = Some s"
| "strOf v = None"

text \<open>
  \<open>typeof node.name === 'string' ? node.name : node.name.name\<close>. The parser gives a
  string or an identifier node with a string name; \<open>None\<close> is the \<open>TypeError\<close> of a
  \<open>null\<close> name (an anonymous class). A name of any other shape does not come from
  the parser; the model stops there too.
\<close>

definition nameOf :: "jv \<Rightarrow> string option" where
  "nameOf node = (case field ''name'' node of JStr s \<Rightarrow> Some s | v \<Rightarrow> strOf (field ''name'' v))"

definition raise :: "scan \<Rightarrow> scan" where
  "raise st = st\<lparr>threw := True\<rparr>"

definition emit :: "indexOp \<Rightarrow> scan \<Rightarrow> scan" where
  "emit op st = (if threw st then st else st\<lparr>ops := ops st @ [op]\<rparr>)"

text \<open>
  Lines 309-314: the name of \<open>node.extends\<close>. For an interface the parser gives an
  array of names, whose \<open>name\<close> is \<open>undefined\<close>: \<open>node.extends.name.name\<close> raises.
\<close>

definition extNameOf :: "jv \<Rightarrow> jv option" where
  "extNameOf ext =
     (case ext of
        JStr s \<Rightarrow> Some (JStr s)
      | _ \<Rightarrow> (if truthy (field ''name'' ext) then Some (field ''name'' ext)
              else (case field ''name'' ext of
                      JStr s \<Rightarrow> Some (JStr s)
                    | JNull \<Rightarrow> None
                    | v \<Rightarrow> Some (field ''name'' v))))"

text \<open>
  Lines 316-323: \<open>typeof impl === 'string' ? impl : (impl.name || impl.name?.name)\<close>,
  pushed when truthy.
\<close>

definition implNameOf :: "jv \<Rightarrow> jv option" where
  "implNameOf impl =
     (case impl of
        JStr s \<Rightarrow> Some (JStr s)
      | JNull \<Rightarrow> None
      | _ \<Rightarrow> (if truthy (field ''name'' impl) then Some (field ''name'' impl)
              else (case field ''name'' impl of JNull \<Rightarrow> Some JNull | v \<Rightarrow> Some (field ''name'' v))))"

fun collectImplements :: "jv list \<Rightarrow> jv list \<Rightarrow> jv list option" where
  "collectImplements [] names = Some names"
| "collectImplements (impl # impls) names =
     (case implNameOf impl of
        None \<Rightarrow> None
      | Some implName \<Rightarrow>
          collectImplements impls (if truthy implName then names @ [implName] else names))"

definition inheritanceOf :: "string \<Rightarrow> jv \<Rightarrow> inheritanceInfo option" where
  "inheritanceOf name node =
     (case (if truthy (field ''extends'' node) then extNameOf (field ''extends'' node)
            else Some JNull) of
        None \<Rightarrow> None
      | Some extName \<Rightarrow>
          (case (case field ''implements'' node of
                   JArr impls \<Rightarrow> collectImplements impls []
                 | _ \<Rightarrow> Some []) of
             None \<Rightarrow> None
           | Some impls \<Rightarrow>
               Some \<lparr>className = name, extendsName = extName, implementsNames = impls\<rparr>))"

text \<open>
  \<open>traverseBody\<close> (lines 328-354) and its loop body.
\<close>

definition methodOf :: "string \<Rightarrow> jv \<Rightarrow> scan \<Rightarrow> scan" where
  "methodOf name bodyNode st =
     (if threw st then st
      else if bodyNode = JNull then raise st
      else if field ''kind'' bodyNode = JStr ''method'' then
        (case nameOf bodyNode of
           None \<Rightarrow> raise st
         | Some methodName \<Rightarrow>
             emit (DefineMethod name methodName (locRange (field ''loc'' bodyNode))) st)
      else st)"

definition traverseBody :: "string \<Rightarrow> jv \<Rightarrow> scan \<Rightarrow> scan" where
  "traverseBody name bodyNodes st =
     (if \<not> truthy bodyNodes then st
      else case elems bodyNodes of
             None \<Rightarrow> raise st
           | Some xs \<Rightarrow> fold (methodOf name) xs st)"

text \<open>
  Lines 273-363: a class, an interface or a trait.
\<close>

definition classLike :: "jv \<Rightarrow> bool" where
  "classLike node \<longleftrightarrow> field ''kind'' node = JStr ''class'' \<or> field ''kind'' node = JStr ''interface''
      \<or> field ''kind'' node = JStr ''trait''"

definition kindOf :: "jv \<Rightarrow> string" where
  "kindOf node = (case field ''kind'' node of JStr s \<Rightarrow> s | _ \<Rightarrow> [])"

definition visitDefinition :: "jv \<Rightarrow> scan \<Rightarrow> scan" where
  "visitDefinition node st =
     (case nameOf node of
        None \<Rightarrow> raise st
      | Some name \<Rightarrow>
          let st1 = emit (AddSymbol name) st;
              fqn = (if truthy (currentNamespace st) then jsToString (currentNamespace st) @ bsl # name
                     else name);
              inh = inheritanceOf name node;
              st2 = emit (DefineClass name (kindOf node) (locRange (field ''loc'' node)) fqn inh) st1
          in (if inh = None then raise st2
              else if truthy (field ''body'' node) then
                (if isArray (field ''body'' node)
                 then traverseBody name (field ''body'' node) st2
                 else if truthy (field ''children'' (field ''body'' node))
                 then traverseBody name (field ''children'' (field ''body'' node)) st2
                 else st2)
              else st2))"

text \<open>
  Lines 366-375: the names a file uses.
\<close>

fun addUseItems :: "jv list \<Rightarrow> scan \<Rightarrow> scan" where
  "addUseItems [] st = st"
| "addUseItems (item # items) st =
     (if item = JNull then raise st
      else case strOf (field ''name'' item) of
             None \<Rightarrow> raise st
           | Some n \<Rightarrow> addUseItems items (emit (AddSymbol (lastPart n)) st))"

definition visit :: "jv \<Rightarrow> scan \<Rightarrow> scan" where
  "visit node st =
     (if classLike node then visitDefinition node st
      else if field ''kind'' node = JStr ''usegroup'' then
        (case elems (field ''items'' node) of
           None \<Rightarrow> raise st
         | Some items \<Rightarrow> addUseItems items st)
      else if field ''kind'' node = JStr ''name'' then
        (case strOf (field ''name'' node) of
           None \<Rightarrow> raise st
         | Some n \<Rightarrow> emit (AddSymbol (lastPart n)) st)
      else st)"

text \<open>
  \<open>traverse\<close> (lines 264-383), for one node of the list it loops over.
\<close>

function traverse :: "jv \<Rightarrow> scan \<Rightarrow> scan" where
  "traverse node st =
     (if threw st then st
      else if node = JNull then raise st
      else
        let st1 = (if field ''kind'' node = JStr ''namespace''
                   then st\<lparr>currentNamespace := field ''name'' node\<rparr> else st);
            st2 = visit node st1;
            st3 = (if threw st2 then st2
                   else if truthy (field ''children'' node) then
                     (case elems (field ''children'' node) of
                        None \<Rightarrow> raise st2
                      | Some xs \<Rightarrow> fold traverse xs st2)
                   else st2)
        in (if threw st3 then st3
            else if truthy (field ''body'' node) then
              (if isArray (field ''body'' node) then
                 (case elems (field ''body'' node) of
                    None \<Rightarrow> raise st3
                  | Some xs \<Rightarrow> fold traverse xs st3)
               else if truthy (field ''children'' (field ''body'' node)) then
                 (case elems (field ''children'' (field ''body'' node)) of
                    None \<Rightarrow> raise st3
                  | Some xs \<Rightarrow> fold traverse xs st3)
               else st3)
            else st3))"
  by pat_completeness auto
termination
  by (relation "measure (\<lambda>(node, st). size node)")
     (auto dest: size_elems_field size_elems_field2)

definition traverseProgram :: "jv \<Rightarrow> scan" where
  "traverseProgram ast =
     (let st = \<lparr>currentNamespace = JStr [], ops = [], threw = False\<rparr>
      in if ast = JNull then raise st
         else if truthy (field ''children'' ast) then
           (case elems (field ''children'' ast) of
              None \<Rightarrow> raise st
            | Some xs \<Rightarrow> fold traverse xs st)
         else st)"

text \<open>
  The indexer's maps and sets. A \<open>Map\<close> is a partial function and a \<open>Set\<close> a set: the
  order of insertion is left out. A file is known by \<open>uri.toString()\<close> in the usage
  index and by \<open>uri.fsPath\<close> in the definitions; \<open>vsUri\<close> holds both. \<open>vscode.Uri.parse\<close>
  is a parameter of the functions that call it: the URI it gives for a string. The string
  of a URI is normalised (\<open>toString\<close> lower-cases the authority), so the URI parsed from
  \<open>uri.toString()\<close> need not have the \<open>fsPath\<close> of \<open>uri\<close>.
\<close>

record vsUri =
  uriStr :: string
  fsPath :: string

record indexer =
  index :: "string \<rightharpoonup> string set"
  definitions :: "string \<rightharpoonup> symbolDef list"
  methods :: "string \<rightharpoonup> symbolDef list"
  inheritance :: "string \<rightharpoonup> inheritanceInfo"
  files :: "string set"
  isIndexing :: bool

definition emptyIndexer :: indexer where
  "emptyIndexer = \<lparr>index = Map.empty, definitions = Map.empty, methods = Map.empty,
     inheritance = Map.empty, files = {}, isIndexing = False\<rparr>"

text \<open>
  \<open>defs.filter(d => d.path !== uri.fsPath)\<close>, stored when it is shorter.
\<close>

definition dropPath :: "string \<Rightarrow> symbolDef list \<Rightarrow> symbolDef list" where
  "dropPath p defs =
     (let filtered = filter (\<lambda>d. defPath d \<noteq> p) defs
      in if length filtered < length defs then filtered else defs)"

text \<open>
  \<open>removeFile\<close> (lines 217-245). The inheritance loop reads the definitions after they
  were filtered.
\<close>

definition removeFile :: "vsUri \<Rightarrow> indexer \<Rightarrow> indexer" where
  "removeFile uri s =
     (let definitions' = (\<lambda>key. map_option (dropPath (fsPath uri)) (definitions s key))
      in s\<lparr>files := files s - {uriStr uri},
           index := (\<lambda>key. map_option (\<lambda>fs. fs - {uriStr uri}) (index s key)),
           definitions := definitions',
           methods := (\<lambda>key. map_option (dropPath (fsPath uri)) (methods s key)),
           inheritance := (\<lambda>c. if (case definitions' c of
                                       None \<Rightarrow> False
                                     | Some classDefs \<Rightarrow> list_all (\<lambda>d. defPath d = fsPath uri) classDefs)
                                 then None else inheritance s c)\<rparr>)"

definition getOrEmpty :: "('k \<rightharpoonup> 'v list) \<Rightarrow> 'k \<Rightarrow> 'v list" where
  "getOrEmpty m k = (case m k of None \<Rightarrow> [] | Some l \<Rightarrow> l)"

fun applyOp :: "string \<Rightarrow> indexOp \<Rightarrow> indexer \<Rightarrow> indexer" where
  "applyOp p (AddSymbol n) s = s"
| "applyOp p (DefineClass name kind rng fqn inh) s =
     (let s1 = s\<lparr>definitions := (definitions s)(name \<mapsto>
                 getOrEmpty (definitions s) name @
                   [\<lparr>defName = name, defPath = p, defKind = kind, defRange = rng,
                     defParent = None, defFqn = Some fqn\<rparr>])\<rparr>
      in case inh of
           None \<Rightarrow> s1
         | Some info \<Rightarrow> s1\<lparr>inheritance := (inheritance s1)(name \<mapsto> info)\<rparr>)"
| "applyOp p (DefineMethod name methodName rng) s =
     s\<lparr>methods := (methods s)(name @ ''::'' @ methodName \<mapsto>
          getOrEmpty (methods s) (name @ ''::'' @ methodName) @
            [\<lparr>defName = methodName, defPath = p, defKind = ''method'', defRange = rng,
              defParent = Some name, defFqn = None\<rparr>])\<rparr>"

fun symbolOf :: "indexOp \<Rightarrow> string option" where
  "symbolOf (AddSymbol n) = Some n"
| "symbolOf op = None"

definition symbolsFound :: "indexOp list \<Rightarrow> string set" where
  "symbolsFound os = set (List.map_filter symbolOf os)"

definition addUsages :: "string \<Rightarrow> string set \<Rightarrow> indexer \<Rightarrow> indexer" where
  "addUsages u found s =
     s\<lparr>index := (\<lambda>symbol. if symbol \<in> found
                   then Some ((case index s symbol of None \<Rightarrow> {} | Some fs \<Rightarrow> fs) \<union> {u})
                   else index s symbol)\<rparr>"

text \<open>
  \<open>updateIndexForFile(uriStr, fsPath, ast)\<close> (lines 258-392): the entries of the URI parsed
  from \<open>uriStr\<close> are removed, the tree is traversed with definitions and methods stored
  under \<open>fsPath\<close>, and the usage index is updated with \<open>uriStr\<close> unless the traversal
  raised. \<open>scanFile\<close> (lines 208-215) passes \<open>uri.toString()\<close> and \<open>uri.fsPath\<close>; it takes
  what reading and parsing the file gave, \<open>None\<close> when either raised.
\<close>

definition updateIndexForFile :: "(string \<Rightarrow> vsUri) \<Rightarrow> string \<Rightarrow> string \<Rightarrow> jv \<Rightarrow> indexer \<Rightarrow> indexer" where
  "updateIndexForFile parse str path ast s =
     (let r = traverseProgram ast;
          s1 = fold (applyOp path) (ops r) (removeFile (parse str) s)
      in if threw r then s1 else addUsages str (symbolsFound (ops r)) s1)"

definition scanFile :: "(string \<Rightarrow> vsUri) \<Rightarrow> vsUri \<Rightarrow> jv option \<Rightarrow> indexer \<Rightarrow> indexer" where
  "scanFile parse uri parsed s =
     (let s0 = s\<lparr>files := files s \<union> {uriStr uri}\<rparr>
      in case parsed of
           None \<Rightarrow> s0
         | Some ast \<Rightarrow> updateIndexForFile parse (uriStr uri) (fsPath uri) ast s0)"

text \<open>
  \<open>rebuildIndex\<close> (lines 247-256) clears the four maps and then calls
  \<open>scanWorkspace\<close>.
\<close>

definition clearIndexes :: "indexer \<Rightarrow> indexer" where
  "clearIndexes s = s\<lparr>index := Map.empty, definitions := Map.empty, methods := Map.empty,
     inheritance := Map.empty\<rparr>"

section \<open>The workspace scan and its guard (indexer.ts)\<close>

text \<open>
  \<open>scanWorkspace\<close> (lines 121-206) is asynchronous: between its \<open>await\<close>s other calls
  and file events run. The model is a transition system over the indexer and the
  activations of \<open>scanWorkspace\<close> that have started and not yet ended. An activation
  is at one of three points: \<open>Starting\<close> (the guard is set, line 123), \<open>Finding\<close>
  (\<open>this.files.clear()\<close> is done, the file searches are awaited, lines 144-176) and
  \<open>Scanning fs\<close> (the loop of lines 190-199 with the files \<open>fs\<close> left, each with what
  reading and parsing it gives).
\<close>

datatype scanPhase =
    Starting
  | Finding
  | Scanning "(vsUri \<times> jv option) list"

record system =
  ix :: indexer
  scans :: "scanPhase list"

datatype event =
    Call
  | Rebuild
  | Advance
  | Throw
  | FileScanned vsUri "jv option"
  | FileRemoved vsUri

text \<open>
  What a call of \<open>scanWorkspace\<close> does before it first yields (lines 122-123), and
  \<open>rebuildIndex\<close> (lines 247-256), which clears the maps and calls it.
\<close>

definition scanWorkspaceCall :: "system \<Rightarrow> system" where
  "scanWorkspaceCall c =
     (if isIndexing (ix c) then c
      else c\<lparr>ix := (ix c)\<lparr>isIndexing := True\<rparr>, scans := scans c @ [Starting]\<rparr>)"

definition rebuildIndexCall :: "system \<Rightarrow> system" where
  "rebuildIndexCall c = scanWorkspaceCall (c\<lparr>ix := clearIndexes (ix c)\<rparr>)"

text \<open>
  The steps. \<open>Advance\<close> moves one activation to its next point: \<open>noFiles\<close> is the
  exit of lines 178-181 and \<open>complete\<close> the exit of line 204, the two places where the
  guard is cleared. \<open>Throw\<close> ends an activation by an exception at any point (a
  rejected \<open>findFiles\<close>, a failing editor call): nothing is written. \<open>FileScanned\<close>
  and \<open>FileRemoved\<close> are the file watcher's calls of \<open>scanFile\<close> and \<open>removeFile\<close>.
  What \<open>Uri.parse\<close> answers in a scan is left open.
\<close>

inductive step :: "system \<Rightarrow> event \<Rightarrow> system \<Rightarrow> bool" where
  call: "step c Call (scanWorkspaceCall c)"
| rebuild: "step c Rebuild (rebuildIndexCall c)"
| filesCleared:
    "scans c = before @ Starting # after \<Longrightarrow>
     step c Advance (c\<lparr>ix := (ix c)\<lparr>files := {}\<rparr>, scans := before @ Finding # after\<rparr>)"
| noFiles:
    "scans c = before @ Finding # after \<Longrightarrow>
     step c Advance (c\<lparr>ix := (ix c)\<lparr>isIndexing := False\<rparr>, scans := before @ after\<rparr>)"
| someFiles:
    "scans c = before @ Finding # after \<Longrightarrow> found \<noteq> [] \<Longrightarrow>
     step c Advance (c\<lparr>scans := before @ Scanning found # after\<rparr>)"
| nextFile:
    "scans c = before @ Scanning ((uri, parsed) # rest) # after \<Longrightarrow>
     step c Advance (c\<lparr>ix := scanFile parse uri parsed (ix c), scans := before @ Scanning rest # after\<rparr>)"
| complete:
    "scans c = before @ Scanning [] # after \<Longrightarrow>
     step c Advance (c\<lparr>ix := (ix c)\<lparr>isIndexing := False\<rparr>, scans := before @ after\<rparr>)"
| throw:
    "scans c = before @ phase # after \<Longrightarrow>
     step c Throw (c\<lparr>scans := before @ after\<rparr>)"
| fileScanned: "step c (FileScanned uri parsed) (c\<lparr>ix := scanFile parse uri parsed (ix c)\<rparr>)"
| fileRemoved: "step c (FileRemoved uri) (c\<lparr>ix := removeFile uri (ix c)\<rparr>)"

text \<open>
  The indexer as constructed, and the configurations a run reaches from a
  configuration.
\<close>

definition started :: system where
  "started = \<lparr>ix = emptyIndexer, scans = []\<rparr>"

inductive run :: "system \<Rightarrow> system \<Rightarrow> bool" where
  here: "run c c"
| further: "run c c' \<Longrightarrow> step c' e c'' \<Longrightarrow> run c c''"

section \<open>Text edits and AST walks (vscode API, shared helpers)\<close>

text \<open>
  \<open>vscode.TextEdit\<close>: a range and the text that replaces it. \<open>TextEdit.insert\<close> is a replacement
  of the empty range at a position, \<open>TextEdit.delete\<close> a replacement by the empty string.
\<close>

record textEdit =
  editRange :: vsRange
  newText :: string

definition replaceEdit :: "vsRange \<Rightarrow> string \<Rightarrow> textEdit" where
  "replaceEdit r t = \<lparr>editRange = r, newText = t\<rparr>"

definition insertEdit :: "position \<Rightarrow> string \<Rightarrow> textEdit" where
  "insertEdit p t = \<lparr>editRange = mkRange p p, newText = t\<rparr>"

definition deleteEdit :: "vsRange \<Rightarrow> textEdit" where
  "deleteEdit r = \<lparr>editRange = r, newText = []\<rparr>"

text \<open>
  \<open>vscode.WorkspaceEdit\<close>, restricted to text edits: its entries in the order they were
  added, each a resource and one edit. \<open>get\<close> returns the edits of a resource, \<open>replace\<close>
  adds one entry, and \<open>set\<close> with an array adds one entry for each element after the entries
  that are there: the edits a resource already has stay (the API text says "set (and replace)",
  the implementation appends).
\<close>

type_synonym workspaceEdit = "(string \<times> textEdit) list"

definition weGet :: "string \<Rightarrow> workspaceEdit \<Rightarrow> textEdit list" where
  "weGet uri we = map snd (filter (\<lambda>entry. fst entry = uri) we)"

definition weSet :: "string \<Rightarrow> textEdit list \<Rightarrow> workspaceEdit \<Rightarrow> workspaceEdit" where
  "weSet uri es we = we @ map (Pair uri) es"

definition weReplace :: "string \<Rightarrow> vsRange \<Rightarrow> string \<Rightarrow> workspaceEdit \<Rightarrow> workspaceEdit" where
  "weReplace uri r t we = we @ [(uri, replaceEdit r t)]"

text \<open>\<open>String.prototype.endsWith\<close> and \<open>String.prototype.includes\<close>.\<close>

definition endsWith :: "string \<Rightarrow> string \<Rightarrow> bool" where
  "endsWith s t \<longleftrightarrow> prefix (rev t) (rev s)"

fun strIncludes :: "string \<Rightarrow> string \<Rightarrow> bool" where
  "strIncludes [] t = (t = [])"
| "strIncludes (c # s) t = (prefix t (c # s) \<or> strIncludes s t)"

text \<open>
  The AST walks of the extension are closures that push to an array or write to a map while
  they recurse. Here a walk threads its accumulator \<open>acc\<close>; \<open>failed\<close> records that a
  \<open>TypeError\<close> was thrown, after which nothing more is done. \<open>forEach f nodes\<close> is
  \<open>for (const node of nodes) { ... node.kind ... }\<close>: it throws when \<open>nodes\<close> is not
  iterable and when an element is \<open>null\<close>, since every loop body starts by reading a property
  of the element.
\<close>

record 'a walk =
  acc :: 'a
  failed :: bool

definition fail :: "'a walk \<Rightarrow> 'a walk" where
  "fail st = st\<lparr>failed := True\<rparr>"

definition forEach :: "(jv \<Rightarrow> 'a walk \<Rightarrow> 'a walk) \<Rightarrow> jv \<Rightarrow> 'a walk \<Rightarrow> 'a walk" where
  "forEach f nodes st =
     (if failed st then st
      else case elems nodes of
             None \<Rightarrow> fail st
           | Some xs \<Rightarrow> fold (\<lambda>node st. if failed st then st
                                      else if node = JNull then fail st
                                      else f node st) xs st)"

lemma forEach_cong [fundef_cong]:
  assumes "nodes = nodes'" "st = st'"
    and "\<And>x s. elems nodes' \<noteq> None \<Longrightarrow> x \<in> set (the (elems nodes')) \<Longrightarrow> x \<noteq> JNull \<Longrightarrow> f x s = g x s"
  shows "forEach f nodes st = forEach g nodes' st'"
proof (cases "elems nodes'")
  case None
  then show ?thesis using assms by (simp add: forEach_def)
next
  case (Some xs)
  have "fold (\<lambda>node st. if failed st then st else if node = JNull then fail st else f node st) ys s
      = fold (\<lambda>node st. if failed st then st else if node = JNull then fail st else g node st) ys s"
    if "set ys \<subseteq> set xs" for ys s
    using that
  proof (induction ys arbitrary: s)
    case Nil
    then show ?case by simp
  next
    case (Cons y ys)
    then have "y \<noteq> JNull \<Longrightarrow> f y s = g y s" using assms(3)[of y s] Some by simp
    with Cons show ?case by simp
  qed
  then show ?thesis using assms(1,2) Some by (simp add: forEach_def)
qed

lemma size_the_elems_field:
  "elems (field k n) \<noteq> None \<Longrightarrow> x \<in> set (the (elems (field k n))) \<Longrightarrow> size x < size n"
  by (auto dest: size_elems_field)

lemma size_the_elems_field2:
  "elems (field k2 (field k n)) \<noteq> None \<Longrightarrow> x \<in> set (the (elems (field k2 (field k n)))) \<Longrightarrow> size x < size n"
  by (auto dest: size_elems_field2)

text \<open>
  Helpers of \<open>findMethodUsages\<close> (refactorPreview.ts, lines 673-689): \<open>getName\<close> and
  \<open>resolveType\<close>. \<open>isSome\<close> is the truthiness of a \<open>string | null\<close>, \<open>orElse v d\<close> is
  \<open>v || d\<close>, and \<open>matchesTarget\<close> is the test
  \<open>target.endsWith(t) || t === target || target.endsWith('\\' + t)\<close> that the function repeats
  for every type it resolves.
\<close>

definition partStr :: "jv \<Rightarrow> string" where
  "partStr v = (if v = JNull then [] else jsToString v)"

definition getName :: "jv \<Rightarrow> string option" where
  "getName n =
     (if \<not> truthy n then None
      else case n of
             JStr s \<Rightarrow> Some s
           | _ \<Rightarrow> (case field ''name'' n of
                     JStr s \<Rightarrow> Some s
                   | _ \<Rightarrow> (case field ''parts'' n of
                             JArr ps \<Rightarrow> Some (joinWith [bsl] (map partStr ps))
                           | _ \<Rightarrow> None)))"

definition resolveType :: "jv \<Rightarrow> string option" where
  "resolveType node =
     (if truthy node \<and> field ''kind'' node = JStr ''new'' \<and> truthy (field ''what'' node)
      then getName (field ''what'' node) else None)"

definition isSome :: "string option \<Rightarrow> bool" where
  "isSome v = (case v of None \<Rightarrow> False | Some s \<Rightarrow> s \<noteq> [])"

definition matchesTarget :: "string \<Rightarrow> string \<Rightarrow> bool" where
  "matchesTarget targetClassFqn t \<longleftrightarrow>
     endsWith targetClassFqn t \<or> t = targetClassFqn \<or> endsWith targetClassFqn (bsl # t)"

definition orElse :: "string option \<Rightarrow> string \<Rightarrow> string" where
  "orElse v d = (case v of None \<Rightarrow> d | Some s \<Rightarrow> if s = [] then d else s)"


lemma size_snd_mem: "kv \<in> set ps \<Longrightarrow> size (snd kv) < size (JObj ps)"
proof (induction ps)
  case Nil
  then show ?case by simp
next
  case (Cons p ps)
  then show ?case by (cases p; cases kv) auto
qed

lemma size_arr_mem: "x \<in> set xs \<Longrightarrow> size x < size (JArr xs)"
  using size_mem[of x xs] by simp

lemma size_snd_arr:
  "kv \<in> set ps \<Longrightarrow> elems (snd kv) \<noteq> None \<Longrightarrow> x \<in> set (the (elems (snd kv)))
     \<Longrightarrow> size x < size (JObj ps)"
  using size_snd_mem[of kv ps] size_elems[of "snd kv" _ x] by auto
section \<open>Method rename from the command (refactorPreview.ts)\<close>

subsection \<open>findMethodUsages\<close>

text \<open>
  The constants of one call of \<open>findMethodUsages\<close> (target class, old and new method name, the
  two maps of phases 1 and 2) and the state of phase 3: the map \<open>scope\<close> from variable names
  to class names and the edits pushed so far.
\<close>

record usageCtx =
  targetClassFqn :: string
  oldMethod :: string
  newMethod :: string
  importTable :: "string \<rightharpoonup> string"
  classProperties :: "string \<rightharpoonup> string"

record usageState =
  scope :: "string \<rightharpoonup> string"
  usageEdits :: "textEdit list"

text \<open>Phase 1 (lines 691-710): short name to FQN for every item of every \<open>use\<close> group.\<close>

definition addImport :: "jv \<Rightarrow> (string \<rightharpoonup> string) walk \<Rightarrow> (string \<rightharpoonup> string) walk" where
  "addImport item st =
     (case getName (field ''name'' item) of
        None \<Rightarrow> st
      | Some fqn \<Rightarrow>
          if fqn \<noteq> [] \<and> lastPart fqn \<noteq> []
          then st\<lparr>acc := (acc st)(lastPart fqn \<mapsto> fqn)\<rparr> else st)"

function collectImports :: "jv \<Rightarrow> (string \<rightharpoonup> string) walk \<Rightarrow> (string \<rightharpoonup> string) walk" where
  "collectImports node st =
     (let st1 = (if field ''kind'' node = JStr ''usegroup'' \<and> truthy (field ''items'' node)
                 then forEach addImport (field ''items'' node) st else st)
      in if truthy (field ''children'' node)
         then forEach collectImports (field ''children'' node) st1 else st1)"
  by pat_completeness auto
termination
  by (relation "measure (\<lambda>(node, st). size node)") (auto dest: size_elems_field)

text \<open>Phase 2 (lines 712-737): the declared type of every typed class property.\<close>

definition addProperty :: "(string \<rightharpoonup> string) \<Rightarrow> jv \<Rightarrow> jv \<Rightarrow> (string \<rightharpoonup> string) walk
    \<Rightarrow> (string \<rightharpoonup> string) walk" where
  "addProperty imps member prop st =
     (case getName prop of
        None \<Rightarrow> st
      | Some propName \<Rightarrow>
          if propName \<noteq> [] \<and> truthy (field ''type'' member) then
            (case getName (field ''type'' member) of
               None \<Rightarrow> st
             | Some typeName \<Rightarrow>
                 if typeName \<noteq> []
                 then st\<lparr>acc := (acc st)(propName \<mapsto> orElse (imps typeName) typeName)\<rparr>
                 else st)
          else st)"

definition addMember :: "(string \<rightharpoonup> string) \<Rightarrow> jv \<Rightarrow> (string \<rightharpoonup> string) walk
    \<Rightarrow> (string \<rightharpoonup> string) walk" where
  "addMember imps member st =
     (if field ''kind'' member = JStr ''propertystatement'' then
        (if truthy (field ''properties'' member)
         then forEach (addProperty imps member) (field ''properties'' member) st
         else st)
      else st)"

function collectClassProperties :: "(string \<rightharpoonup> string) \<Rightarrow> jv \<Rightarrow> (string \<rightharpoonup> string) walk
    \<Rightarrow> (string \<rightharpoonup> string) walk" where
  "collectClassProperties imps node st =
     (let st1 = (if field ''kind'' node = JStr ''class'' \<and> truthy (field ''body'' node)
                 then forEach (addMember imps) (field ''body'' node) st else st)
      in if truthy (field ''children'' node)
         then forEach (collectClassProperties imps) (field ''children'' node) st1 else st1)"
  by pat_completeness auto
termination
  by (relation "measure (\<lambda>(imps, node, st). size node)") (auto dest: size_elems_field)

text \<open>
  Phase 3 (lines 739-924). \<open>bindArg\<close> binds a typed parameter whose type matches the target
  (lines 753-770), \<open>trackAssign\<close> is step 2 (lines 780-819), \<open>receiverValid\<close> computes the flag
  \<open>valid\<close> of step 3 (lines 836-885) and \<open>renameCall\<close> is step 3 as a whole (lines 823-900).
  A receiver named \<open>this\<close> is valid whatever class encloses the call (lines 839-841).
\<close>

definition bindArg :: "usageCtx \<Rightarrow> jv \<Rightarrow> usageState walk \<Rightarrow> usageState walk" where
  "bindArg ctx arg st =
     (if truthy (field ''type'' arg) then
        (case (getName (field ''type'' arg), getName (field ''name'' arg)) of
           (Some typeName, Some varName) \<Rightarrow>
             if typeName \<noteq> [] \<and> varName \<noteq> [] \<and>
                matchesTarget (targetClassFqn ctx) (orElse (importTable ctx typeName) typeName)
             then st\<lparr>acc := (acc st)\<lparr>scope := (scope (acc st))(varName \<mapsto> targetClassFqn ctx)\<rparr>\<rparr>
             else st
         | _ \<Rightarrow> st)
      else st)"

definition setScope :: "string \<Rightarrow> string \<Rightarrow> usageState walk \<Rightarrow> usageState walk" where
  "setScope v t st = st\<lparr>acc := (acc st)\<lparr>scope := (scope (acc st))(v \<mapsto> t)\<rparr>\<rparr>"

definition thisProperty :: "usageCtx \<Rightarrow> jv \<Rightarrow> bool" where
  "thisProperty ctx propLookup \<longleftrightarrow>
     truthy (field ''what'' propLookup) \<and>
     field ''kind'' (field ''what'' propLookup) = JStr ''variable'' \<and>
     getName (field ''what'' propLookup) = Some ''this'' \<and>
     (case getName (field ''offset'' propLookup) of
        None \<Rightarrow> False
      | Some propName \<Rightarrow>
          propName \<noteq> [] \<and>
          (case classProperties ctx propName of
             None \<Rightarrow> False
           | Some propType \<Rightarrow> propType \<noteq> [] \<and> matchesTarget (targetClassFqn ctx) propType))"

definition trackAssign :: "usageCtx \<Rightarrow> jv \<Rightarrow> usageState walk \<Rightarrow> usageState walk" where
  "trackAssign ctx node st =
     (if field ''kind'' node = JStr ''assign'' \<and> truthy (field ''left'' node) \<and>
         truthy (field ''right'' node) \<and> field ''kind'' (field ''left'' node) = JStr ''variable''
      then
        (case getName (field ''left'' node) of
           None \<Rightarrow> st
         | Some varName \<Rightarrow>
             if varName = [] then st
             else if isSome (resolveType (field ''right'' node)) then
               (if matchesTarget (targetClassFqn ctx)
                     (orElse (importTable ctx (orElse (resolveType (field ''right'' node)) []))
                             (orElse (resolveType (field ''right'' node)) []))
                then setScope varName (targetClassFqn ctx) st else st)
             else if field ''kind'' (field ''right'' node) = JStr ''variable'' then
               (case getName (field ''right'' node) of
                  None \<Rightarrow> st
                | Some sourceVar \<Rightarrow>
                    if sourceVar = [] then st
                    else (case scope (acc st) sourceVar of
                            None \<Rightarrow> st
                          | Some sourceType \<Rightarrow>
                              if sourceType = [] then st else setScope varName sourceType st))
             else if field ''kind'' (field ''right'' node) = JStr ''propertylookup'' then
               (if thisProperty ctx (field ''right'' node)
                then setScope varName (targetClassFqn ctx) st else st)
             else st)
      else st)"

definition receiverValid :: "usageCtx \<Rightarrow> (string \<rightharpoonup> string) \<Rightarrow> jv \<Rightarrow> bool" where
  "receiverValid ctx sc what =
     (if field ''kind'' what = JStr ''variable'' then
        (case getName what of
           None \<Rightarrow> False
         | Some varName \<Rightarrow>
             if varName = ''this'' then True
             else varName \<noteq> [] \<and> sc varName = Some (targetClassFqn ctx))
      else if field ''kind'' what = JStr ''propertylookup'' then thisProperty ctx what
      else if field ''kind'' what = JStr ''new'' then
        (case resolveType what of
           None \<Rightarrow> False
         | Some t \<Rightarrow> t \<noteq> [] \<and> matchesTarget (targetClassFqn ctx) (orElse (importTable ctx t) t))
      else False)"

definition renameCall :: "usageCtx \<Rightarrow> jv \<Rightarrow> usageState walk \<Rightarrow> usageState walk" where
  "renameCall ctx node st =
     (if field ''kind'' node = JStr ''call'' \<and> truthy (field ''what'' node) \<and>
         field ''kind'' (field ''what'' node) = JStr ''propertylookup''
      then
        (let propLookup = field ''what'' node
         in if getName (field ''offset'' propLookup) = Some (oldMethod ctx) then
              (if field ''what'' propLookup = JNull then fail st
               else if receiverValid ctx (scope (acc st)) (field ''what'' propLookup) then
                 (case locRange (field ''loc'' (field ''offset'' propLookup)) of
                    None \<Rightarrow> st
                  | Some r \<Rightarrow>
                      st\<lparr>acc := (acc st)\<lparr>usageEdits :=
                            usageEdits (acc st) @ [replaceEdit r (newMethod ctx)]\<rparr>\<rparr>)
               else st)
            else st)
      else st)"

text \<open>
  The traversal itself. A function, method or closure gets a copy of the scope, so what it binds
  is dropped when it ends; everything else works on the scope it was given. After the explicit
  descent into class bodies and namespace children, every other property that holds a node or
  a non-empty array starting with a node is visited (\<open>for (const key in node)\<close>, lines 912-922).
\<close>

definition skippedKeys :: "string set" where
  "skippedKeys = {''loc'', ''kind'', ''name'', ''what'', ''type'', ''body'', ''children''}"

definition functionLike :: "jv \<Rightarrow> bool" where
  "functionLike node \<longleftrightarrow> field ''kind'' node = JStr ''function'' \<or> field ''kind'' node = JStr ''method''
     \<or> field ''kind'' node = JStr ''closure''"

definition bodyNodes :: "jv \<Rightarrow> jv" where
  "bodyNodes body = (if isArray body then body
                     else if truthy (field ''children'' body) then field ''children'' body
                     else JArr [])"

lemma size_bodyNodes:
  "elems (bodyNodes (field ''body'' n)) = Some xs \<Longrightarrow> x \<in> set xs \<Longrightarrow> size x < size n"
  by (auto simp: bodyNodes_def split: if_splits dest: size_elems_field size_elems_field2)

function traverseUsages :: "usageCtx \<Rightarrow> jv \<Rightarrow> usageState walk \<Rightarrow> usageState walk" where
  "traverseUsages ctx node st =
     (if functionLike node then
        (let st1 = (if truthy (field ''arguments'' node)
                    then forEach (bindArg ctx) (field ''arguments'' node) st else st);
             st2 = (if truthy (field ''body'' node)
                    then forEach (traverseUsages ctx) (bodyNodes (field ''body'' node)) st1
                    else st1)
         in st2\<lparr>acc := (acc st2)\<lparr>scope := scope (acc st)\<rparr>\<rparr>)
      else
        (let st1 = trackAssign ctx node st;
             st2 = renameCall ctx node st1;
             st3 = (if field ''kind'' node = JStr ''class'' \<and> truthy (field ''body'' node)
                    then forEach (traverseUsages ctx) (field ''body'' node) st2 else st2);
             st4 = (if field ''kind'' node = JStr ''namespace'' \<and> truthy (field ''children'' node)
                    then forEach (traverseUsages ctx) (field ''children'' node) st3 else st3)
         in (case node of
               JObj ps \<Rightarrow>
                 fold (\<lambda>kv st. if failed st \<or> fst kv \<in> skippedKeys then st
                               else (case snd kv of
                                       JArr xs \<Rightarrow>
                                         (case xs of
                                            [] \<Rightarrow> st
                                          | JNull # _ \<Rightarrow> fail st
                                          | JObj qs # _ \<Rightarrow>
                                              if truthy (field ''kind'' (JObj qs))
                                              then forEach (traverseUsages ctx) (snd kv) st else st
                                          | _ \<Rightarrow> st)
                                     | JObj qs \<Rightarrow>
                                         if truthy (field ''kind'' (snd kv))
                                         then traverseUsages ctx (snd kv) st else st
                                     | _ \<Rightarrow> st)) ps st4
             | _ \<Rightarrow> st4)))"
  by pat_completeness auto
termination
  by (relation "measure (\<lambda>(ctx, node, st). size node)")
     (auto dest: size_elems_field size_bodyNodes size_snd_arr size_snd_mem)

text \<open>
  \<open>findMethodUsages\<close>: \<open>None\<close> when one of the three phases throws (the caller catches it
  and skips the file), otherwise the edits in the order they were pushed.
\<close>

definition findMethodUsages :: "jv \<Rightarrow> string \<Rightarrow> string \<Rightarrow> string \<Rightarrow> textEdit list option" where
  "findMethodUsages ast target old new =
     (if \<not> truthy ast \<or> \<not> truthy (field ''children'' ast) then Some []
      else
        let imps = forEach collectImports (field ''children'' ast) \<lparr>acc = Map.empty, failed = False\<rparr>
        in if failed imps then None
           else
             let props = forEach (collectClassProperties (acc imps)) (field ''children'' ast)
                           \<lparr>acc = Map.empty, failed = False\<rparr>
             in if failed props then None
                else
                  let r = forEach (traverseUsages \<lparr>targetClassFqn = target, oldMethod = old,
                                      newMethod = new, importTable = acc imps,
                                      classProperties = acc props\<rparr>)
                            (field ''children'' ast)
                            \<lparr>acc = \<lparr>scope = Map.empty, usageEdits = []\<rparr>, failed = False\<rparr>
                  in if failed r then None else Some (usageEdits (acc r)))"

subsection \<open>getClassNameFromFile, getNamespaceFromAst\<close>

text \<open>
  Both return at the first match in document order (lines 157-183). \<open>Raised\<close> is a
  \<open>TypeError\<close>; \<open>Found None\<close> is a name that is not a string.
\<close>

datatype 'a search = Raised | NotFound | Found 'a

definition classNameOf :: "jv \<Rightarrow> string option search" where
  "classNameOf node =
     (case field ''name'' node of
        JStr s \<Rightarrow> Found (Some s)
      | JNull \<Rightarrow> Raised
      | v \<Rightarrow> Found (strOf (field ''name'' v)))"

fun firstClassIn :: "jv list \<Rightarrow> string option search" where
  "firstClassIn [] = NotFound"
| "firstClassIn (child # children) =
     (if child = JNull then Raised
      else if classLike child then classNameOf child
      else firstClassIn children)"

fun firstClassName :: "jv list \<Rightarrow> string option search" where
  "firstClassName [] = NotFound"
| "firstClassName (node # nodes) =
     (if node = JNull then Raised
      else if field ''kind'' node = JStr ''namespace'' \<and> truthy (field ''children'' node) then
        (case elems (field ''children'' node) of
           None \<Rightarrow> Raised
         | Some children \<Rightarrow>
             (case firstClassIn children of
                NotFound \<Rightarrow> firstClassName nodes
              | r \<Rightarrow> r))
      else if classLike node then classNameOf node
      else firstClassName nodes)"

definition getClassNameFromFile :: "jv \<Rightarrow> string option search" where
  "getClassNameFromFile ast =
     (if \<not> truthy ast \<or> \<not> truthy (field ''children'' ast) then NotFound
      else case elems (field ''children'' ast) of
             None \<Rightarrow> Raised
           | Some nodes \<Rightarrow> firstClassName nodes)"

fun firstNamespace :: "jv list \<Rightarrow> jv search" where
  "firstNamespace [] = NotFound"
| "firstNamespace (node # nodes) =
     (if node = JNull then Raised
      else if field ''kind'' node = JStr ''namespace'' then
        (case field ''name'' node of
           JStr s \<Rightarrow> Found (JStr s)
         | JNull \<Rightarrow> Raised
         | v \<Rightarrow> Found (if truthy (field ''name'' v) then field ''name'' v else v))
      else firstNamespace nodes)"

definition getNamespaceFromAst :: "jv \<Rightarrow> jv search" where
  "getNamespaceFromAst ast =
     (if \<not> truthy ast \<or> \<not> truthy (field ''children'' ast) then NotFound
      else case elems (field ''children'' ast) of
             None \<Rightarrow> Raised
           | Some nodes \<Rightarrow> firstNamespace nodes)"

subsection \<open>createMethodRenameEdit\<close>

text \<open>
  \<open>updateDefTraverse\<close> (lines 604-620) pushes a replacement for the name of every method called
  \<open>oldName\<close> that it reaches through \<open>children\<close> and array-valued \<open>body\<close>, in any class of the
  file.
\<close>

function updateDefTraverse :: "string \<Rightarrow> string \<Rightarrow> jv \<Rightarrow> textEdit list walk \<Rightarrow> textEdit list walk" where
  "updateDefTraverse oldName newName node st =
     (let st1 = (if field ''kind'' node = JStr ''method'' then
                   (if field ''name'' node = JNull then fail st
                    else if field ''name'' (field ''name'' node) = JStr oldName then
                      (case locRange (field ''loc'' (field ''name'' node)) of
                         None \<Rightarrow> st
                       | Some r \<Rightarrow> st\<lparr>acc := acc st @ [replaceEdit r newName]\<rparr>)
                    else st)
                 else st);
          st2 = (if truthy (field ''children'' node)
                 then forEach (updateDefTraverse oldName newName) (field ''children'' node) st1
                 else st1)
      in if truthy (field ''body'' node) \<and> isArray (field ''body'' node)
         then forEach (updateDefTraverse oldName newName) (field ''body'' node) st2
         else st2)"
  by pat_completeness auto
termination
  by (relation "measure (\<lambda>(oldName, newName, node, st). size node)") (auto dest: size_elems_field)

text \<open>
  A PHP file of the workspace as the function sees it: its URI, its text (\<open>None\<close> when
  \<open>getFileContent\<close> rejects) and the AST the parser gives for that text (\<open>None\<close> when
  \<open>parseCode\<close> throws). \<open>mentions\<close> is the textual pre-scan of lines 627-635, \<open>scanUsages\<close>
  the body of the loop of lines 638-653.

  \<open>fullClassNameOf\<close> is the target of the rename (lines 591-599): the first class of the
  file under the cursor, qualified by the first namespace; \<open>NotFound\<close> when the file has no
  class. \<open>renameWith select\<close> is \<open>createMethodRenameEdit\<close> with the choice of the files to analyse
  left open; the function of the source analyses the files that pass the pre-scan. The optional
  parameter \<open>range\<close> is not read by the function and so is not a parameter here. \<open>Rejected\<close>
  is a rejected promise, \<open>NoTarget\<close> the result \<open>null\<close>.
\<close>

record phpFile =
  fileUri :: vsUri
  fileText :: "string option"
  fileAst :: "jv option"

datatype renameResult = Rejected | NoTarget | Edits workspaceEdit

definition mentions :: "string \<Rightarrow> phpFile \<Rightarrow> bool" where
  "mentions oldName file =
     (case fileText file of
        None \<Rightarrow> False
      | Some txt \<Rightarrow> strIncludes txt (''->'' @ oldName) \<or> strIncludes txt (''::'' @ oldName))"

definition scanUsages :: "string \<Rightarrow> string \<Rightarrow> string \<Rightarrow> phpFile \<Rightarrow> workspaceEdit \<Rightarrow> workspaceEdit" where
  "scanUsages fullClassName oldName newName file edit =
     (case fileText file of
        None \<Rightarrow> edit
      | Some txt \<Rightarrow>
          (case fileAst file of
             None \<Rightarrow> edit
           | Some ast \<Rightarrow>
               (case findMethodUsages ast fullClassName oldName newName of
                  None \<Rightarrow> edit
                | Some fileEdits \<Rightarrow>
                    if fileEdits \<noteq> [] then weSet (uriStr (fileUri file)) fileEdits edit else edit)))"

definition fullClassNameOf :: "jv \<Rightarrow> string search" where
  "fullClassNameOf ast =
     (case getClassNameFromFile ast of
        Raised \<Rightarrow> Raised
      | r \<Rightarrow>
          (case getNamespaceFromAst ast of
             Raised \<Rightarrow> Raised
           | ns \<Rightarrow>
               (case r of
                  Found (Some cls) \<Rightarrow>
                    if cls = [] then NotFound
                    else
                      let namespace = (case ns of Found v \<Rightarrow> v | _ \<Rightarrow> JNull)
                      in Found (if truthy namespace then jsToString namespace @ bsl # cls else cls)
                | _ \<Rightarrow> NotFound)))"

definition renameWith :: "(phpFile list \<Rightarrow> phpFile list) \<Rightarrow> phpFile \<Rightarrow> string \<Rightarrow> string
    \<Rightarrow> phpFile list \<Rightarrow> renameResult" where
  "renameWith select cursor oldName newName phpFiles =
     (case fileText cursor of
        None \<Rightarrow> Rejected
      | Some content \<Rightarrow>
          (case fileAst cursor of
             None \<Rightarrow> Rejected
           | Some ast \<Rightarrow>
               (case fullClassNameOf ast of
                  Raised \<Rightarrow> Rejected
                | NotFound \<Rightarrow> NoTarget
                | Found fullClassName \<Rightarrow>
                    let defs = (if truthy (field ''children'' ast)
                                then forEach (updateDefTraverse oldName newName)
                                       (field ''children'' ast) \<lparr>acc = [], failed = False\<rparr>
                                else \<lparr>acc = [], failed = False\<rparr>)
                    in if failed defs then Rejected
                       else Edits (fold (scanUsages fullClassName oldName newName)
                                     (select phpFiles)
                                     (fold (\<lambda>e. weReplace (uriStr (fileUri cursor))
                                                      (editRange e) (newText e))
                                           (acc defs) [])))))"

definition createMethodRenameEdit :: "phpFile \<Rightarrow> string \<Rightarrow> string \<Rightarrow> phpFile list \<Rightarrow> renameResult" where
  "createMethodRenameEdit cursor oldName newName phpFiles =
     renameWith (filter (mentions oldName)) cursor oldName newName phpFiles"
section \<open>The rename provider (part_010, PhpRenameProvider.provideRenameEdits)\<close>

text \<open>
  \<open>firstOf f nodes\<close> is a loop \<open>for (const node of nodes) { if (f(node)) return true }\<close>:
  the first element on which \<open>f\<close> finds something (or throws) ends it.
\<close>

definition firstOf :: "(jv \<Rightarrow> 'a search) \<Rightarrow> jv \<Rightarrow> 'a search" where
  "firstOf f nodes =
     (case elems nodes of
        None \<Rightarrow> Raised
      | Some xs \<Rightarrow> fold (\<lambda>node r. case r of
                                     NotFound \<Rightarrow> if node = JNull then Raised else f node
                                   | _ \<Rightarrow> r) xs NotFound)"

lemma firstOf_cong [fundef_cong]:
  assumes "nodes = nodes'"
    and "\<And>x. elems nodes' \<noteq> None \<Longrightarrow> x \<in> set (the (elems nodes')) \<Longrightarrow> x \<noteq> JNull \<Longrightarrow> f x = g x"
  shows "firstOf f nodes = firstOf g nodes'"
proof (cases "elems nodes'")
  case None
  then show ?thesis using assms by (simp add: firstOf_def)
next
  case (Some xs)
  have "fold (\<lambda>node r. case r of NotFound \<Rightarrow> if node = JNull then Raised else f node | _ \<Rightarrow> r) ys r
      = fold (\<lambda>node r. case r of NotFound \<Rightarrow> if node = JNull then Raised else g node | _ \<Rightarrow> r) ys r"
    if "set ys \<subseteq> set xs" for ys r
    using that
  proof (induction ys arbitrary: r)
    case Nil
    then show ?case by simp
  next
    case (Cons y ys)
    then have "y \<noteq> JNull \<Longrightarrow> f y = g y" using assms(2)[of y] Some by simp
    with Cons show ?case by (cases r) simp_all
  qed
  then show ?thesis using assms(1) Some by (simp add: firstOf_def)
qed

subsection \<open>Step 1: the method under the cursor\<close>

text \<open>
  \<open>findMethodContext\<close> (lines 133-182) looks for a method called \<open>oldName\<close> whose location
  contains the cursor, and returns the name and kind of the class, interface or trait that
  holds it. The source compares character offsets (\<open>document.offsetAt\<close>); positions are
  compared here, which is the same order on the positions of one document.
\<close>

record renameTarget =
  targetClassName :: string
  targetType :: string

definition within :: "position \<Rightarrow> vsRange \<Rightarrow> bool" where
  "within p r \<longleftrightarrow> \<not> posLess p (rangeStart r) \<and> \<not> posLess (rangeEnd r) p"

definition checkBody :: "string \<Rightarrow> position \<Rightarrow> jv \<Rightarrow> jv \<Rightarrow> renameTarget search" where
  "checkBody oldName cursor classNode bodyNode =
     (if field ''kind'' bodyNode = JStr ''method'' \<and> truthy (field ''loc'' bodyNode) then
        (case nameOf bodyNode of
           None \<Rightarrow> Raised
         | Some methodName \<Rightarrow>
             if methodName = oldName then
               (case locRange (field ''loc'' bodyNode) of
                  None \<Rightarrow> Raised
                | Some r \<Rightarrow>
                    if within cursor r then
                      (case nameOf classNode of
                         None \<Rightarrow> Raised
                       | Some c \<Rightarrow> Found \<lparr>targetClassName = c, targetType = kindOf classNode\<rparr>)
                    else NotFound)
             else NotFound)
      else NotFound)"

definition bodyOf :: "jv \<Rightarrow> jv" where
  "bodyOf node = (if isArray (field ''body'' node) then field ''body'' node
                  else field ''children'' (field ''body'' node))"

lemma size_bodyOf:
  "elems (bodyOf n) = Some xs \<Longrightarrow> x \<in> set xs \<Longrightarrow> size x < size n"
  by (auto simp: bodyOf_def split: if_splits dest: size_elems_field size_elems_field2)

function findMethodContext :: "string \<Rightarrow> position \<Rightarrow> jv \<Rightarrow> renameTarget search" where
  "findMethodContext oldName cursor node =
     (case (if classLike node then
              (case nameOf node of
                 None \<Rightarrow> Raised
               | Some c \<Rightarrow>
                   (case (if truthy (field ''body'' node) \<and> truthy (bodyOf node)
                          then firstOf (checkBody oldName cursor node) (bodyOf node)
                          else NotFound) of
                      NotFound \<Rightarrow>
                        if truthy (field ''children'' node)
                        then firstOf (findMethodContext oldName cursor) (field ''children'' node)
                        else NotFound
                    | r \<Rightarrow> r))
            else NotFound) of
        NotFound \<Rightarrow>
          if truthy (field ''children'' node)
          then firstOf (findMethodContext oldName cursor) (field ''children'' node)
          else NotFound
      | r \<Rightarrow> r)"
  by pat_completeness auto
termination
  by (relation "measure (\<lambda>(oldName, cursor, node). size node)") (auto dest: size_elems_field)

text \<open>\<open>Indexer.getImplementations(i).includes(c)\<close> (part_005, lines 107-115).\<close>

definition isImplementation :: "indexer \<Rightarrow> string \<Rightarrow> string \<Rightarrow> bool" where
  "isImplementation s interfaceName c =
     (case inheritance s c of
        None \<Rightarrow> False
      | Some info \<Rightarrow> JStr interfaceName \<in> set (implementsNames info))"

subsection \<open>The traversal of one file\<close>

text \<open>
  What one run of the provider fixes (old and new name, the target of step 1 when the rename
  is a method rename, membership in \<open>targetImplementations\<close>) and the state of the traversal
  of one file. The map \<open>variableTypes\<close> is created empty for each file (line 240) and never
  written.
\<close>

record renameCtx =
  renOld :: string
  renNew :: string
  renTarget :: "renameTarget option"
  renImplements :: "string \<Rightarrow> bool"

record renameState =
  currentClassName :: "string option"
  renameEdits :: "textEdit list"

definition isMethodRename :: "renameCtx \<Rightarrow> bool" where
  "isMethodRename ctx \<longleftrightarrow> renTarget ctx \<noteq> None"

definition variableTypes :: "string \<rightharpoonup> string" where
  "variableTypes = Map.empty"

definition interfaceTarget :: "renameCtx \<Rightarrow> bool" where
  "interfaceTarget ctx = (case renTarget ctx of None \<Rightarrow> False | Some t \<Rightarrow> targetType t = ''interface'')"

definition isTarget :: "renameCtx \<Rightarrow> string option \<Rightarrow> bool" where
  "isTarget ctx c = (case (renTarget ctx, c) of (Some t, Some n) \<Rightarrow> n = targetClassName t | _ \<Rightarrow> False)"

definition isImplementor :: "renameCtx \<Rightarrow> string option \<Rightarrow> bool" where
  "isImplementor ctx c = (interfaceTarget ctx \<and> (case c of None \<Rightarrow> False | Some n \<Rightarrow> renImplements ctx n))"

definition addEdit :: "renameCtx \<Rightarrow> jv \<Rightarrow> renameState walk \<Rightarrow> renameState walk" where
  "addEdit ctx node st =
     (case locRange (field ''loc'' node) of
        None \<Rightarrow> st
      | Some r \<Rightarrow> st\<lparr>acc := (acc st)\<lparr>renameEdits := renameEdits (acc st) @ [replaceEdit r (renNew ctx)]\<rparr>\<rparr>)"

definition isObject :: "jv \<Rightarrow> bool" where
  "isObject v = (case v of JObj ps \<Rightarrow> True | JArr xs \<Rightarrow> True | JLoc a b c d \<Rightarrow> True | _ \<Rightarrow> False)"

text \<open>
  The cases of the loop body (lines 259-421): method definitions of the target class or of an
  implementor, \<open>use\<close> items, name nodes, property lookups and static lookups.
\<close>

definition checkMethods :: "renameCtx \<Rightarrow> jv \<Rightarrow> renameState walk \<Rightarrow> renameState walk" where
  "checkMethods ctx bodyNode st =
     (if field ''kind'' bodyNode = JStr ''method'' then
        (case nameOf bodyNode of
           None \<Rightarrow> fail st
         | Some methodName \<Rightarrow>
             if methodName = renOld ctx \<and> isObject (field ''name'' bodyNode)
             then addEdit ctx (field ''name'' bodyNode) st else st)
      else st)"

definition replaceSuffix :: "string \<Rightarrow> string \<Rightarrow> string \<Rightarrow> string" where
  "replaceSuffix s old new = take (length s - length old) s @ new"

definition renameUseItem :: "renameCtx \<Rightarrow> jv \<Rightarrow> renameState walk \<Rightarrow> renameState walk" where
  "renameUseItem ctx item st =
     (case field ''name'' item of
        JStr n \<Rightarrow>
          if endsWith n (bsl # renOld ctx) \<or> n = renOld ctx then
            (case locRange (field ''loc'' item) of
               None \<Rightarrow> fail st
             | Some r \<Rightarrow> st\<lparr>acc := (acc st)\<lparr>renameEdits := renameEdits (acc st) @
                              [replaceEdit r (replaceSuffix n (renOld ctx) (renNew ctx))]\<rparr>\<rparr>)
          else st
      | _ \<Rightarrow> fail st)"

definition renameNameNode :: "renameCtx \<Rightarrow> jv \<Rightarrow> renameState walk \<Rightarrow> renameState walk" where
  "renameNameNode ctx node st =
     (case field ''name'' node of
        JStr n \<Rightarrow>
          if lastPart n = renOld ctx then
            (let st1 = addEdit ctx node st
             in case locRange (field ''loc'' node) of
                  None \<Rightarrow> fail st1
                | Some r \<Rightarrow> st1\<lparr>acc := (acc st1)\<lparr>renameEdits := renameEdits (acc st1) @
                                 [replaceEdit r (replaceSuffix n (renOld ctx) (renNew ctx))]\<rparr>\<rparr>)
          else st
      | _ \<Rightarrow> fail st)"

definition offsetNameIs :: "string \<Rightarrow> jv \<Rightarrow> bool" where
  "offsetNameIs oldName offset =
     (case offset of
        JStr s \<Rightarrow> s = oldName
      | _ \<Rightarrow> (if truthy (field ''name'' offset) then field ''name'' offset = JStr oldName else False))"

definition renamePropertyLookup :: "renameCtx \<Rightarrow> jv \<Rightarrow> renameState walk \<Rightarrow> renameState walk" where
  "renamePropertyLookup ctx node st =
     (if truthy (field ''offset'' node) \<and> offsetNameIs (renOld ctx) (field ''offset'' node) then
        (let what = field ''what'' node;
             shouldRename =
               (if truthy what \<and> field ''kind'' what = JStr ''variable'' \<and> field ''name'' what = JStr ''this''
                then isTarget ctx (currentClassName (acc st)) \<or> isImplementor ctx (currentClassName (acc st))
                else if truthy what \<and> field ''kind'' what = JStr ''variable''
                then (case strOf (field ''name'' what) of
                        None \<Rightarrow> False
                      | Some varName \<Rightarrow>
                          isTarget ctx (variableTypes varName) \<or> isImplementor ctx (variableTypes varName))
                else False)
         in if shouldRename \<and> isObject (field ''offset'' node)
            then addEdit ctx (field ''offset'' node) st else st)
      else st)"

definition renameStaticLookup :: "renameCtx \<Rightarrow> jv \<Rightarrow> renameState walk \<Rightarrow> renameState walk" where
  "renameStaticLookup ctx node st =
     (if truthy (field ''offset'' node) \<and> truthy (field ''what'' node) \<and>
         offsetNameIs (renOld ctx) (field ''offset'' node) then
        (let cn = (if truthy (field ''name'' (field ''what'' node))
                   then field ''name'' (field ''what'' node) else field ''what'' node);
             shouldRename =
               (isTarget ctx (strOf cn) \<or>
                (isTarget ctx (currentClassName (acc st)) \<and> (cn = JStr ''self'' \<or> cn = JStr ''static'')) \<or>
                isImplementor ctx (strOf cn))
         in if shouldRename \<and> isObject (field ''offset'' node)
            then addEdit ctx (field ''offset'' node) st else st)
      else st)"

definition renameClassDef :: "renameCtx \<Rightarrow> jv \<Rightarrow> renameState walk \<Rightarrow> renameState walk" where
  "renameClassDef ctx node st =
     (if \<not> isMethodRename ctx \<and> truthy (field ''name'' node) \<and>
         (field ''name'' (field ''name'' node) = JStr (renOld ctx) \<or> field ''name'' node = JStr (renOld ctx))
         \<and> isObject (field ''name'' node)
      then addEdit ctx (field ''name'' node) st else st)"

definition visitOther :: "renameCtx \<Rightarrow> jv \<Rightarrow> renameState walk \<Rightarrow> renameState walk" where
  "visitOther ctx node st =
     (let st1 = (if field ''kind'' node = JStr ''usegroup''
                 then forEach (renameUseItem ctx) (field ''items'' node) st else st);
          st2 = (if failed st1 then st1
                 else if \<not> isMethodRename ctx \<and> field ''kind'' node = JStr ''name''
                 then renameNameNode ctx node st1 else st1);
          st3 = (if failed st2 then st2
                 else if isMethodRename ctx \<and> field ''kind'' node = JStr ''propertylookup''
                 then renamePropertyLookup ctx node st2 else st2)
      in if failed st3 then st3
         else if isMethodRename ctx \<and> field ''kind'' node = JStr ''staticlookup''
         then renameStaticLookup ctx node st3 else st3)"

text \<open>
  \<open>traverse\<close> (lines 243-433) descends through \<open>children\<close> and \<open>body\<close> only: into namespaces,
  classes, methods and blocks, but not into the expression of a statement.
\<close>

function traverseRename :: "renameCtx \<Rightarrow> jv \<Rightarrow> renameState walk \<Rightarrow> renameState walk" where
  "traverseRename ctx node st =
     (if classLike node then
        (case nameOf node of
           None \<Rightarrow> fail st
         | Some c \<Rightarrow>
             let st0 = st\<lparr>acc := (acc st)\<lparr>currentClassName := Some c\<rparr>\<rparr>;
                 st1 = renameClassDef ctx node st0;
                 st2 = (if isMethodRename ctx \<and> (isTarget ctx (Some c) \<or> isImplementor ctx (Some c))
                           \<and> truthy (field ''body'' node) \<and> truthy (bodyOf node)
                        then forEach (checkMethods ctx) (bodyOf node) st1 else st1);
                 st3 = (if truthy (field ''children'' node)
                        then forEach (traverseRename ctx) (field ''children'' node) st2 else st2);
                 st4 = (if truthy (field ''body'' node) \<and> truthy (bodyOf node)
                        then forEach (traverseRename ctx) (bodyOf node) st3 else st3)
             in if failed st4 then st4
                else st4\<lparr>acc := (acc st4)\<lparr>currentClassName := currentClassName (acc st)\<rparr>\<rparr>)
      else
        (let st1 = visitOther ctx node st;
             st2 = (if truthy (field ''children'' node)
                    then forEach (traverseRename ctx) (field ''children'' node) st1 else st1)
         in if truthy (field ''body'' node) then
              (if isArray (field ''body'' node)
               then forEach (traverseRename ctx) (field ''body'' node) st2
               else if truthy (field ''children'' (field ''body'' node))
               then forEach (traverseRename ctx) (field ''children'' (field ''body'' node)) st2
               else st2)
            else st2))"
  by pat_completeness auto
termination
  by (relation "measure (\<lambda>(ctx, node, st). size node)")
     (auto dest: size_elems_field size_elems_field2 size_bodyOf)

subsection \<open>provideRenameEdits\<close>

text \<open>
  \<open>word\<close> is the word at the cursor (\<open>None\<close> when there is none). A file that cannot be
  read rejects the promise; a file that does not parse, or whose traversal throws, keeps the
  edits made before the exception and the loop goes on with the next file.
\<close>

datatype provided = ProviderRejected | Provided workspaceEdit

definition renameInFile :: "renameCtx \<Rightarrow> phpFile \<Rightarrow> workspaceEdit \<Rightarrow> workspaceEdit" where
  "renameInFile ctx file edit =
     (case fileAst file of
        None \<Rightarrow> edit
      | Some ast \<Rightarrow>
          if ast = JNull then edit
          else if truthy (field ''children'' ast) then
            fold (\<lambda>e. weReplace (uriStr (fileUri file)) (editRange e) (newText e))
                 (renameEdits (acc (forEach (traverseRename ctx) (field ''children'' ast)
                     \<lparr>acc = \<lparr>currentClassName = None, renameEdits = []\<rparr>, failed = False\<rparr>)))
                 edit
          else edit)"

definition detectTarget :: "phpFile \<Rightarrow> string \<Rightarrow> position \<Rightarrow> renameTarget option" where
  "detectTarget document oldName cursor =
     (case fileAst document of
        None \<Rightarrow> None
      | Some currentAst \<Rightarrow>
          if \<not> truthy (field ''children'' currentAst) then None
          else (case firstOf (findMethodContext oldName cursor) (field ''children'' currentAst) of
                  Found t \<Rightarrow> Some t
                | _ \<Rightarrow> None))"

definition provideRenameEdits :: "indexer \<Rightarrow> phpFile \<Rightarrow> string option \<Rightarrow> position \<Rightarrow> string
    \<Rightarrow> phpFile list \<Rightarrow> provided" where
  "provideRenameEdits s document word cursor newName allPhpFiles =
     (case word of
        None \<Rightarrow> Provided []
      | Some oldName \<Rightarrow>
          let target = detectTarget document oldName cursor;
              ctx = \<lparr>renOld = oldName, renNew = newName, renTarget = target,
                     renImplements = (case target of
                                        None \<Rightarrow> (\<lambda>c. False)
                                      | Some t \<Rightarrow>
                                          if targetType t = ''interface'' \<and> targetClassName t \<noteq> []
                                          then isImplementation s (targetClassName t)
                                          else (\<lambda>c. False))\<rparr>;
              candidateFiles = (if fsPath (fileUri document) \<in> set (map (\<lambda>f. fsPath (fileUri f)) allPhpFiles)
                            then allPhpFiles else allPhpFiles @ [document])
          in if list_ex (\<lambda>f. fileText f = None) candidateFiles then ProviderRejected
             else Provided (fold (renameInFile ctx) candidateFiles []))"
section \<open>File move and rename (refactorPreview.ts, createRefactorEdit)\<close>

subsection \<open>The moved file: namespace declaration and class name\<close>

text \<open>
  \<open>String.prototype.split\<close> on one character, \<open>indexOf\<close> from a column, and the search for
  the first semicolon from the line and column where the namespace node starts
  (\<open>getNamespaceDeclarationRange\<close>, lines 222-252). Lines of a \<open>loc\<close> are 1-based, as the
  parser gives them.
\<close>

fun splitOn :: "char \<Rightarrow> string \<Rightarrow> string list" where
  "splitOn c [] = [[]]"
| "splitOn c (x # xs) =
     (if x = c then [] # splitOn c xs
      else (case splitOn c xs of [] \<Rightarrow> [[x]] | l # ls \<Rightarrow> (x # l) # ls))"

fun indexOfFrom :: "char \<Rightarrow> nat \<Rightarrow> string \<Rightarrow> nat option" where
  "indexOfFrom c from [] = None"
| "indexOfFrom c from (x # xs) =
     (if from = 0 then (if x = c then Some 0 else map_option Suc (indexOfFrom c 0 xs))
      else map_option Suc (indexOfFrom c (from - 1) xs))"

fun findSemicolon :: "string list \<Rightarrow> nat \<Rightarrow> nat \<Rightarrow> (nat \<times> nat) option" where
  "findSemicolon [] i col = None"
| "findSemicolon (l # ls) i col =
     (case indexOfFrom CHR '';'' col l of
        Some semiColonIdx \<Rightarrow> Some (i, semiColonIdx)
      | None \<Rightarrow> findSemicolon ls (Suc i) 0)"

definition getNamespaceDeclarationRange :: "string \<Rightarrow> nat \<Rightarrow> nat \<Rightarrow> vsRange" where
  "getNamespaceDeclarationRange content startLine startColumn =
     (let lines = splitOn (CHR 10) content;
          startLineIdx = startLine - 1
      in if startLineIdx \<ge> length lines
         then mkRange (Position startLineIdx 0) (Position startLineIdx 0)
         else (case findSemicolon (drop startLineIdx lines) startLineIdx startColumn of
                 Some (i, semiColonIdx) \<Rightarrow>
                   mkRange (Position startLineIdx startColumn) (Position i (semiColonIdx + 1))
               | None \<Rightarrow>
                   mkRange (Position startLineIdx startColumn)
                           (Position startLineIdx (length (lines ! startLineIdx)))))"

fun locStart :: "jv \<Rightarrow> (nat \<times> nat) option" where
  "locStart (JLoc sl sc el ec) = Some (sl, sc)"
| "locStart v = None"

fun locEndLine :: "jv \<Rightarrow> nat option" where
  "locEndLine (JLoc sl sc el ec) = Some el"
| "locEndLine v = None"

text \<open>
  \<open>updateNamespaceInFile\<close> (lines 185-220) returns at the first namespace node that has a
  location, and otherwise inserts a declaration at the top of the file. \<open>Threw\<close> is a
  \<open>TypeError\<close>, \<open>Done None\<close> the result \<open>null\<close>.
\<close>

datatype 'a attempt = Threw | Done 'a

fun namespaceEditIn :: "string \<Rightarrow> jv \<Rightarrow> jv list \<Rightarrow> textEdit list option attempt" where
  "namespaceEditIn content newNs [] =
     Done (if truthy newNs
           then Some [insertEdit (Position 0 0)
                  (''<?php'' @ [CHR 10, CHR 10] @ ''namespace '' @ jsToString newNs @ '';'' @ [CHR 10, CHR 10])]
           else None)"
| "namespaceEditIn content newNs (node # nodes) =
     (if node = JNull then Threw
      else if field ''kind'' node = JStr ''namespace'' \<and> truthy (field ''loc'' node) then
        (if truthy newNs then
           (case locStart (field ''loc'' node) of
              None \<Rightarrow> Threw
            | Some (sl, sc) \<Rightarrow>
                Done (Some [replaceEdit (getNamespaceDeclarationRange content sl sc)
                             (''namespace '' @ jsToString newNs @ '';'')]))
         else Done (Some []))
      else namespaceEditIn content newNs nodes)"

definition updateNamespaceInFile :: "jv \<Rightarrow> string \<Rightarrow> jv \<Rightarrow> textEdit list option attempt" where
  "updateNamespaceInFile ast content newNs =
     (if \<not> truthy ast \<or> \<not> truthy (field ''children'' ast) then Done None
      else case elems (field ''children'' ast) of
             None \<Rightarrow> Threw
           | Some nodes \<Rightarrow> namespaceEditIn content newNs nodes)"

text \<open>
  \<open>renameClassDefinitionInFile\<close> (lines 111-153): one replacement, of the name of the first
  class, interface or trait called \<open>oldName\<close>, at top level or directly in a namespace.
\<close>

fun renameClassIn :: "string \<Rightarrow> string \<Rightarrow> jv list \<Rightarrow> textEdit list search" where
  "renameClassIn oldName newName [] = NotFound"
| "renameClassIn oldName newName (child # children) =
     (if child = JNull then Raised
      else if classLike child \<and> truthy (field ''name'' child) then
        (case classNameOf child of
           Raised \<Rightarrow> Raised
         | NotFound \<Rightarrow> renameClassIn oldName newName children
         | Found name \<Rightarrow>
             if name = Some oldName \<and> truthy (field ''loc'' child) then
               (if truthy (field ''loc'' (field ''name'' child)) then
                  (case locRange (field ''loc'' (field ''name'' child)) of
                     None \<Rightarrow> Raised
                   | Some r \<Rightarrow> Found [replaceEdit r newName])
                else renameClassIn oldName newName children)
             else renameClassIn oldName newName children)
      else renameClassIn oldName newName children)"

fun renameClassTop :: "string \<Rightarrow> string \<Rightarrow> jv list \<Rightarrow> textEdit list search" where
  "renameClassTop oldName newName [] = NotFound"
| "renameClassTop oldName newName (node # nodes) =
     (if node = JNull then Raised
      else case (if field ''kind'' node = JStr ''namespace''
                 then (case elems (field ''children'' node) of
                         None \<Rightarrow> Raised
                       | Some children \<Rightarrow> renameClassIn oldName newName children)
                 else renameClassIn oldName newName [node]) of
             NotFound \<Rightarrow> renameClassTop oldName newName nodes
           | r \<Rightarrow> r)"

definition renameClassDefinitionInFile :: "jv \<Rightarrow> string \<Rightarrow> string \<Rightarrow> textEdit list search" where
  "renameClassDefinitionInFile ast oldName newName =
     (if \<not> truthy ast \<or> \<not> truthy (field ''children'' ast) then NotFound
      else case elems (field ''children'' ast) of
             None \<Rightarrow> Raised
           | Some nodes \<Rightarrow> renameClassTop oldName newName nodes)"

subsection \<open>The other files: findAndUpdateImports\<close>

text \<open>
  First pass (lines 307-338) over the top-level nodes: the namespace of the file, the line after
  the first semicolon from the namespace on, the line after the last \<open>use\<close> group, and whether
  some \<open>use\<close> item already imports the moved class.
\<close>

record fileStructure =
  currentFileNamespace :: jv
  hasExistingImport :: bool
  lastUseStatementEnd :: "position option"
  namespaceEnd :: "position option"

fun firstLineWith :: "char \<Rightarrow> string list \<Rightarrow> nat \<Rightarrow> nat option" where
  "firstLineWith c [] i = None"
| "firstLineWith c (l # ls) i = (if c \<in> set l then Some i else firstLineWith c ls (Suc i))"

definition importsOld :: "string \<Rightarrow> string \<Rightarrow> bool" where
  "importsOld oldFqn useName \<longleftrightarrow>
     useName = oldFqn \<or> (oldFqn \<noteq> [] \<and> endsWith useName (bsl # lastPart oldFqn))"

definition useNameOf :: "jv \<Rightarrow> string option" where
  "useNameOf item = (case field ''name'' item of JStr s \<Rightarrow> Some s | v \<Rightarrow> strOf (field ''name'' v))"

definition noteImport :: "string \<Rightarrow> jv \<Rightarrow> fileStructure walk \<Rightarrow> fileStructure walk" where
  "noteImport oldFqn item st =
     (case useNameOf item of
        None \<Rightarrow> if field ''name'' item \<noteq> JNull \<and> oldFqn = [] then st else fail st
      | Some useName \<Rightarrow>
          if importsOld oldFqn useName then st\<lparr>acc := (acc st)\<lparr>hasExistingImport := True\<rparr>\<rparr> else st)"

definition analyse :: "string \<Rightarrow> string \<Rightarrow> jv \<Rightarrow> fileStructure walk \<Rightarrow> fileStructure walk" where
  "analyse content oldFqn node st =
     (let st1 =
        (if field ''kind'' node = JStr ''namespace'' then
           (let st0 = st\<lparr>acc := (acc st)\<lparr>currentFileNamespace := field ''name'' node\<rparr>\<rparr>
            in if truthy (field ''loc'' node) then
                 (case locStart (field ''loc'' node) of
                    None \<Rightarrow> fail st0
                  | Some (sl, sc) \<Rightarrow>
                      st0\<lparr>acc := (acc st0)\<lparr>namespaceEnd :=
                        Some (case firstLineWith CHR '';'' (drop (sl - 1) (splitOn (CHR 10) content)) (sl - 1) of
                                None \<Rightarrow> Position sl 0
                              | Some i \<Rightarrow> Position (i + 1) 0)\<rparr>\<rparr>)
               else st0)
         else st)
      in if failed st1 then st1
         else if field ''kind'' node = JStr ''usegroup'' \<and> truthy (field ''items'' node) then
           (let st2 = (if truthy (field ''loc'' node) then
                         (case locEndLine (field ''loc'' node) of
                            None \<Rightarrow> fail st1
                          | Some el \<Rightarrow> st1\<lparr>acc := (acc st1)\<lparr>lastUseStatementEnd := Some (Position el 0)\<rparr>\<rparr>)
                       else st1)
            in forEach (noteImport oldFqn) (field ''items'' node) st2)
         else st1)"

text \<open>
  \<open>checkUsage\<close> (lines 348-391) looks for a use of the short class name: an instantiation, a
  parameter or return type hint of a method or function, \<open>extends\<close>, \<open>implements\<close>, a static
  lookup. It returns from the loop it is in as soon as \<open>usageFound\<close> is set (flag \<open>returned\<close>)
  and recurses into \<open>children\<close>, \<open>body\<close> and \<open>arguments\<close>, and into nothing else.
\<close>

record usageSearch =
  usageFound :: bool
  returned :: bool

definition found :: "usageSearch walk \<Rightarrow> usageSearch walk" where
  "found st = st\<lparr>acc := (acc st)\<lparr>usageFound := True\<rparr>\<rparr>"

definition namedAs :: "string \<Rightarrow> jv \<Rightarrow> bool" where
  "namedAs simpleClassName n \<longleftrightarrow> field ''name'' n = JStr simpleClassName"

definition hintUsage :: "string \<Rightarrow> jv \<Rightarrow> usageSearch walk \<Rightarrow> usageSearch walk" where
  "hintUsage simpleClassName arg st =
     (if truthy (field ''type'' arg) \<and> namedAs simpleClassName (field ''type'' arg) then found st else st)"

definition implUsage :: "string \<Rightarrow> jv \<Rightarrow> usageSearch walk \<Rightarrow> usageSearch walk" where
  "implUsage simpleClassName imp st = (if namedAs simpleClassName imp then found st else st)"

definition routine :: "jv \<Rightarrow> bool" where
  "routine node \<longleftrightarrow> field ''kind'' node = JStr ''method'' \<or> field ''kind'' node = JStr ''function''"

definition usageChecks :: "string \<Rightarrow> jv \<Rightarrow> usageSearch walk \<Rightarrow> usageSearch walk" where
  "usageChecks simpleClassName node st =
     (let st1 = (if field ''kind'' node = JStr ''new'' \<and> truthy (field ''what'' node)
                    \<and> namedAs simpleClassName (field ''what'' node) then found st else st);
          st2 = (if routine node \<and> truthy (field ''arguments'' node)
                 then forEach (hintUsage simpleClassName) (field ''arguments'' node) st1 else st1);
          st3 = (if failed st2 then st2
                 else if routine node \<and> truthy (field ''type'' node)
                         \<and> namedAs simpleClassName (field ''type'' node) then found st2 else st2);
          st4 = (if failed st3 then st3
                 else if field ''kind'' node = JStr ''class'' then
                   (let st' = (if truthy (field ''extends'' node)
                                  \<and> namedAs simpleClassName (field ''extends'' node)
                               then found st3 else st3)
                    in if truthy (field ''implements'' node)
                       then forEach (implUsage simpleClassName) (field ''implements'' node) st'
                       else st')
                 else st3)
      in if failed st4 then st4
         else if field ''kind'' node = JStr ''staticlookup'' \<and> truthy (field ''what'' node)
                 \<and> namedAs simpleClassName (field ''what'' node) then found st4 else st4)"

definition entering :: "(jv \<Rightarrow> usageSearch walk \<Rightarrow> usageSearch walk) \<Rightarrow> jv \<Rightarrow> usageSearch walk
    \<Rightarrow> usageSearch walk" where
  "entering f nodes st =
     (if \<not> truthy nodes \<or> usageFound (acc st) then st
      else case elems nodes of
             None \<Rightarrow> fail st
           | Some xs \<Rightarrow>
               (let r = fold (\<lambda>node st. if failed st \<or> returned (acc st) then st
                                         else if node = JNull then fail st
                                         else f node st) xs st
                in r\<lparr>acc := (acc r)\<lparr>returned := False\<rparr>\<rparr>))"

lemma entering_cong [fundef_cong]:
  assumes "nodes = nodes'" "st = st'"
    and "\<And>x s. elems nodes' \<noteq> None \<Longrightarrow> x \<in> set (the (elems nodes')) \<Longrightarrow> x \<noteq> JNull \<Longrightarrow> f x s = g x s"
  shows "entering f nodes st = entering g nodes' st'"
proof (cases "elems nodes'")
  case None
  then show ?thesis using assms by (simp add: entering_def)
next
  case (Some xs)
  have "fold (\<lambda>node st. if failed st \<or> returned (acc st) then st
                        else if node = JNull then fail st else f node st) ys s
      = fold (\<lambda>node st. if failed st \<or> returned (acc st) then st
                        else if node = JNull then fail st else g node st) ys s"
    if "set ys \<subseteq> set xs" for ys s
    using that
  proof (induction ys arbitrary: s)
    case Nil
    then show ?case by simp
  next
    case (Cons y ys)
    then have "y \<noteq> JNull \<Longrightarrow> f y s = g y s" using assms(3)[of y s] Some by simp
    with Cons show ?case by simp
  qed
  then show ?thesis using assms(1,2) Some by (simp add: entering_def)
qed

function checkUsage :: "string \<Rightarrow> jv \<Rightarrow> usageSearch walk \<Rightarrow> usageSearch walk" where
  "checkUsage simpleClassName node st =
     (let st1 = usageChecks simpleClassName node st
        in if failed st1 then st1
           else if usageFound (acc st1) then st1\<lparr>acc := (acc st1)\<lparr>returned := True\<rparr>\<rparr>
           else
             let st2 = (if truthy (field ''children'' node)
                        then entering (checkUsage simpleClassName) (field ''children'' node) st1
                        else st1);
                 st3 = (if truthy (field ''body'' node)
                        then entering (checkUsage simpleClassName) (bodyNodes (field ''body'' node)) st2
                        else st2)
             in if truthy (field ''arguments'' node)
                then entering (checkUsage simpleClassName) (field ''arguments'' node) st3
                else st3)"
  by pat_completeness auto
termination
  by (relation "measure (\<lambda>(simpleClassName, node, st). size node)")
     (auto dest: size_elems_field size_bodyNodes)

text \<open>
  Second pass, \<open>traverse\<close> (lines 423-468): every \<open>use\<close> item that imports the moved class
  is replaced by the new FQN, or its whole \<open>use\<close> statement is deleted when the class moves into
  the namespace of this file.
\<close>

record importState =
  importEdits :: "textEdit list"
  shouldRenameUsages :: bool

record moveCtx =
  oldFqn :: string
  newFqn :: string
  fileNamespace :: jv

definition pushEdit :: "textEdit \<Rightarrow> importState walk \<Rightarrow> importState walk" where
  "pushEdit e st = st\<lparr>acc := (acc st)\<lparr>importEdits := importEdits (acc st) @ [e]\<rparr>\<rparr>"

definition beforeLast :: "string \<Rightarrow> string" where
  "beforeLast s = rev (drop 1 (dropWhile (\<lambda>c. c \<noteq> bsl) (rev s)))"

definition updateUseItem :: "moveCtx \<Rightarrow> jv \<Rightarrow> jv \<Rightarrow> importState walk \<Rightarrow> importState walk" where
  "updateUseItem ctx node item st =
     (case useNameOf item of
        None \<Rightarrow> fail st
      | Some useNameStr \<Rightarrow>
          if useNameStr = oldFqn ctx \<or> endsWith useNameStr (bsl # lastPart (oldFqn ctx)) then
            (let st1 = st\<lparr>acc := (acc st)\<lparr>shouldRenameUsages := True\<rparr>\<rparr>
             in if truthy (field ''loc'' item) then
                  (if JStr (beforeLast (newFqn ctx)) = fileNamespace ctx \<and>
                      map_option length (elems (field ''items'' node)) = Some 1
                   then (case (locStart (field ''loc'' node), locEndLine (field ''loc'' node)) of
                           (Some (sl, sc), Some el) \<Rightarrow>
                             pushEdit (deleteEdit (mkRange (Position (sl - 1) 0) (Position el 0))) st1
                         | _ \<Rightarrow> fail st1)
                   else (case locRange (field ''loc'' item) of
                           None \<Rightarrow> fail st1
                         | Some r \<Rightarrow> pushEdit (replaceEdit r (newFqn ctx)) st1))
                else st1)
          else st)"

function updateImports :: "moveCtx \<Rightarrow> jv \<Rightarrow> importState walk \<Rightarrow> importState walk" where
  "updateImports ctx node st =
     (let st1 = (if field ''kind'' node = JStr ''usegroup'' \<and> truthy (field ''items'' node)
                 then forEach (updateUseItem ctx node) (field ''items'' node) st else st);
          st2 = (if truthy (field ''children'' node)
                 then forEach (updateImports ctx) (field ''children'' node) st1 else st1)
      in if truthy (field ''body'' node) \<and> truthy (bodyOf node)
         then forEach (updateImports ctx) (bodyOf node) st2 else st2)"
  by pat_completeness auto
termination
  by (relation "measure (\<lambda>(ctx, node, st). size node)") (auto dest: size_elems_field size_bodyOf)

text \<open>
  Third pass, \<open>renameUsagesTraverse\<close> (lines 481-552), when the short name changes: the uses
  are renamed, and every property that holds a node or an array starting with a node is
  visited ("generic recursion", lines 532-550).
\<close>

definition renameAt :: "string \<Rightarrow> string \<Rightarrow> jv \<Rightarrow> importState walk \<Rightarrow> importState walk" where
  "renameAt simpleOldName simpleNewName n st =
     (if truthy n \<and> namedAs simpleOldName n \<and> truthy (field ''loc'' n) then
        (case locRange (field ''loc'' n) of
           None \<Rightarrow> fail st
         | Some r \<Rightarrow> pushEdit (replaceEdit r simpleNewName) st)
      else st)"

definition renameHint :: "string \<Rightarrow> string \<Rightarrow> jv \<Rightarrow> importState walk \<Rightarrow> importState walk" where
  "renameHint simpleOldName simpleNewName arg st = renameAt simpleOldName simpleNewName (field ''type'' arg) st"

definition renameChecks :: "string \<Rightarrow> string \<Rightarrow> jv \<Rightarrow> importState walk \<Rightarrow> importState walk" where
  "renameChecks simpleOldName simpleNewName node st =
     (let st1 = (if field ''kind'' node = JStr ''new''
                 then renameAt simpleOldName simpleNewName (field ''what'' node) st else st);
          st2 = (if failed st1 then st1
                 else if routine node \<and> truthy (field ''arguments'' node)
                 then forEach (renameHint simpleOldName simpleNewName) (field ''arguments'' node) st1
                 else st1);
          st3 = (if failed st2 then st2
                 else if routine node
                 then renameAt simpleOldName simpleNewName (field ''type'' node) st2 else st2)
      in if failed st3 then st3
         else if field ''kind'' node = JStr ''staticlookup''
         then renameAt simpleOldName simpleNewName (field ''what'' node) st3 else st3)"

definition keptKeys :: "string set" where
  "keptKeys = {''loc'', ''kind'', ''name'', ''what'', ''type''}"

definition hasKind :: "jv \<Rightarrow> bool" where
  "hasKind v = (case v of JObj ps \<Rightarrow> map_of ps ''kind'' \<noteq> None | _ \<Rightarrow> False)"

function renameUsagesTraverse :: "string \<Rightarrow> string \<Rightarrow> jv \<Rightarrow> importState walk \<Rightarrow> importState walk" where
  "renameUsagesTraverse simpleOldName simpleNewName node st =
     (let st1 = renameChecks simpleOldName simpleNewName node st
      in case node of
           JObj ps \<Rightarrow>
             fold (\<lambda>kv st. if failed st \<or> fst kv \<in> keptKeys then st
                           else (case snd kv of
                                   JArr xs \<Rightarrow>
                                     (case xs of
                                        [] \<Rightarrow> st
                                      | x # _ \<Rightarrow>
                                          if hasKind x
                                          then forEach (renameUsagesTraverse simpleOldName simpleNewName)
                                                 (snd kv) st
                                          else st)
                                 | JObj qs \<Rightarrow>
                                     if hasKind (snd kv)
                                     then renameUsagesTraverse simpleOldName simpleNewName (snd kv) st
                                     else st
                                 | _ \<Rightarrow> st)) ps st1
         | _ \<Rightarrow> st1)"
  by pat_completeness auto
termination
  by (relation "measure (\<lambda>(simpleOldName, simpleNewName, node, st). size node)")
     (auto dest: size_snd_arr size_snd_mem)

text \<open>
  \<open>findAndUpdateImports\<close> (lines 290-560). The parameters \<open>newNs\<close>, \<open>uri\<close> and
  \<open>outputChannel\<close> do not influence the result.
\<close>

definition findAndUpdateImports :: "jv \<Rightarrow> string \<Rightarrow> string \<Rightarrow> string \<Rightarrow> jv \<Rightarrow> textEdit list option attempt" where
  "findAndUpdateImports ast content oldFqn' newFqn' oldNs =
     (let top = (if truthy ast then field ''children'' ast else JNull);
          s1 = (if truthy top
                then forEach (analyse content oldFqn') top
                       \<lparr>acc = \<lparr>currentFileNamespace = JNull, hasExistingImport = False,
                                lastUseStatementEnd = None, namespaceEnd = None\<rparr>, failed = False\<rparr>
                else \<lparr>acc = \<lparr>currentFileNamespace = JNull, hasExistingImport = False,
                              lastUseStatementEnd = None, namespaceEnd = None\<rparr>, failed = False\<rparr>)
      in if failed s1 then Threw
         else
           let simpleClassName = lastPart oldFqn';
               implicit = (currentFileNamespace (acc s1) = oldNs \<and> \<not> hasExistingImport (acc s1)
                            \<and> simpleClassName \<noteq> []);
               u = (if implicit
                    then entering (checkUsage simpleClassName) top
                           \<lparr>acc = \<lparr>usageFound = False, returned = False\<rparr>, failed = False\<rparr>
                    else \<lparr>acc = \<lparr>usageFound = False, returned = False\<rparr>, failed = False\<rparr>)
           in if failed u then Threw
              else
                let s2 = (if usageFound (acc u)
                          then \<lparr>acc = \<lparr>importEdits =
                                   [insertEdit (case lastUseStatementEnd (acc s1) of
                                                  Some p \<Rightarrow> p
                                                | None \<Rightarrow> (case namespaceEnd (acc s1) of
                                                             Some p \<Rightarrow> p
                                                           | None \<Rightarrow> Position 1 0))
                                               (''use '' @ newFqn' @ '';'' @ [CHR 10])],
                                   shouldRenameUsages = True\<rparr>, failed = False\<rparr>
                          else \<lparr>acc = \<lparr>importEdits = [], shouldRenameUsages = False\<rparr>, failed = False\<rparr>);
                    s3 = (if truthy top
                          then forEach (updateImports \<lparr>oldFqn = oldFqn', newFqn = newFqn',
                                           fileNamespace = currentFileNamespace (acc s1)\<rparr>) top s2
                          else s2)
                in if failed s3 then Threw
                   else
                     let s4 = (if shouldRenameUsages (acc s3) \<and> lastPart oldFqn' \<noteq> []
                                  \<and> lastPart newFqn' \<noteq> [] \<and> lastPart oldFqn' \<noteq> lastPart newFqn'
                                  \<and> truthy top
                               then forEach (renameUsagesTraverse (lastPart oldFqn') (lastPart newFqn')) top s3
                               else s3)
                     in if failed s4 then Threw
                        else Done (if importEdits (acc s4) \<noteq> [] then Some (importEdits (acc s4)) else None))"

subsection \<open>createRefactorEdit\<close>

text \<open>
  \<open>updateImportsInOtherFiles\<close> (lines 254-288) skips the moved file and every file that cannot
  be read or parsed or whose analysis throws. \<open>createRefactorEdit\<close> (lines 12-109) catches
  every exception and returns the edit as it is at that moment. \<open>basename\<close> is
  \<open>path.basename(p, ext)\<close> on a POSIX path.
\<close>

definition updateFile :: "string \<Rightarrow> string \<Rightarrow> jv \<Rightarrow> string \<Rightarrow> phpFile \<Rightarrow> workspaceEdit \<Rightarrow> workspaceEdit" where
  "updateFile oldFqn' newFqn' oldNs movedPath file edit =
     (if fsPath (fileUri file) = movedPath then edit
      else case fileText file of
             None \<Rightarrow> edit
           | Some content \<Rightarrow>
               (case fileAst file of
                  None \<Rightarrow> edit
                | Some ast \<Rightarrow>
                    (case findAndUpdateImports ast content oldFqn' newFqn' oldNs of
                       Done (Some fileEdits) \<Rightarrow>
                         if fileEdits \<noteq> [] then weSet (uriStr (fileUri file)) fileEdits edit else edit
                     | _ \<Rightarrow> edit)))"

definition updateImportsInOtherFiles :: "string \<Rightarrow> string \<Rightarrow> jv \<Rightarrow> string \<Rightarrow> phpFile list
    \<Rightarrow> workspaceEdit \<Rightarrow> workspaceEdit" where
  "updateImportsInOtherFiles oldFqn' newFqn' oldNs movedPath phpFiles edit =
     fold (updateFile oldFqn' newFqn' oldNs movedPath) phpFiles edit"

definition basename :: "string \<Rightarrow> string \<Rightarrow> string" where
  "basename p ext =
     (let seg = rev (takeWhile (\<lambda>c. c \<noteq> CHR ''/'') (rev p))
      in if endsWith seg ext \<and> length ext < length seg then take (length seg - length ext) seg else seg)"

definition ofOption :: "string option \<Rightarrow> jv" where
  "ofOption v = (case v of None \<Rightarrow> JNull | Some s \<Rightarrow> JStr s)"

definition qualify :: "jv \<Rightarrow> string \<Rightarrow> string" where
  "qualify ns n = (if truthy ns then jsToString ns @ bsl # n else n)"

definition createRefactorEdit :: "psr4Env \<Rightarrow> phpFile \<Rightarrow> string \<Rightarrow> phpFile list \<Rightarrow> workspaceEdit" where
  "createRefactorEdit env moved newPath phpFiles =
     (let oldPath = fsPath (fileUri moved); oldUri = uriStr (fileUri moved)
      in if \<not> endsWith oldPath ''.php'' then []
         else case (fileText moved, fileAst moved) of
           (Some fileContent, Some ast) \<Rightarrow>
             (case getNamespaceFromAst ast of
                Raised \<Rightarrow> []
              | nsr \<Rightarrow>
                  let astNamespace = (case nsr of Found v \<Rightarrow> v | _ \<Rightarrow> JNull);
                      calculatedOldNamespace = ofOption (getNamespaceFromPath env oldPath);
                      oldNamespace = (if truthy astNamespace then astNamespace else calculatedOldNamespace);
                      newNamespace = ofOption (getNamespaceFromPath env newPath)
                  in (case (if oldNamespace \<noteq> newNamespace
                            then updateNamespaceInFile ast fileContent newNamespace else Done None) of
                        Threw \<Rightarrow> []
                      | Done namespaceEdit \<Rightarrow>
                          let edit1 = (case namespaceEdit of None \<Rightarrow> [] | Some es \<Rightarrow> weSet oldUri es [])
                          in (case getClassNameFromFile ast of
                                Raised \<Rightarrow> edit1
                              | cr \<Rightarrow>
                                  let cls = (case cr of Found c \<Rightarrow> c | _ \<Rightarrow> None);
                                      oldBaseName = basename oldPath ''.php'';
                                      newBaseName = basename newPath ''.php'';
                                      renaming = (oldBaseName \<noteq> newBaseName \<and> cls = Some oldBaseName)
                                  in (case (if renaming
                                            then renameClassDefinitionInFile ast oldBaseName newBaseName
                                            else NotFound) of
                                        Raised \<Rightarrow> edit1
                                      | rr \<Rightarrow>
                                          let edit2 = (case rr of
                                                         Found classRenameEdit \<Rightarrow>
                                                           weSet oldUri (weGet oldUri edit1 @ classRenameEdit) edit1
                                                       | _ \<Rightarrow> edit1)
                                          in (case cls of
                                                None \<Rightarrow> edit2
                                              | Some targetClass \<Rightarrow>
                                                  if targetClass = [] then edit2
                                                  else updateImportsInOtherFiles
                                                         (qualify oldNamespace targetClass)
                                                         (qualify newNamespace
                                                            (if renaming then newBaseName else targetClass))
                                                         oldNamespace oldPath phpFiles edit2)))))
         | _ \<Rightarrow> [])"
section \<open>Import diagnostics (importDiagnostics.ts)\<close>

text \<open>
  \<open>collectImports\<close> (lines 48-71): the short names the file imports (the alias when there is
  one) and the name of the last namespace node met. Only \<open>imports.has(name)\<close> with a string
  is asked of the set later, so it is kept as a set of strings.
\<close>

record importScan =
  importedNames :: "string set"
  diagNamespace :: jv

definition addImported :: "jv \<Rightarrow> importScan walk \<Rightarrow> importScan walk" where
  "addImported item st =
     (case field ''name'' item of
        JStr fqn \<Rightarrow>
          (let alias = field ''name'' (field ''alias'' item);
               shortName = (if truthy (field ''alias'' item) \<and> truthy alias then strOf alias
                            else Some (lastPart fqn))
           in case shortName of
                None \<Rightarrow> st
              | Some n \<Rightarrow> st\<lparr>acc := (acc st)\<lparr>importedNames := insert n (importedNames (acc st))\<rparr>\<rparr>)
      | _ \<Rightarrow> fail st)"

function collectImported :: "jv \<Rightarrow> importScan walk \<Rightarrow> importScan walk" where
  "collectImported node st =
     (if field ''kind'' node = JStr ''namespace'' then
        (let st1 = st\<lparr>acc := (acc st)\<lparr>diagNamespace := field ''name'' node\<rparr>\<rparr>
         in if truthy (field ''children'' node)
            then forEach collectImported (field ''children'' node) st1 else st1)
      else if field ''kind'' node = JStr ''usegroup''
      then forEach addImported (field ''items'' node) st
      else if truthy (field ''children'' node)
      then forEach collectImported (field ''children'' node) st
      else st)"
  by pat_completeness auto
termination
  by (relation "measure (\<lambda>(node, st). size node)") (auto dest: size_elems_field)

text \<open>\<open>isBuiltInType\<close> (lines 200-203); \<open>toLower\<close> is \<open>toLowerCase\<close> on ASCII letters.\<close>

definition toLower :: "char \<Rightarrow> char" where
  "toLower c = (if (65::nat) \<le> of_char c \<and> of_char c \<le> (90::nat)
                then char_of (of_char c + (32::nat)) else c)"

definition builtIns :: "string list" where
  "builtIns = [''int'', ''string'', ''bool'', ''float'', ''array'', ''object'', ''callable'',
               ''iterable'', ''void'', ''mixed'', ''never'', ''null'', ''true'', ''false'']"

definition isBuiltInType :: "string \<Rightarrow> bool" where
  "isBuiltInType t \<longleftrightarrow> map toLower t \<in> set builtIns"

text \<open>
  \<open>findClassUsages\<close> (lines 77-150) records a name and a location for parameter, return and
  property type hints, instantiations, static lookups, \<open>extends\<close> and \<open>implements\<close>. It
  recurses into \<open>children\<close>, \<open>arguments\<close>, \<open>parameters\<close> and \<open>body\<close>. Every \<open>add\<close> puts a
  fresh object into \<open>usedClasses\<close>, so the set is the list of the occurrences in the order
  they were met.
\<close>

record usedClass =
  usedName :: string
  usedLoc :: jv

definition use :: "string \<Rightarrow> jv \<Rightarrow> usedClass list walk \<Rightarrow> usedClass list walk" where
  "use n loc st = st\<lparr>acc := acc st @ [\<lparr>usedName = n, usedLoc = loc\<rparr>]\<rparr>"

definition hintOf :: "jv \<Rightarrow> usedClass list walk \<Rightarrow> usedClass list walk" where
  "hintOf node st =
     (if truthy (field ''type'' node) \<and> truthy (field ''name'' (field ''type'' node)) then
        (case field ''name'' (field ''type'' node) of
           JStr typeName \<Rightarrow>
             if \<not> isBuiltInType typeName then use typeName (field ''loc'' (field ''type'' node)) st
             else st
         | _ \<Rightarrow> st)
      else st)"

definition implementsOf :: "jv \<Rightarrow> jv \<Rightarrow> usedClass list walk \<Rightarrow> usedClass list walk" where
  "implementsOf node impl st =
     (case (if truthy (field ''name'' impl) then field ''name'' impl else impl) of
        JStr implName \<Rightarrow>
          use implName (if truthy (field ''loc'' impl) then field ''loc'' impl else field ''loc'' node) st
      | _ \<Rightarrow> st)"

definition usagesAt :: "jv \<Rightarrow> usedClass list walk \<Rightarrow> usedClass list walk" where
  "usagesAt node st =
     (let st1 = (if field ''kind'' node = JStr ''parameter'' then hintOf node st else st);
          st2 = (if field ''kind'' node = JStr ''method'' then hintOf node st1 else st1);
          st3 = (if field ''kind'' node = JStr ''new'' \<and> truthy (field ''what'' node) then
                   (case field ''name'' (field ''what'' node) of
                      JStr c \<Rightarrow> if c \<noteq> [] then use c (field ''loc'' (field ''what'' node)) st2 else st2
                    | _ \<Rightarrow> st2)
                 else st2);
          st4 = (if field ''kind'' node = JStr ''staticlookup'' \<and> truthy (field ''what'' node) then
                   (case field ''name'' (field ''what'' node) of
                      JStr c \<Rightarrow> if c \<noteq> [] \<and> c \<noteq> ''self'' \<and> c \<noteq> ''parent'' \<and> c \<noteq> ''static''
                                then use c (field ''loc'' (field ''what'' node)) st3 else st3
                    | _ \<Rightarrow> st3)
                 else st3);
          st5 = (if (field ''kind'' node = JStr ''class'' \<or> field ''kind'' node = JStr ''interface'')
                    \<and> truthy (field ''extends'' node) then
                   (case (if truthy (field ''name'' (field ''extends'' node))
                          then field ''name'' (field ''extends'' node) else field ''extends'' node) of
                      JStr extName \<Rightarrow>
                        use extName (if truthy (field ''loc'' (field ''extends'' node))
                                     then field ''loc'' (field ''extends'' node) else field ''loc'' node) st4
                    | _ \<Rightarrow> st4)
                 else st4);
          st6 = (if field ''kind'' node = JStr ''class'' \<and> truthy (field ''implements'' node)
                 then forEach (implementsOf node) (field ''implements'' node) st5 else st5)
      in if failed st6 then st6
         else if field ''kind'' node = JStr ''property'' then hintOf node st6 else st6)"

function findClassUsages :: "jv \<Rightarrow> usedClass list walk \<Rightarrow> usedClass list walk" where
  "findClassUsages node st =
     (let st1 = usagesAt node st;
          st2 = (if truthy (field ''children'' node)
                 then forEach findClassUsages (field ''children'' node) st1 else st1);
          st3 = (if truthy (field ''arguments'' node)
                 then forEach findClassUsages (field ''arguments'' node) st2 else st2);
          st4 = (if truthy (field ''parameters'' node)
                 then forEach findClassUsages (field ''parameters'' node) st3 else st3)
      in if truthy (field ''body'' node) then
           (if isArray (field ''body'' node)
            then forEach findClassUsages (field ''body'' node) st4
            else if truthy (field ''children'' (field ''body'' node))
            then forEach findClassUsages (field ''children'' (field ''body'' node)) st4
            else st4)
         else st4)"
  by pat_completeness auto
termination
  by (relation "measure (\<lambda>(node, st). size node)") (auto dest: size_elems_field size_elems_field2)

text \<open>
  The check of one occurrence (lines 154-195): \<open>getDefinitions\<close> of the indexer, the FQN the
  name would have in the namespace of the file, \<open>definitions.some(...)\<close>, and the diagnostic.
\<close>

definition getDefinitions :: "indexer \<Rightarrow> string \<Rightarrow> symbolDef list" where
  "getDefinitions s n = getOrEmpty (definitions s) n"

definition expectedFQN :: "jv \<Rightarrow> string \<Rightarrow> string" where
  "expectedFQN ns n = (if truthy ns then jsToString ns @ bsl # n else n)"

fun inSameNamespace :: "jv \<Rightarrow> string \<Rightarrow> symbolDef list \<Rightarrow> bool attempt" where
  "inSameNamespace ns n [] = Done False"
| "inSameNamespace ns n (d # ds) =
     (case defFqn d of
        Some f \<Rightarrow>
          if f \<noteq> [] then (if f = expectedFQN ns n then Done True else inSameNamespace ns n ds)
          else (case ns of
                  JStr c \<Rightarrow> if strIncludes (defPath d) (map (\<lambda>x. if x = bsl then CHR ''/'' else x) c)
                            then Done True else inSameNamespace ns n ds
                | _ \<Rightarrow> Threw)
      | None \<Rightarrow>
          (case ns of
             JStr c \<Rightarrow> if strIncludes (defPath d) (map (\<lambda>x. if x = bsl then CHR ''/'' else x) c)
                       then Done True else inSameNamespace ns n ds
           | _ \<Rightarrow> Threw))"

record diagnostic =
  diagRange :: vsRange
  diagMessage :: string
  diagCode :: string

definition missingImport :: "string \<Rightarrow> vsRange \<Rightarrow> diagnostic" where
  "missingImport n r =
     \<lparr>diagRange = r,
      diagMessage = ''Class '' @ [CHR 39] @ n @ [CHR 39] @ '' is not imported. Add '' @ [CHR 39] @ ''use''
                    @ [CHR 39] @ '' statement.'',
      diagCode = ''missing-import''\<rparr>"

fun checkUsed :: "indexer \<Rightarrow> string set \<Rightarrow> jv \<Rightarrow> usedClass list \<Rightarrow> diagnostic list \<Rightarrow> diagnostic list attempt" where
  "checkUsed s imps ns [] diagnostics = Done diagnostics"
| "checkUsed s imps ns (u # us) diagnostics =
     (if usedName u \<in> imps then checkUsed s imps ns us diagnostics
      else case inSameNamespace ns (usedName u) (getDefinitions s (usedName u)) of
             Threw \<Rightarrow> Threw
           | Done True \<Rightarrow> checkUsed s imps ns us diagnostics
           | Done False \<Rightarrow>
               if truthy (usedLoc u) then
                 (case locRange (usedLoc u) of
                    None \<Rightarrow> Threw
                  | Some r \<Rightarrow> checkUsed s imps ns us (diagnostics @ [missingImport (usedName u) r]))
               else checkUsed s imps ns us diagnostics)"

text \<open>
  \<open>updateDiagnostics\<close> (lines 24-198): nothing for a document that is not PHP, the empty list
  when the parser throws (\<open>parsed = None\<close>), otherwise the diagnostics that are set for the
  document, or a rejected promise when one of the walks throws.
\<close>

datatype diagnosed = NotPhp | DiagnosticsThrew | DiagnosticsSet "diagnostic list"

definition updateDiagnostics :: "indexer \<Rightarrow> string \<Rightarrow> jv option \<Rightarrow> diagnosed" where
  "updateDiagnostics s languageId parsed =
     (if languageId \<noteq> ''php'' then NotPhp
      else case parsed of
             None \<Rightarrow> DiagnosticsSet []
           | Some ast \<Rightarrow>
               if ast = JNull then DiagnosticsThrew
               else
                 let i = (if truthy (field ''children'' ast)
                          then forEach collectImported (field ''children'' ast)
                                 \<lparr>acc = \<lparr>importedNames = {}, diagNamespace = JStr []\<rparr>, failed = False\<rparr>
                          else \<lparr>acc = \<lparr>importedNames = {}, diagNamespace = JStr []\<rparr>, failed = False\<rparr>)
                 in if failed i then DiagnosticsThrew
                    else
                      let u = (if truthy (field ''children'' ast)
                               then forEach findClassUsages (field ''children'' ast) \<lparr>acc = [], failed = False\<rparr>
                               else \<lparr>acc = [], failed = False\<rparr>)
                      in if failed u then DiagnosticsThrew
                         else (case checkUsed s (importedNames (acc i)) (diagNamespace (acc i)) (acc u) [] of
                                 Threw \<Rightarrow> DiagnosticsThrew
                               | Done ds \<Rightarrow> DiagnosticsSet ds))"
section \<open>Example trees\<close>

text \<open>
  Builders for the nodes of the parser, reduced to the properties the code reads: a node of a
  kind, an identifier with its location, the call \<open>$this->m()\<close>, a method without parameters,
  a name, a variable, an expression statement, a method call, an instantiation, an assignment,
  a parameter, a method with parameters and a return type, a block, and a built-in type.
\<close>

definition nd :: "string \<Rightarrow> (string \<times> jv) list \<Rightarrow> jv" where
  "nd kind props = JObj ((''kind'', JStr kind) # props)"

definition identAt :: "string \<Rightarrow> jv \<Rightarrow> jv" where
  "identAt n loc = nd ''identifier'' [(''name'', JStr n), (''loc'', loc)]"

definition thisCall :: "string \<Rightarrow> jv \<Rightarrow> jv" where
  "thisCall m loc =
     nd ''call'' [(''what'', nd ''propertylookup''
                     [(''what'', nd ''variable'' [(''name'', JStr ''this'')]),
                      (''offset'', identAt m loc)]),
                  (''arguments'', JArr [])]"

definition method0 :: "string \<Rightarrow> jv \<Rightarrow> jv \<Rightarrow> jv list \<Rightarrow> jv" where
  "method0 n nameLoc loc stmts =
     nd ''method'' [(''name'', identAt n nameLoc), (''arguments'', JArr []), (''type'', JNull),
                    (''body'', nd ''block'' [(''children'', JArr stmts)]), (''loc'', loc)]"

definition nameRef :: "string \<Rightarrow> jv \<Rightarrow> jv" where
  "nameRef n loc = nd ''name'' [(''name'', JStr n), (''resolution'', JStr ''uqn''), (''loc'', loc)]"

definition variable :: "string \<Rightarrow> jv" where
  "variable n = nd ''variable'' [(''name'', JStr n), (''curly'', JBool False)]"

definition stmt :: "jv \<Rightarrow> jv" where
  "stmt e = nd ''expressionstatement'' [(''expression'', e)]"

definition methodCall :: "jv \<Rightarrow> string \<Rightarrow> jv \<Rightarrow> jv list \<Rightarrow> jv" where
  "methodCall receiver m loc args =
     nd ''call'' [(''what'', nd ''propertylookup'' [(''what'', receiver), (''offset'', identAt m loc)]),
                  (''arguments'', JArr args)]"

definition newObject :: "string \<Rightarrow> jv \<Rightarrow> jv" where
  "newObject c loc = nd ''new'' [(''what'', nameRef c loc), (''arguments'', JArr [])]"

definition assign :: "jv \<Rightarrow> jv \<Rightarrow> jv" where
  "assign l r = nd ''assign'' [(''left'', l), (''right'', r), (''operator'', JStr ''='')]"

definition param :: "string \<Rightarrow> jv \<Rightarrow> jv \<Rightarrow> jv" where
  "param n type loc = nd ''parameter'' [(''name'', identAt n JNull), (''value'', JNull), (''type'', type),
                                        (''byref'', JBool False), (''variadic'', JBool False), (''loc'', loc)]"

definition methodDecl :: "string \<Rightarrow> jv \<Rightarrow> jv list \<Rightarrow> jv \<Rightarrow> jv \<Rightarrow> jv \<Rightarrow> jv" where
  "methodDecl n nameLoc args type body loc =
     nd ''method'' [(''name'', identAt n nameLoc), (''arguments'', JArr args), (''type'', type),
                    (''body'', body), (''loc'', loc)]"

definition block :: "jv list \<Rightarrow> jv" where
  "block stmts = nd ''block'' [(''children'', JArr stmts)]"

definition typeRef :: "string \<Rightarrow> jv" where
  "typeRef n = nd ''typereference'' [(''name'', JStr n), (''raw'', JStr n)]"

section \<open>Namespace resolver: the chosen prefix\<close>
lemma tryPrefix_nomatch: "\<not> prefixMatches rd (snd c) \<Longrightarrow> tryPrefix rd c b = b"
  by (simp add: tryPrefix_def)

lemma fold_tryPrefix_filter:
  "fold (tryPrefix rd) cs b = fold (tryPrefix rd) (filter (\<lambda>c. prefixMatches rd (snd c)) cs) b"
  by (induction cs arbitrary: b) (simp_all add: tryPrefix_nomatch)




text \<open>The candidates whose prefix matches the directory, in iteration order.\<close>

definition matching :: "char \<Rightarrow> (string \<times> paths) list \<Rightarrow> string \<Rightarrow> (string \<times> string) list" where
  "matching sep autoloads relativeDir =
     filter (\<lambda>c. prefixMatches relativeDir (snd c)) (candidates sep autoloads)"


lemma bestMatch_nomatch:
  "matching sep al rd = [] \<Longrightarrow> bestMatch sep al rd = initBest"
  unfolding bestMatch_def matching_def
  by (subst fold_tryPrefix_filter) simp

text \<open>
  An environment for the examples: a POSIX workspace with a readable \<open>composer.json\<close>
  whose \<open>autoload.psr-4\<close> is \<open>al\<close>, for a file whose relative directory is \<open>dir\<close>.
\<close>

definition ex_env :: "(string \<times> paths) list \<Rightarrow> string \<Rightarrow> psr4Env" where
  "ex_env al dir =
     \<lparr>inWorkspaceFolder = True, composerExists = True,
      readJson = Some \<lparr>autoload = Some al, autoloadDev = None\<rparr>,
      pathSep = CHR ''/'', relativeDirOf = (\<lambda>_. dir)\<rparr>"








text \<open>
  Claim C6, amended. \<open>getNamespaceFromPath\<close> returns \<open>None\<close> exactly when the file is
  in no workspace folder, the folder has no \<open>composer.json\<close>, or reading it throws. When
  the file is read and no configured prefix matches, the result is the empty string.
\<close>

theorem resolve_none_cases:
  "(getNamespaceFromPath env filePath = None \<longleftrightarrow>
      \<not> inWorkspaceFolder env \<or> \<not> composerExists env \<or> readJson env = None) \<and>
   (inWorkspaceFolder env \<and> composerExists env \<and> readJson env = Some composer \<and>
    matching (pathSep env) (autoloadsOf composer) (toUnix (pathSep env) (relativeDirOf env filePath)) = []
      \<longrightarrow> getNamespaceFromPath env filePath = Some [])"
  by (auto simp: getNamespaceFromPath_def bestMatch_nomatch initBest_def dropTrailing_def
      split: option.splits)

text \<open>
  Claim C6 as stated fails: a mapping file exists, no prefix matches the directory
  \<open>lib\<close>, and the result is the empty string, not \<open>None\<close>.
\<close>

theorem resolve_no_match_counterexample:
  "composerExists (ex_env [(''App'' @ [bsl], One ''src/'')] ''lib'') \<and>
   matching CHR ''/'' [(''App'' @ [bsl], One ''src/'')] ''lib'' = [] \<and>
   getNamespaceFromPath (ex_env [(''App'' @ [bsl], One ''src/'')] ''lib'') ''/ws/lib/Foo.php'' = Some [] \<and>
   getNamespaceFromPath (ex_env [(''App'' @ [bsl], One ''src/'')] ''lib'') ''/ws/lib/Foo.php'' \<noteq> None"
  by (simp add: getNamespaceFromPath_def ex_env_def autoloadsOf_def spread_def bestMatch_def
      matching_def candidates_def normalizePrefix_def toUnix_def dropTrailing_def prefixMatches_def
      tryPrefix_def initBest_def candidateNamespace_def toNamespace_def)

theorem resolve_none_cases_witness:
  "getNamespaceFromPath ((ex_env [(''App'' @ [bsl], One ''src/'')] ''lib'')\<lparr>composerExists := False\<rparr>)
      ''/ws/lib/Foo.php'' = None \<and>
   getNamespaceFromPath (ex_env [(''App'' @ [bsl], One ''src/'')] ''lib'') ''/ws/lib/Foo.php'' = Some []"
proof -
  let ?E = "ex_env [(''App'' @ [bsl], One ''src/'')] ''lib''"
  have m: "matching (pathSep ?E) (autoloadsOf \<lparr>autoload = Some [(''App'' @ [bsl], One ''src/'')], autoloadDev = None\<rparr>)
      (toUnix (pathSep ?E) (relativeDirOf ?E ''/ws/lib/Foo.php'')) = []"
    by (simp add: ex_env_def autoloadsOf_def spread_def
      matching_def candidates_def normalizePrefix_def toUnix_def dropTrailing_def prefixMatches_def)
  have a: "getNamespaceFromPath (?E\<lparr>composerExists := False\<rparr>) ''/ws/lib/Foo.php'' = None"
    using resolve_none_cases[of "?E\<lparr>composerExists := False\<rparr>" "''/ws/lib/Foo.php''"]
    by simp
  have b: "getNamespaceFromPath ?E ''/ws/lib/Foo.php'' = Some []"
    using resolve_none_cases[of ?E "''/ws/lib/Foo.php''"
        "\<lparr>autoload = Some [(''App'' @ [bsl], One ''src/'')], autoloadDev = None\<rparr>"] m
    by (simp add: ex_env_def)
  from a b show ?thesis by simp
qed

section \<open>The indexer: scanning a file again\<close>

lemma dropPath_filter: "dropPath p defs = filter (\<lambda>d. defPath d \<noteq> p) defs"
proof -
  have "length (filter (\<lambda>d. defPath d \<noteq> p) defs) \<le> length defs" by simp
  moreover have "length (filter (\<lambda>d. defPath d \<noteq> p) defs) = length defs
      \<Longrightarrow> filter (\<lambda>d. defPath d \<noteq> p) defs = defs"
    by (metis filter_True length_filter_less linorder_neq_iff)
  ultimately show ?thesis
    unfolding dropPath_def Let_def by (metis le_neq_implies_less)
qed

text \<open>
  What the operations of one file add under a key.
\<close>

fun defsFor :: "string \<Rightarrow> string \<Rightarrow> indexOp \<Rightarrow> symbolDef list" where
  "defsFor p k (DefineClass name kind rng fqn inh) =
     (if name = k then [\<lparr>defName = name, defPath = p, defKind = kind, defRange = rng,
                          defParent = None, defFqn = Some fqn\<rparr>] else [])"
| "defsFor p k op = []"

fun methodsFor :: "string \<Rightarrow> string \<Rightarrow> indexOp \<Rightarrow> symbolDef list" where
  "methodsFor p k (DefineMethod name methodName rng) =
     (if name @ ''::'' @ methodName = k
      then [\<lparr>defName = methodName, defPath = p, defKind = ''method'', defRange = rng,
             defParent = Some name, defFqn = None\<rparr>] else [])"
| "methodsFor p k op = []"

fun inhFor :: "string \<Rightarrow> indexOp \<Rightarrow> inheritanceInfo option" where
  "inhFor c (DefineClass name kind rng fqn (Some info)) = (if name = c then Some info else None)"
| "inhFor c op = None"

fun lastInh :: "indexOp list \<Rightarrow> string \<Rightarrow> inheritanceInfo option" where
  "lastInh [] c = None"
| "lastInh (op # os) c = (case lastInh os c of Some i \<Rightarrow> Some i | None \<Rightarrow> inhFor c op)"

lemma applyOp_definitions:
  "definitions (applyOp p op s) k =
     (if defsFor p k op = [] then definitions s k
      else Some (getOrEmpty (definitions s) k @ defsFor p k op))"
  by (cases op) (auto simp: Let_def split: option.splits)

lemma applyOp_methods:
  "methods (applyOp p op s) k =
     (if methodsFor p k op = [] then methods s k
      else Some (getOrEmpty (methods s) k @ methodsFor p k op))"
  by (cases op) (auto simp: Let_def split: option.splits)

lemma applyOp_inheritance:
  "inheritance (applyOp p op s) c =
     (case inhFor c op of None \<Rightarrow> inheritance s c | Some i \<Rightarrow> Some i)"
proof (cases op)
  case (DefineClass name kind rng fqn inh)
  then show ?thesis by (cases inh) (auto simp: Let_def)
qed auto

lemma applyOp_frame:
  "index (applyOp p op s) = index s" "files (applyOp p op s) = files s"
  "isIndexing (applyOp p op s) = isIndexing s"
  by (cases op; simp add: Let_def split: option.splits)+

lemma fold_applyOp_frame:
  "index (fold (applyOp p) os s) = index s \<and> files (fold (applyOp p) os s) = files s \<and>
   isIndexing (fold (applyOp p) os s) = isIndexing s"
  by (induction os arbitrary: s) (simp_all add: applyOp_frame)

lemma fold_applyOp_definitions:
  "definitions (fold (applyOp p) os s) k =
     (if concat (map (defsFor p k) os) = [] then definitions s k
      else Some (getOrEmpty (definitions s) k @ concat (map (defsFor p k) os)))"
proof (induction os arbitrary: s)
  case Nil
  then show ?case by simp
next
  case (Cons op os)
  show ?case
    by (simp add: Cons.IH applyOp_definitions getOrEmpty_def)
qed

lemma fold_applyOp_methods:
  "methods (fold (applyOp p) os s) k =
     (if concat (map (methodsFor p k) os) = [] then methods s k
      else Some (getOrEmpty (methods s) k @ concat (map (methodsFor p k) os)))"
proof (induction os arbitrary: s)
  case Nil
  then show ?case by simp
next
  case (Cons op os)
  show ?case
    by (simp add: Cons.IH applyOp_methods getOrEmpty_def)
qed

lemma fold_applyOp_inheritance:
  "inheritance (fold (applyOp p) os s) c =
     (case lastInh os c of None \<Rightarrow> inheritance s c | Some i \<Rightarrow> Some i)"
proof (induction os arbitrary: s)
  case Nil
  then show ?case by simp
next
  case (Cons op os)
  show ?case
    by (simp add: Cons.IH applyOp_inheritance split: option.splits)
qed

lemma defsFor_path: "d \<in> set (defsFor p k op) \<Longrightarrow> defPath d = p"
  by (cases op) (auto split: if_splits)

lemma methodsFor_path: "d \<in> set (methodsFor p k op) \<Longrightarrow> defPath d = p"
  by (cases op) (auto split: if_splits)

lemma inhFor_defsFor: "inhFor c op = Some i \<Longrightarrow> defsFor p c op \<noteq> []"
  by (cases "(c, op)" rule: inhFor.cases) (auto split: if_splits)

lemma lastInh_defs: "lastInh os c = Some i \<Longrightarrow> concat (map (defsFor p c) os) \<noteq> []"
  by (induction os) (auto split: option.splits dest: inhFor_defsFor)


text \<open>
  The invariant of the index that the re-scan needs: a class without a definitions
  entry has no inheritance entry. It holds in every state the indexer reaches.
\<close>

definition indexInv :: "indexer \<Rightarrow> bool" where
  "indexInv s \<longleftrightarrow> (\<forall>c. definitions s c = None \<longrightarrow> inheritance s c = None)"

definition pushedDefs :: "string \<Rightarrow> jv \<Rightarrow> string \<Rightarrow> symbolDef list" where
  "pushedDefs path ast k = concat (map (defsFor path k) (ops (traverseProgram ast)))"

definition pushedMethods :: "string \<Rightarrow> jv \<Rightarrow> string \<Rightarrow> symbolDef list" where
  "pushedMethods path ast k = concat (map (methodsFor path k) (ops (traverseProgram ast)))"

abbreviation (input) others :: "string \<Rightarrow> symbolDef list \<Rightarrow> symbolDef list" where
  "others path defs \<equiv> filter (\<lambda>d. defPath d \<noteq> path) defs"

lemma pushedDefs_path: "d \<in> set (pushedDefs path ast k) \<Longrightarrow> defPath d = path"
  by (auto simp: pushedDefs_def dest: defsFor_path)

lemma pushedMethods_path: "d \<in> set (pushedMethods path ast k) \<Longrightarrow> defPath d = path"
  by (auto simp: pushedMethods_def dest: methodsFor_path)

lemma others_pushedDefs: "others path (pushedDefs path ast k) = []"
  by (auto simp: filter_empty_conv dest: pushedDefs_path)

lemma others_pushedMethods: "others path (pushedMethods path ast k) = []"
  by (auto simp: filter_empty_conv dest: pushedMethods_path)

lemma list_all_others: "list_all (\<lambda>d. defPath d = p) (filter (\<lambda>d. defPath d \<noteq> p) l)
    \<longleftrightarrow> filter (\<lambda>d. defPath d \<noteq> p) l = []"
  by (induction l) auto

text \<open>
  The components of the state after \<open>updateIndexForFile\<close>: what is removed goes by the
  parsed URI, what is added by the string and the path that were passed.
\<close>

lemma update_files:
  "files (updateIndexForFile parse str path ast s) = files s - {uriStr (parse str)}"
  by (simp add: updateIndexForFile_def Let_def addUsages_def fold_applyOp_frame removeFile_def)

lemma update_isIndexing:
  "isIndexing (updateIndexForFile parse str path ast s) = isIndexing s"
  by (simp add: updateIndexForFile_def Let_def addUsages_def fold_applyOp_frame removeFile_def)

lemma update_index:
  "index (updateIndexForFile parse str path ast s) k =
     (if \<not> threw (traverseProgram ast) \<and> k \<in> symbolsFound (ops (traverseProgram ast))
      then Some ((case index s k of None \<Rightarrow> {} | Some fs \<Rightarrow> fs - {uriStr (parse str)}) \<union> {str})
      else map_option (\<lambda>fs. fs - {uriStr (parse str)}) (index s k))"
  by (auto simp add: updateIndexForFile_def Let_def addUsages_def fold_applyOp_frame removeFile_def
      split: option.splits)

lemma update_definitions:
  "definitions (updateIndexForFile parse str path ast s) k =
     (if pushedDefs path ast k = []
      then map_option (others (fsPath (parse str))) (definitions s k)
      else Some (others (fsPath (parse str)) (getOrEmpty (definitions s) k) @ pushedDefs path ast k))"
  by (auto simp add: updateIndexForFile_def Let_def addUsages_def fold_applyOp_definitions
      removeFile_def pushedDefs_def dropPath_filter getOrEmpty_def split: option.splits)

lemma update_methods:
  "methods (updateIndexForFile parse str path ast s) k =
     (if pushedMethods path ast k = []
      then map_option (others (fsPath (parse str))) (methods s k)
      else Some (others (fsPath (parse str)) (getOrEmpty (methods s) k) @ pushedMethods path ast k))"
  by (auto simp add: updateIndexForFile_def Let_def addUsages_def fold_applyOp_methods
      removeFile_def pushedMethods_def dropPath_filter getOrEmpty_def split: option.splits)

lemma update_inheritance:
  "inheritance (updateIndexForFile parse str path ast s) c =
     (case lastInh (ops (traverseProgram ast)) c of
        Some i \<Rightarrow> Some i
      | None \<Rightarrow> (if (case definitions s c of
                       None \<Rightarrow> False
                     | Some l \<Rightarrow> others (fsPath (parse str)) l = [])
                 then None else inheritance s c))"
  by (auto simp add: updateIndexForFile_def Let_def addUsages_def fold_applyOp_inheritance
      removeFile_def dropPath_filter list_all_others split: option.splits)

lemma lastInh_pushed:
  "lastInh (ops (traverseProgram ast)) c = Some i \<Longrightarrow> pushedDefs path ast c \<noteq> []"
  unfolding pushedDefs_def by (rule lastInh_defs)

lemma indexer_eqI:
  fixes a b :: indexer
  assumes "\<And>k. index a k = index b k" "\<And>k. definitions a k = definitions b k"
    "\<And>k. methods a k = methods b k" "\<And>k. inheritance a k = inheritance b k"
    "files a = files b" "isIndexing a = isIndexing b"
  shows "a = b"
  using assms by (intro indexer.equality ext) auto

text \<open>
  The second update of a file changes no map when the parsed URI has the path the entries
  were stored under.
\<close>

lemma update_idempotent:
  assumes inv: "indexInv s" and rt: "fsPath (parse str) = path"
    and eq: "index s' = index (updateIndexForFile parse str path ast s)"
      "definitions s' = definitions (updateIndexForFile parse str path ast s)"
      "methods s' = methods (updateIndexForFile parse str path ast s)"
      "inheritance s' = inheritance (updateIndexForFile parse str path ast s)"
  shows "index (updateIndexForFile parse str path ast s') = index s' \<and>
         definitions (updateIndexForFile parse str path ast s') = definitions s' \<and>
         methods (updateIndexForFile parse str path ast s') = methods s' \<and>
         inheritance (updateIndexForFile parse str path ast s') = inheritance s'"
proof (intro conjI ext)
  fix k
  show "index (updateIndexForFile parse str path ast s') k = index s' k"
    by (cases "index s k") (auto simp: update_index eq split: option.splits)
  show "definitions (updateIndexForFile parse str path ast s') k = definitions s' k"
    by (cases "definitions s k")
       (auto simp: update_definitions eq rt getOrEmpty_def others_pushedDefs)
  show "methods (updateIndexForFile parse str path ast s') k = methods s' k"
    by (cases "methods s k")
       (auto simp: update_methods eq rt getOrEmpty_def others_pushedMethods)
  show "inheritance (updateIndexForFile parse str path ast s') k = inheritance s' k"
  proof (cases "lastInh (ops (traverseProgram ast)) k")
    case (Some i)
    then show ?thesis by (simp add: update_inheritance eq)
  next
    case None
    show ?thesis
    proof (cases "definitions s k")
      case dn: None
      with inv have "inheritance s k = None" by (simp add: indexInv_def)
      with None dn show ?thesis
        by (simp add: update_inheritance update_definitions eq rt)
    next
      case (Some l)
      with None show ?thesis
        by (simp add: update_inheritance update_definitions eq rt getOrEmpty_def others_pushedDefs)
    qed
  qed
qed


text \<open>
  The states of the indexer: created empty, then changed by \<open>scanFile\<close> (whatever
  \<open>Uri.parse\<close> answers), \<open>removeFile\<close>, the clearing of \<open>rebuildIndex\<close>, and the writes of
  \<open>scanWorkspace\<close> to \<open>isIndexing\<close> and \<open>files\<close>.
\<close>

inductive reachable :: "indexer \<Rightarrow> bool" where
  created: "reachable emptyIndexer"
| scanned: "reachable s \<Longrightarrow> reachable (scanFile parse uri parsed s)"
| removed: "reachable s \<Longrightarrow> reachable (removeFile uri s)"
| cleared: "reachable s \<Longrightarrow> reachable (clearIndexes s)"
| guarded: "reachable s \<Longrightarrow> reachable (s\<lparr>isIndexing := b\<rparr>)"
| filesCleared: "reachable s \<Longrightarrow> reachable (s\<lparr>files := {}\<rparr>)"

lemma indexInv_update: "indexInv s \<Longrightarrow> indexInv (updateIndexForFile parse str path ast s)"
  unfolding indexInv_def
  by (auto simp: update_inheritance update_definitions split: option.splits if_splits
      dest: lastInh_pushed)

lemma indexInv_scanFile: "indexInv s \<Longrightarrow> indexInv (scanFile parse uri parsed s)"
proof (cases parsed)
  case None
  assume "indexInv s"
  with None show ?thesis by (simp add: scanFile_def indexInv_def)
next
  case (Some ast)
  assume "indexInv s"
  then have "indexInv (s\<lparr>files := files s \<union> {uriStr uri}\<rparr>)" by (simp add: indexInv_def)
  from indexInv_update[OF this] Some show ?thesis by (simp add: scanFile_def)
qed

lemma indexInv_removeFile: "indexInv s \<Longrightarrow> indexInv (removeFile uri s)"
  unfolding indexInv_def by (auto simp: removeFile_def)

lemma reachable_indexInv: "reachable s \<Longrightarrow> indexInv s"
proof (induction rule: reachable.induct)
  case created
  show ?case by (simp add: indexInv_def emptyIndexer_def)
next
  case (scanned s parse uri parsed)
  then show ?case by (simp add: indexInv_scanFile)
next
  case (removed s uri)
  then show ?case by (simp add: indexInv_removeFile)
next
  case (cleared s)
  show ?case by (simp add: indexInv_def clearIndexes_def)
next
  case (guarded s b)
  then show ?case by (simp add: indexInv_def)
next
  case (filesCleared s)
  then show ?case by (simp add: indexInv_def)
qed

lemma scanFile_twice:
  assumes "indexInv s" and rt: "fsPath (parse (uriStr uri)) = fsPath uri"
  shows "scanFile parse uri parsed (scanFile parse uri parsed s) = scanFile parse uri parsed s"
proof (cases parsed)
  case None
  then show ?thesis by (simp add: scanFile_def)
next
  case (Some ast)
  define s0 where "s0 = s\<lparr>files := files s \<union> {uriStr uri}\<rparr>"
  define s1 where "s1 = updateIndexForFile parse (uriStr uri) (fsPath uri) ast s0"
  define s1' where "s1' = s1\<lparr>files := files s1 \<union> {uriStr uri}\<rparr>"
  have inv0: "indexInv s0" using assms by (simp add: indexInv_def s0_def)
  have one: "scanFile parse uri parsed s = s1"
    using Some by (simp add: scanFile_def s0_def s1_def)
  have two: "scanFile parse uri parsed s1 = updateIndexForFile parse (uriStr uri) (fsPath uri) ast s1'"
    using Some by (simp add: scanFile_def s1'_def)
  have core: "index (updateIndexForFile parse (uriStr uri) (fsPath uri) ast s1') = index s1' \<and>
         definitions (updateIndexForFile parse (uriStr uri) (fsPath uri) ast s1') = definitions s1' \<and>
         methods (updateIndexForFile parse (uriStr uri) (fsPath uri) ast s1') = methods s1' \<and>
         inheritance (updateIndexForFile parse (uriStr uri) (fsPath uri) ast s1') = inheritance s1'"
    by (rule update_idempotent[of s0 parse "uriStr uri" "fsPath uri" s1' ast, OF inv0 rt])
       (simp_all add: s1'_def s1_def)
  have "updateIndexForFile parse (uriStr uri) (fsPath uri) ast s1' = s1"
  proof (rule indexer_eqI)
    show "files (updateIndexForFile parse (uriStr uri) (fsPath uri) ast s1') = files s1"
      by (auto simp: update_files s1'_def s1_def s0_def)
    show "isIndexing (updateIndexForFile parse (uriStr uri) (fsPath uri) ast s1') = isIndexing s1"
      by (simp add: update_isIndexing s1'_def)
  qed (simp_all add: core, simp_all add: s1'_def)
  with one two show ?thesis by simp
qed

section \<open>The indexer: examples of a second scan\<close>

text \<open>
  \<open>Uri.parse\<close> on the strings of the examples, which are \<open>file\<close> URIs without escapes:
  the path after \<open>file://\<close>, or two slashes, the authority and the path when there is an
  authority (a UNC share).
\<close>

definition parseFileUri :: "string \<Rightarrow> vsUri" where
  "parseFileUri s =
     (let rest = drop 7 s
      in \<lparr>uriStr = s, fsPath = (if take 1 rest = ''/'' then rest else ''//'' @ rest)\<rparr>)"

text \<open>
  A file with a namespace, an import and a class with a method; its traversal raises
  nothing.
\<close>

definition fooAst :: jv where
  "fooAst =
     nd ''program'' [(''children'', JArr [
       nd ''namespace'' [(''name'', JStr ''App''), (''loc'', JLoc 2 0 7 1),
         (''children'', JArr [
           nd ''usegroup'' [(''items'', JArr [nd ''useitem'' [(''name'', JStr (''Lib'' @ bsl # ''Base''))]])],
           nd ''class'' [(''name'', identAt ''Foo'' (JLoc 4 6 4 9)),
             (''extends'', nameRef ''Base'' (JLoc 4 18 4 22)),
             (''implements'', JArr [nameRef ''Countable'' (JLoc 4 34 4 43)]),
             (''loc'', JLoc 4 0 7 1),
             (''body'', JArr [methodDecl ''run'' (JLoc 5 20 5 23) [] JNull (block []) (JLoc 5 4 6 5)])]])]])]"

definition fooUri :: vsUri where
  "fooUri = \<lparr>uriStr = ''file:///ws/src/Foo.php'', fsPath = ''/ws/src/Foo.php''\<rparr>"

text \<open>
  The same file on a share whose host is written with capitals: \<open>fsPath\<close> keeps the host as
  written, \<open>toString\<close> lower-cases it.
\<close>

definition uncUri :: vsUri where
  "uncUri = \<lparr>uriStr = ''file://server/share/Foo.php'', fsPath = ''//SERVER/share/Foo.php''\<rparr>"

text \<open>
  Two files that each define a class \<open>Foo\<close>, the second one with an \<open>implements\<close>; the
  index after both are scanned.
\<close>

definition classFoo :: "jv \<Rightarrow> jv" where
  "classFoo implements =
     nd ''program'' [(''children'', JArr [
       nd ''class'' [(''name'', identAt ''Foo'' (JLoc 2 6 2 9)), (''extends'', JNull),
         (''implements'', implements), (''loc'', JLoc 2 0 3 1), (''body'', JArr [])]])]"

definition firstUri :: vsUri where
  "firstUri = \<lparr>uriStr = ''file:///ws/a.php'', fsPath = ''/ws/a.php''\<rparr>"

definition secondUri :: vsUri where
  "secondUri = \<lparr>uriStr = ''file:///ws/b.php'', fsPath = ''/ws/b.php''\<rparr>"

definition twoFiles :: indexer where
  "twoFiles = scanFile parseFileUri secondUri (Some (classFoo (JArr [nameRef ''Marker'' (JLoc 2 21 2 27)])))
                (scanFile parseFileUri firstUri (Some (classFoo JNull)) emptyIndexer)"

text \<open>
  Claim C4 (scanning a file twice is scanning it once, because the entries of the file are
  removed before they are added again). In every state the indexer reaches, and for every
  outcome of reading and parsing the file, the second scan changes nothing \<^emph>\<open>when the URI parsed
  from \<open>uri.toString()\<close> has the path of \<open>uri\<close>\<close>: the entries are removed by the one and stored
  under the other. For the file on the share the two differ, nothing is removed, and the
  second scan leaves the class and its method defined twice. The removal is also not of all
  entries of a file: after the second of the two files that define \<open>Foo\<close> is removed, the
  inheritance edge it wrote is still there.
\<close>

theorem rescan_idempotent_if_path_round_trips:
  "(reachable s \<longrightarrow> fsPath (parse (uriStr uri)) = fsPath uri \<longrightarrow>
      scanFile parse uri parsed (scanFile parse uri parsed s) = scanFile parse uri parsed s)
   \<and> fsPath (parseFileUri (uriStr uncUri)) = ''//server/share/Foo.php''
   \<and> map_option (map defPath) (definitions (scanFile parseFileUri uncUri (Some fooAst) emptyIndexer) ''Foo'')
     = Some [''//SERVER/share/Foo.php'']
   \<and> map_option (map defPath)
       (definitions (scanFile parseFileUri uncUri (Some fooAst)
                       (scanFile parseFileUri uncUri (Some fooAst) emptyIndexer)) ''Foo'')
     = Some [''//SERVER/share/Foo.php'', ''//SERVER/share/Foo.php'']
   \<and> map_option (map defPath)
       (methods (scanFile parseFileUri uncUri (Some fooAst)
                   (scanFile parseFileUri uncUri (Some fooAst) emptyIndexer)) ''Foo::run'')
     = Some [''//SERVER/share/Foo.php'', ''//SERVER/share/Foo.php'']
   \<and> map_option implementsNames (inheritance (removeFile secondUri twoFiles) ''Foo'')
     = Some [JStr ''Marker'']
   \<and> map_option (map defPath) (definitions (removeFile secondUri twoFiles) ''Foo'')
     = Some [''/ws/a.php'']"
proof -
  have a: "reachable s \<longrightarrow> fsPath (parse (uriStr uri)) = fsPath uri \<longrightarrow>
      scanFile parse uri parsed (scanFile parse uri parsed s) = scanFile parse uri parsed s"
    by (auto intro: scanFile_twice reachable_indexInv)
  have b: "fsPath (parseFileUri (uriStr uncUri)) = ''//server/share/Foo.php''"
    by code_simp
  have c: "map_option (map defPath)
       (definitions (scanFile parseFileUri uncUri (Some fooAst) emptyIndexer) ''Foo'')
     = Some [''//SERVER/share/Foo.php'']"
    by code_simp
  have d: "map_option (map defPath)
       (definitions (scanFile parseFileUri uncUri (Some fooAst)
                       (scanFile parseFileUri uncUri (Some fooAst) emptyIndexer)) ''Foo'')
     = Some [''//SERVER/share/Foo.php'', ''//SERVER/share/Foo.php'']"
    by code_simp
  have e: "map_option (map defPath)
       (methods (scanFile parseFileUri uncUri (Some fooAst)
                   (scanFile parseFileUri uncUri (Some fooAst) emptyIndexer)) ''Foo::run'')
     = Some [''//SERVER/share/Foo.php'', ''//SERVER/share/Foo.php'']"
    by code_simp
  have f: "map_option implementsNames (inheritance (removeFile secondUri twoFiles) ''Foo'')
     = Some [JStr ''Marker'']"
    by code_simp
  have g: "map_option (map defPath) (definitions (removeFile secondUri twoFiles) ''Foo'')
     = Some [''/ws/a.php'']"
    by code_simp
  show ?thesis
    by (intro conjI) (rule a, rule b, rule c, rule d, rule e, rule f, rule g)
qed

text \<open>
  The witness: the first file scanned into the index of the two others. Its URI comes back
  from its string with the same path, the second scan changes nothing, the usage index knows
  the file under the imported name, and the class has one definition from each of the three
  files.
\<close>

theorem rescan_idempotent_if_path_round_trips_witness:
  "reachable twoFiles
   \<and> fsPath (parseFileUri (uriStr fooUri)) = fsPath fooUri
   \<and> scanFile parseFileUri fooUri (Some fooAst) (scanFile parseFileUri fooUri (Some fooAst) twoFiles)
     = scanFile parseFileUri fooUri (Some fooAst) twoFiles
   \<and> threw (traverseProgram fooAst) = False
   \<and> index (scanFile parseFileUri fooUri (Some fooAst) twoFiles) ''Base''
     = Some {''file:///ws/src/Foo.php''}
   \<and> map_option (map defPath) (definitions (scanFile parseFileUri fooUri (Some fooAst) twoFiles) ''Foo'')
     = Some [''/ws/a.php'', ''/ws/b.php'', ''/ws/src/Foo.php'']"
proof -
  have r: "reachable twoFiles"
    unfolding twoFiles_def by (intro reachable.scanned reachable.created)
  have p: "fsPath (parseFileUri (uriStr fooUri)) = fsPath fooUri"
    by code_simp
  have e: "scanFile parseFileUri fooUri (Some fooAst) (scanFile parseFileUri fooUri (Some fooAst) twoFiles)
     = scanFile parseFileUri fooUri (Some fooAst) twoFiles"
    using rescan_idempotent_if_path_round_trips
            [of twoFiles parseFileUri fooUri "Some fooAst", THEN conjunct1] r p
    by blast
  have t: "threw (traverseProgram fooAst) = False"
    by code_simp
  have i: "index (scanFile parseFileUri fooUri (Some fooAst) twoFiles) ''Base''
     = Some {''file:///ws/src/Foo.php''}"
    by code_simp
  have d: "map_option (map defPath)
       (definitions (scanFile parseFileUri fooUri (Some fooAst) twoFiles) ''Foo'')
     = Some [''/ws/a.php'', ''/ws/b.php'', ''/ws/src/Foo.php'']"
    by code_simp
  show ?thesis
    by (intro conjI) (rule r, rule p, rule e, rule t, rule i, rule d)
qed
section \<open>The workspace scan: one at a time, and stuck after an exception\<close>

text \<open>
  At most one activation, and the guard is set while there is one; \<open>stuck\<close>: the guard
  is set and no activation is left to clear it.
\<close>

definition exclusive :: "system \<Rightarrow> bool" where
  "exclusive c \<longleftrightarrow> length (scans c) \<le> 1 \<and> (scans c = [] \<or> isIndexing (ix c))"

definition stuck :: "system \<Rightarrow> bool" where
  "stuck c \<longleftrightarrow> isIndexing (ix c) \<and> scans c = []"

lemma scanFile_isIndexing: "isIndexing (scanFile parse uri parsed s) = isIndexing s"
  by (cases parsed) (simp_all add: scanFile_def update_isIndexing)

lemma removeFile_isIndexing: "isIndexing (removeFile uri s) = isIndexing s"
  by (simp add: removeFile_def)

lemma clearIndexes_isIndexing: "isIndexing (clearIndexes s) = isIndexing s"
  by (simp add: clearIndexes_def)

lemma one_scan: "length (before @ phase # after) \<le> 1 \<Longrightarrow> before = [] \<and> after = []"
  by (cases before) auto

lemma exclusive_call: "exclusive c \<Longrightarrow> exclusive (scanWorkspaceCall c)"
  by (auto simp: exclusive_def scanWorkspaceCall_def)

lemma exclusive_step: "step c e c' \<Longrightarrow> exclusive c \<Longrightarrow> exclusive c'"
proof (induction rule: step.induct)
  case (call c)
  then show ?case by (rule exclusive_call)
next
  case (rebuild c)
  then have "exclusive (c\<lparr>ix := clearIndexes (ix c)\<rparr>)"
    by (simp add: exclusive_def clearIndexes_isIndexing)
  then show ?case unfolding rebuildIndexCall_def by (rule exclusive_call)
next
  case (nextFile c before uri parsed rest after parse)
  then show ?case by (auto simp: exclusive_def scanFile_isIndexing)
next
  case (fileScanned c uri parsed parse)
  then show ?case by (auto simp: exclusive_def scanFile_isIndexing)
next
  case (fileRemoved c uri)
  then show ?case by (auto simp: exclusive_def removeFile_isIndexing)
qed (auto simp: exclusive_def dest: one_scan)

lemma exclusive_run: "run c c' \<Longrightarrow> exclusive c \<Longrightarrow> exclusive c'"
  by (induction rule: run.induct) (auto intro: exclusive_step)

lemma exclusive_started: "exclusive started"
  by (simp add: exclusive_def started_def)

lemma stuck_step: "step c e c' \<Longrightarrow> stuck c \<Longrightarrow> stuck c'"
  by (induction rule: step.induct)
     (auto simp: stuck_def scanWorkspaceCall_def rebuildIndexCall_def clearIndexes_isIndexing
        scanFile_isIndexing removeFile_isIndexing)

lemma stuck_run: "run c c' \<Longrightarrow> stuck c \<Longrightarrow> stuck c'"
  by (induction rule: run.induct) (auto intro: stuck_step)

lemma throw_stuck: "step c Throw c' \<Longrightarrow> exclusive c \<Longrightarrow> stuck c'"
  by (erule step.cases) (auto simp: exclusive_def stuck_def dest: one_scan)

lemma cleared_only_by_exit:
  "step c e c' \<Longrightarrow> exclusive c \<Longrightarrow> isIndexing (ix c) \<Longrightarrow> \<not> isIndexing (ix c') \<Longrightarrow>
   e = Advance \<and> scans c \<noteq> [] \<and> scans c' = []"
  by (induction rule: step.induct)
     (auto simp: exclusive_def scanWorkspaceCall_def rebuildIndexCall_def clearIndexes_isIndexing
        scanFile_isIndexing removeFile_isIndexing dest: one_scan)

lemma stuck_calls:
  assumes "stuck c"
  shows "scanWorkspaceCall c = c"
    and "rebuildIndexCall c = c\<lparr>ix := clearIndexes (ix c)\<rparr>"
  using assms by (simp_all add: stuck_def scanWorkspaceCall_def rebuildIndexCall_def clearIndexes_isIndexing)

text \<open>
  Claim C10. In every configuration a run reaches from the start there is at most one
  activation of \<open>scanWorkspace\<close> (no two scans overlap). If the activation ends by an
  exception, the guard stays set in every configuration reached afterwards, no
  activation ever exists again, every later call of \<open>scanWorkspace\<close> returns the
  configuration unchanged, and \<open>rebuildIndex\<close> only clears the maps. The guard is
  cleared only by an activation that ends on one of its two normal exits.
\<close>

theorem scan_guard_not_exception_safe:
  assumes "run started c"
  shows "length (scans c) \<le> 1 \<and>
         (\<forall>c'. step c Throw c' \<longrightarrow>
            stuck c' \<and>
            (\<forall>c''. run c' c'' \<longrightarrow>
               isIndexing (ix c'') \<and> scans c'' = [] \<and>
               scanWorkspaceCall c'' = c'' \<and>
               rebuildIndexCall c'' = c''\<lparr>ix := clearIndexes (ix c'')\<rparr>)) \<and>
         (\<forall>e c'. step c e c' \<and> isIndexing (ix c) \<and> \<not> isIndexing (ix c')
            \<longrightarrow> e = Advance \<and> scans c \<noteq> [] \<and> scans c' = [])"
proof -
  have g: "exclusive c" using assms exclusive_started by (rule exclusive_run)
  have a: "length (scans c) \<le> 1" using g by (simp add: exclusive_def)
  have b: "stuck c' \<and> (\<forall>c''. run c' c'' \<longrightarrow>
               isIndexing (ix c'') \<and> scans c'' = [] \<and>
               scanWorkspaceCall c'' = c'' \<and>
               rebuildIndexCall c'' = c''\<lparr>ix := clearIndexes (ix c'')\<rparr>)"
    if t: "step c Throw c'" for c'
  proof -
    have s: "stuck c'" using t g by (rule throw_stuck)
    have "isIndexing (ix c'') \<and> scans c'' = [] \<and>
               scanWorkspaceCall c'' = c'' \<and>
               rebuildIndexCall c'' = c''\<lparr>ix := clearIndexes (ix c'')\<rparr>" if r: "run c' c''" for c''
    proof -
      have "stuck c''" using r s by (rule stuck_run)
      then show ?thesis using stuck_calls[of c''] by (simp add: stuck_def)
    qed
    with s show ?thesis by blast
  qed
  have c: "e = Advance \<and> scans c \<noteq> [] \<and> scans c' = []"
    if "step c e c' \<and> isIndexing (ix c) \<and> \<not> isIndexing (ix c')" for e c'
    using that g cleared_only_by_exit by blast
  from a b c show ?thesis by blast
qed


text \<open>
  The witness: a scan is called on the new indexer, clears the file set, the file
  search is rejected; the guard stays set, and a later \<open>rebuildIndex\<close> and
  \<open>scanWorkspace\<close> start no scan.
\<close>

definition ex_finding :: system where
  "ex_finding = \<lparr>ix = emptyIndexer\<lparr>isIndexing := True, files := {}\<rparr>, scans = [Finding]\<rparr>"

definition ex_thrown :: system where
  "ex_thrown = \<lparr>ix = emptyIndexer\<lparr>isIndexing := True, files := {}\<rparr>, scans = []\<rparr>"

lemma run_ex_finding: "run started ex_finding"
proof -
  have 1: "step started Call (scanWorkspaceCall started)" by (rule step.call)
  have 2: "step (scanWorkspaceCall started) Advance ex_finding"
    using step.filesCleared[of "scanWorkspaceCall started" "[]" "[]"]
    by (simp add: scanWorkspaceCall_def started_def emptyIndexer_def ex_finding_def)
  from run.here[of started] 1 have "run started (scanWorkspaceCall started)" by (rule run.further)
  from this 2 show ?thesis by (rule run.further)
qed

lemma throw_ex_finding: "step ex_finding Throw ex_thrown"
  using step.throw[of ex_finding "[]" Finding "[]"] by (simp add: ex_finding_def ex_thrown_def)

lemma run_ex_thrown: "run ex_thrown (rebuildIndexCall ex_thrown)"
  using run.here[of ex_thrown] step.rebuild[of ex_thrown] by (rule run.further)

theorem scan_guard_not_exception_safe_witness:
  "run started ex_finding \<and> step ex_finding Throw ex_thrown \<and>
   run ex_thrown (rebuildIndexCall ex_thrown) \<and>
   length (scans ex_finding) \<le> 1 \<and>
   stuck ex_thrown \<and>
   isIndexing (ix (rebuildIndexCall ex_thrown)) \<and> scans (rebuildIndexCall ex_thrown) = [] \<and>
   scanWorkspaceCall (rebuildIndexCall ex_thrown) = rebuildIndexCall ex_thrown \<and>
   scanWorkspaceCall ex_thrown = ex_thrown"
proof -
  note t = scan_guard_not_exception_safe[OF run_ex_finding]
  from t have l: "length (scans ex_finding) \<le> 1" by blast
  from t throw_ex_finding have s: "stuck ex_thrown" by blast
  from t throw_ex_finding have
    a: "\<forall>c''. run ex_thrown c'' \<longrightarrow>
               isIndexing (ix c'') \<and> scans c'' = [] \<and>
               scanWorkspaceCall c'' = c'' \<and>
               rebuildIndexCall c'' = c''\<lparr>ix := clearIndexes (ix c'')\<rparr>" by blast
  from a run_ex_thrown have
    b: "isIndexing (ix (rebuildIndexCall ex_thrown)) \<and> scans (rebuildIndexCall ex_thrown) = [] \<and>
        scanWorkspaceCall (rebuildIndexCall ex_thrown) = rebuildIndexCall ex_thrown" by blast
  from a run.here[of ex_thrown] have c: "scanWorkspaceCall ex_thrown = ex_thrown" by blast
  from run_ex_finding throw_ex_finding run_ex_thrown l s b c show ?thesis by blast
qed

section \<open>Method rename from the command: the class of a call on \<open>$this\<close>\<close>

text \<open>
  The file \<open>test-rename/ClassAwareTest.php\<close> of the repository (the second comment is the
  file's own) and the tree the parser gives for it, reduced to the properties the code reads.
\<close>

definition classAwareText :: string where
  "classAwareText = joinWith [CHR 10]
     [''<?php'', [], ''namespace App'' @ bsl # ''Test;'', [],
      ''class UserController {'',
      ''    public function handle() {'',
      ''        return 1;'',
      ''    }'',
      ''    '',
      ''    public function process() {'',
      ''        // $this should only rename in UserController'',
      ''        return $this->handle();'',
      ''    }'',
      ''}'',
      [],
      ''class OrderController {'',
      ''    public function handle() {'',
      ''        return 2;'',
      ''    }'',
      ''    '',
      ''    public function execute() {'',
      ''        // $this should only rename in OrderController, NOT affected by UserController rename'',
      ''        return $this->handle();'',
      ''    }'',
      ''}'', []]"

definition classAwareAst :: jv where
  "classAwareAst =
     nd ''program'' [(''children'', JArr [
       nd ''namespace'' [(''name'', JStr (''App'' @ bsl # ''Test'')), (''loc'', JLoc 3 0 25 1),
         (''children'', JArr [
           nd ''class'' [(''name'', identAt ''UserController'' (JLoc 5 6 5 20)),
             (''extends'', JNull), (''implements'', JNull), (''loc'', JLoc 5 0 14 1),
             (''body'', JArr [
               method0 ''handle'' (JLoc 6 20 6 26) (JLoc 6 4 8 5)
                 [nd ''return'' [(''expr'', nd ''number'' [(''value'', JStr ''1'')])]],
               method0 ''process'' (JLoc 10 20 10 27) (JLoc 10 4 13 5)
                 [nd ''return'' [(''expr'', thisCall ''handle'' (JLoc 12 22 12 28))]]])],
           nd ''class'' [(''name'', identAt ''OrderController'' (JLoc 16 6 16 21)),
             (''extends'', JNull), (''implements'', JNull), (''loc'', JLoc 16 0 25 1),
             (''body'', JArr [
               method0 ''handle'' (JLoc 17 20 17 26) (JLoc 17 4 19 5)
                 [nd ''return'' [(''expr'', nd ''number'' [(''value'', JStr ''2'')])]],
               method0 ''execute'' (JLoc 21 20 21 27) (JLoc 21 4 24 5)
                 [nd ''return'' [(''expr'', thisCall ''handle'' (JLoc 23 22 23 28))]]])]])]])]"

definition classAwareFile :: phpFile where
  "classAwareFile = \<lparr>fileUri = \<lparr>uriStr = ''file:///ws/test-rename/ClassAwareTest.php'',
                                  fsPath = ''/ws/test-rename/ClassAwareTest.php''\<rparr>,
                      fileText = Some classAwareText, fileAst = Some classAwareAst\<rparr>"


text \<open>
  Claim C1 (class isolation of a method rename). Renaming \<open>UserController::handle\<close> in the
  repository's own \<open>ClassAwareTest.php\<close> should leave \<open>OrderController\<close> alone, and a call on
  \<open>$this\<close> should count only when the enclosing class is the target. The code does otherwise:
  the file's first class, \<open>UserController\<close>, is the target, and the four edits of the
  result are the two definitions and the two calls. The call \<open>$this->handle()\<close> of line 23,
  which \<open>findMethodUsages\<close> accepts, lies inside \<open>OrderController\<close> (lines 16-25), and so does
  the name of \<open>OrderController::handle\<close> (line 17), which the definition pass replaces; and a
  receiver \<open>$this\<close> is valid for every target class and every scope, whatever class encloses
  the call.
\<close>

theorem this_call_renamed_in_other_class:
  "createMethodRenameEdit classAwareFile ''handle'' ''run'' [classAwareFile]
     = Edits [(''file:///ws/test-rename/ClassAwareTest.php'',
               replaceEdit (VsRange (Position 5 20) (Position 5 26)) ''run''),
              (''file:///ws/test-rename/ClassAwareTest.php'',
               replaceEdit (VsRange (Position 16 20) (Position 16 26)) ''run''),
              (''file:///ws/test-rename/ClassAwareTest.php'',
               replaceEdit (VsRange (Position 11 22) (Position 11 28)) ''run''),
              (''file:///ws/test-rename/ClassAwareTest.php'',
               replaceEdit (VsRange (Position 22 22) (Position 22 28)) ''run'')]
   \<and> getClassNameFromFile classAwareAst = Found (Some ''UserController'')
   \<and> findMethodUsages classAwareAst (''App'' @ bsl # ''Test'' @ bsl # ''UserController'') ''handle'' ''run''
     = Some [replaceEdit (VsRange (Position 11 22) (Position 11 28)) ''run'',
             replaceEdit (VsRange (Position 22 22) (Position 22 28)) ''run'']
   \<and> locRange (JLoc 16 0 25 1) = Some (VsRange (Position 15 0) (Position 24 1))
   \<and> within (Position 22 22) (VsRange (Position 15 0) (Position 24 1))
   \<and> within (Position 16 20) (VsRange (Position 15 0) (Position 24 1))
   \<and> acc (forEach (updateDefTraverse ''handle'' ''run'') (field ''children'' classAwareAst)
             \<lparr>acc = [], failed = False\<rparr>)
       = [replaceEdit (VsRange (Position 5 20) (Position 5 26)) ''run'',
          replaceEdit (VsRange (Position 16 20) (Position 16 26)) ''run'']
   \<and> receiverValid ctx sc (nd ''variable'' [(''name'', JStr ''this'')])"
proof -
  have a: "createMethodRenameEdit classAwareFile ''handle'' ''run'' [classAwareFile]
     = Edits [(''file:///ws/test-rename/ClassAwareTest.php'',
               replaceEdit (VsRange (Position 5 20) (Position 5 26)) ''run''),
              (''file:///ws/test-rename/ClassAwareTest.php'',
               replaceEdit (VsRange (Position 16 20) (Position 16 26)) ''run''),
              (''file:///ws/test-rename/ClassAwareTest.php'',
               replaceEdit (VsRange (Position 11 22) (Position 11 28)) ''run''),
              (''file:///ws/test-rename/ClassAwareTest.php'',
               replaceEdit (VsRange (Position 22 22) (Position 22 28)) ''run'')]"
    by code_simp
  have b: "getClassNameFromFile classAwareAst = Found (Some ''UserController'')"
    by code_simp
  have u: "findMethodUsages classAwareAst (''App'' @ bsl # ''Test'' @ bsl # ''UserController'') ''handle'' ''run''
     = Some [replaceEdit (VsRange (Position 11 22) (Position 11 28)) ''run'',
             replaceEdit (VsRange (Position 22 22) (Position 22 28)) ''run'']"
    by code_simp
  have c: "locRange (JLoc 16 0 25 1) = Some (VsRange (Position 15 0) (Position 24 1))"
    by code_simp
  have d: "within (Position 22 22) (VsRange (Position 15 0) (Position 24 1))"
    by code_simp
  have e: "within (Position 16 20) (VsRange (Position 15 0) (Position 24 1))"
    by code_simp
  have f: "acc (forEach (updateDefTraverse ''handle'' ''run'') (field ''children'' classAwareAst)
             \<lparr>acc = [], failed = False\<rparr>)
       = [replaceEdit (VsRange (Position 5 20) (Position 5 26)) ''run'',
          replaceEdit (VsRange (Position 16 20) (Position 16 26)) ''run'']"
    by code_simp
  have g: "receiverValid ctx sc (nd ''variable'' [(''name'', JStr ''this'')])"
    by (simp add: receiverValid_def nd_def getName_def)
  show ?thesis
    by (intro conjI) (rule a, rule b, rule u, rule c, rule d, rule e, rule f, rule g)
qed

text \<open>The last part at the target of the example and the empty scope.\<close>

theorem this_call_renamed_in_other_class_witness:
  "receiverValid \<lparr>targetClassFqn = ''App'' @ bsl # ''Test'' @ bsl # ''UserController'',
                   oldMethod = ''handle'', newMethod = ''run'',
                   importTable = Map.empty, classProperties = Map.empty\<rparr>
     Map.empty (nd ''variable'' [(''name'', JStr ''this'')])"
  using this_call_renamed_in_other_class
    [of "\<lparr>targetClassFqn = ''App'' @ bsl # ''Test'' @ bsl # ''UserController'',
          oldMethod = ''handle'', newMethod = ''run'',
          importTable = Map.empty, classProperties = Map.empty\<rparr>" "Map.empty",
     THEN conjunct2, THEN conjunct2, THEN conjunct2, THEN conjunct2, THEN conjunct2, THEN conjunct2,
     THEN conjunct2] .

section \<open>Method rename from the command: the textual pre-scan\<close>

text \<open>
  The function the claim compares with: the same rename with the type-aware analysis run on
  every PHP file of the workspace. \<open>acceptsCall\<close> says that the analysis of a file accepts at
  least one call site for a target class.
\<close>

definition createMethodRenameEditUnfiltered :: "phpFile \<Rightarrow> string \<Rightarrow> string \<Rightarrow> phpFile list \<Rightarrow> renameResult" where
  "createMethodRenameEditUnfiltered cursor oldName newName phpFiles =
     renameWith (\<lambda>files. files) cursor oldName newName phpFiles"

definition acceptsCall :: "string \<Rightarrow> string \<Rightarrow> string \<Rightarrow> phpFile \<Rightarrow> bool" where
  "acceptsCall target oldName newName file \<longleftrightarrow>
     (case (fileText file, fileAst file) of
        (Some txt, Some ast) \<Rightarrow>
          (case findMethodUsages ast target oldName newName of
             Some fileEdits \<Rightarrow> fileEdits \<noteq> []
           | None \<Rightarrow> False)
      | _ \<Rightarrow> False)"

text \<open>
  How a call is written in the text of its file. The edit of an accepted call starts where
  the parser located the method name; \<open>arrowWritten txt name p\<close> says that in the line of \<open>p\<close>
  the two characters before \<open>p\<close> are the arrow and the characters from \<open>p\<close> on are \<open>name\<close>.
  \<open>callsWritten\<close> says so of every call that the analysis of a file accepts for a target, and
  \<open>callsWrittenIn\<close> of every file of the workspace, for the target of the rename.
\<close>

definition lineAt :: "string \<Rightarrow> nat \<Rightarrow> string" where
  "lineAt txt l = (let ls = splitOn (CHR 10) txt in if l < length ls then ls ! l else [])"

definition arrowWritten :: "string \<Rightarrow> string \<Rightarrow> position \<Rightarrow> bool" where
  "arrowWritten txt name p \<longleftrightarrow>
     2 \<le> character p \<and>
     take (2 + length name) (drop (character p - 2) (lineAt txt (line p))) = ''->'' @ name"

definition callsWritten :: "string \<Rightarrow> string \<Rightarrow> string \<Rightarrow> phpFile \<Rightarrow> bool" where
  "callsWritten target oldName newName file \<longleftrightarrow>
     (case (fileText file, fileAst file) of
        (Some txt, Some ast) \<Rightarrow>
          (case findMethodUsages ast target oldName newName of
             Some fileEdits \<Rightarrow>
               list_all (\<lambda>e. arrowWritten txt oldName (rangeStart (editRange e))) fileEdits
           | None \<Rightarrow> True)
      | _ \<Rightarrow> True)"

definition targetOf :: "phpFile \<Rightarrow> string option" where
  "targetOf cursor =
     (case fileAst cursor of
        None \<Rightarrow> None
      | Some ast \<Rightarrow> (case fullClassNameOf ast of Found target \<Rightarrow> Some target | _ \<Rightarrow> None))"

definition callsWrittenIn :: "phpFile \<Rightarrow> string \<Rightarrow> string \<Rightarrow> phpFile list \<Rightarrow> bool" where
  "callsWrittenIn cursor oldName newName phpFiles \<longleftrightarrow>
     (case targetOf cursor of
        None \<Rightarrow> True
      | Some target \<Rightarrow> list_all (callsWritten target oldName newName) phpFiles)"

text \<open>
  A class with a method \<open>handle\<close>, a script that calls it, the same script with blanks around
  the arrow (which PHP allows), and a file without statements.
\<close>

definition controllerFile :: phpFile where
  "controllerFile =
     \<lparr>fileUri = \<lparr>uriStr = ''file:///ws/src/UserController.php'', fsPath = ''/ws/src/UserController.php''\<rparr>,
      fileText = Some (joinWith [CHR 10]
        [''<?php'',
         ''class UserController {'',
         ''    public function handle() {'',
         ''    }'',
         ''}'', []]),
      fileAst = Some (nd ''program'' [(''children'', JArr [
        nd ''class'' [(''name'', identAt ''UserController'' (JLoc 2 6 2 20)),
          (''extends'', JNull), (''implements'', JNull), (''loc'', JLoc 2 0 5 1),
          (''body'', JArr [method0 ''handle'' (JLoc 3 20 3 26) (JLoc 3 4 4 5) []])]])])\<rparr>"

definition callFile :: phpFile where
  "callFile =
     \<lparr>fileUri = \<lparr>uriStr = ''file:///ws/public/run.php'', fsPath = ''/ws/public/run.php''\<rparr>,
      fileText = Some (joinWith [CHR 10]
        [''<?php'',
         ''$u = new UserController();'',
         ''$u->handle();'', []]),
      fileAst = Some (nd ''program'' [(''children'', JArr [
        stmt (assign (variable ''u'') (newObject ''UserController'' (JLoc 2 9 2 23))),
        stmt (methodCall (variable ''u'') ''handle'' (JLoc 3 4 3 10) [])])])\<rparr>"

definition spacedCallFile :: phpFile where
  "spacedCallFile =
     \<lparr>fileUri = \<lparr>uriStr = ''file:///ws/public/index.php'', fsPath = ''/ws/public/index.php''\<rparr>,
      fileText = Some (joinWith [CHR 10]
        [''<?php'',
         ''$u = new UserController();'',
         ''$u -> handle();'', []]),
      fileAst = Some (nd ''program'' [(''children'', JArr [
        stmt (assign (variable ''u'') (newObject ''UserController'' (JLoc 2 9 2 23))),
        stmt (methodCall (variable ''u'') ''handle'' (JLoc 3 6 3 12) [])])])\<rparr>"

definition plainFile :: phpFile where
  "plainFile =
     \<lparr>fileUri = \<lparr>uriStr = ''file:///ws/public/empty.php'', fsPath = ''/ws/public/empty.php''\<rparr>,
      fileText = Some (joinWith [CHR 10] [''<?php'', []]),
      fileAst = Some (nd ''program'' [(''children'', JArr [])])\<rparr>"

text \<open>
  \<open>includes\<close> is the sublist relation; a line of a text, and a piece of a line, is a sublist of
  the text. So a call written with the arrow makes the text contain \<open>->name\<close>.
\<close>

lemma strIncludes_sublist: "strIncludes s t \<longleftrightarrow> sublist t s"
  by (induction s) (simp_all add: sublist_Cons_right)

lemma splitOn_parts:
  "splitOn c s = l # ls \<Longrightarrow> prefix l s \<and> (\<forall>m\<in>set ls. sublist m s)"
proof (induction s arbitrary: l ls)
  case Nil
  then show ?case by simp
next
  case (Cons x xs)
  obtain l' ls' where sp: "splitOn c xs = l' # ls'"
    by (cases "splitOn c xs") (cases xs; simp split: if_splits list.splits)+
  from Cons.IH[OF sp] have p: "prefix l' xs" and r: "\<forall>m\<in>set ls'. sublist m xs" by simp_all
  show ?case
  proof (cases "x = c")
    case True
    with Cons.prems sp have "l = []" "ls = l' # ls'" by simp_all
    with p r show ?thesis by (auto simp: sublist_Cons_right intro: prefix_imp_sublist)
  next
    case False
    with Cons.prems sp have "l = x # l'" "ls = ls'" by simp_all
    with p r show ?thesis by (auto simp: sublist_Cons_right)
  qed
qed

lemma lineAt_sublist: "sublist (lineAt txt l) txt"
proof (cases "l < length (splitOn (CHR 10) txt)")
  case True
  then have m: "splitOn (CHR 10) txt ! l \<in> set (splitOn (CHR 10) txt)" by simp
  obtain h t where sp: "splitOn (CHR 10) txt = h # t"
    using True by (cases "splitOn (CHR 10) txt") simp_all
  from splitOn_parts[OF sp] m sp have "sublist (splitOn (CHR 10) txt ! l) txt"
    by (auto intro: prefix_imp_sublist)
  with True show ?thesis by (simp add: lineAt_def)
next
  case False
  then show ?thesis by (simp add: lineAt_def)
qed

lemma arrowWritten_includes:
  assumes "arrowWritten txt name p"
  shows "strIncludes txt (''->'' @ name)"
proof -
  from assms have "''->'' @ name = take (2 + length name) (drop (character p - 2) (lineAt txt (line p)))"
    by (simp add: arrowWritten_def)
  moreover have "sublist (take (2 + length name) (drop (character p - 2) (lineAt txt (line p))))
                   (lineAt txt (line p))"
    by (rule sublist_order.order_trans[OF sublist_take sublist_drop])
  ultimately have "sublist (''->'' @ name) (lineAt txt (line p))" by simp
  then have "sublist (''->'' @ name) txt"
    by (rule sublist_order.order_trans[OF _ lineAt_sublist])
  then show ?thesis by (simp add: strIncludes_sublist)
qed

lemma written_call_mentioned:
  assumes "callsWritten target oldName newName file" and "acceptsCall target oldName newName file"
  shows "mentions oldName file"
proof -
  from assms(2) obtain content ast fileEdits where
    f: "fileText file = Some content" "fileAst file = Some ast"
       "findMethodUsages ast target oldName newName = Some fileEdits" "fileEdits \<noteq> []"
    by (auto simp: acceptsCall_def split: option.splits)
  then obtain e where "e \<in> set fileEdits" by (cases fileEdits) auto
  with assms(1) f have "arrowWritten content oldName (rangeStart (editRange e))"
    by (auto simp: callsWritten_def list_all_iff)
  then have "strIncludes content (''->'' @ oldName)" by (rule arrowWritten_includes)
  with f show ?thesis by (simp add: mentions_def)
qed

lemma scanUsages_rejected:
  "\<not> acceptsCall target oldName newName file \<Longrightarrow> scanUsages target oldName newName file edit = edit"
  by (auto simp: acceptsCall_def scanUsages_def split: option.splits)

lemma scan_prefilter:
  assumes "\<forall>f\<in>set fs. callsWritten target oldName newName f"
  shows "fold (scanUsages target oldName newName) (filter (mentions oldName) fs) edit
       = fold (scanUsages target oldName newName) fs edit"
  using assms
proof (induction fs arbitrary: edit)
  case Nil
  then show ?case by simp
next
  case (Cons f fs)
  show ?case
  proof (cases "mentions oldName f")
    case True
    with Cons show ?thesis by simp
  next
    case False
    with Cons.prems have "\<not> acceptsCall target oldName newName f"
      by (auto dest: written_call_mentioned)
    then have "scanUsages target oldName newName f edit = edit" by (rule scanUsages_rejected)
    with False Cons show ?thesis by simp
  qed
qed

text \<open>
  Claim C9 (the pre-scan as a refinement), as it holds: analysing the files whose text
  contains \<open>->oldName\<close> or \<open>::oldName\<close> gives the edits that analysing every file gives,
  when every call that the analysis accepts is written with the arrow directly before the
  method name.
\<close>

theorem prefilter_refines_when_arrow_adjacent:
  assumes "callsWrittenIn cursor oldName newName phpFiles"
  shows "createMethodRenameEdit cursor oldName newName phpFiles
       = createMethodRenameEditUnfiltered cursor oldName newName phpFiles"
proof (cases "fileAst cursor")
  case None
  then show ?thesis
    by (simp add: createMethodRenameEdit_def createMethodRenameEditUnfiltered_def renameWith_def
        split: option.splits)
next
  case (Some ast)
  show ?thesis
  proof (cases "fullClassNameOf ast")
    case (Found target)
    with Some assms have "\<forall>f\<in>set phpFiles. callsWritten target oldName newName f"
      by (simp add: callsWrittenIn_def targetOf_def list_all_iff)
    then have eq: "fold (scanUsages target oldName newName) (filter (mentions oldName) phpFiles) edit
          = fold (scanUsages target oldName newName) phpFiles edit" for edit
      by (rule scan_prefilter)
    from Some Found show ?thesis
      by (simp add: createMethodRenameEdit_def createMethodRenameEditUnfiltered_def renameWith_def
          eq Let_def split: option.splits)
  next
    case Raised
    with Some show ?thesis
      by (simp add: createMethodRenameEdit_def createMethodRenameEditUnfiltered_def renameWith_def
          split: option.splits)
  next
    case NotFound
    with Some show ?thesis
      by (simp add: createMethodRenameEdit_def createMethodRenameEditUnfiltered_def renameWith_def
          split: option.splits)
  qed
qed

text \<open>
  The witness: the class, the script that calls \<open>$u->handle()\<close>, and the file without
  statements, which the pre-scan drops. Both runs give the definition and the call.
\<close>

theorem prefilter_refines_when_arrow_adjacent_witness:
  "callsWrittenIn controllerFile ''handle'' ''run'' [controllerFile, callFile, plainFile]
   \<and> mentions ''handle'' callFile
   \<and> \<not> mentions ''handle'' plainFile
   \<and> createMethodRenameEdit controllerFile ''handle'' ''run'' [controllerFile, callFile, plainFile]
     = createMethodRenameEditUnfiltered controllerFile ''handle'' ''run''
         [controllerFile, callFile, plainFile]
   \<and> createMethodRenameEditUnfiltered controllerFile ''handle'' ''run''
         [controllerFile, callFile, plainFile]
     = Edits [(''file:///ws/src/UserController.php'',
               replaceEdit (VsRange (Position 2 20) (Position 2 26)) ''run''),
              (''file:///ws/public/run.php'',
               replaceEdit (VsRange (Position 2 4) (Position 2 10)) ''run'')]"
proof -
  have h: "callsWrittenIn controllerFile ''handle'' ''run'' [controllerFile, callFile, plainFile]"
    by code_simp
  have m: "mentions ''handle'' callFile" by code_simp
  have n: "\<not> mentions ''handle'' plainFile" by code_simp
  note e = prefilter_refines_when_arrow_adjacent[OF h]
  have v: "createMethodRenameEditUnfiltered controllerFile ''handle'' ''run''
         [controllerFile, callFile, plainFile]
     = Edits [(''file:///ws/src/UserController.php'',
               replaceEdit (VsRange (Position 2 20) (Position 2 26)) ''run''),
              (''file:///ws/public/run.php'',
               replaceEdit (VsRange (Position 2 4) (Position 2 10)) ''run'')]"
    by code_simp
  show ?thesis by (intro conjI) (rule h, rule m, rule n, rule e, rule v)
qed

text \<open>
  The claim as stated fails: the call \<open>$u -> handle()\<close> is accepted by the analysis (\<open>$u\<close> is
  tracked to \<open>new UserController()\<close>), but it is not written with the arrow directly before
  the name, the text of the file contains neither \<open>->handle\<close> nor \<open>::handle\<close>, and the
  pre-scan drops the file and its edit.
\<close>

theorem prefilter_spaced_arrow_counterexample:
  "createMethodRenameEdit controllerFile ''handle'' ''run'' [controllerFile, spacedCallFile]
     = Edits [(''file:///ws/src/UserController.php'',
               replaceEdit (VsRange (Position 2 20) (Position 2 26)) ''run'')]
   \<and> createMethodRenameEditUnfiltered controllerFile ''handle'' ''run'' [controllerFile, spacedCallFile]
     = Edits [(''file:///ws/src/UserController.php'',
               replaceEdit (VsRange (Position 2 20) (Position 2 26)) ''run''),
              (''file:///ws/public/index.php'',
               replaceEdit (VsRange (Position 2 6) (Position 2 12)) ''run'')]
   \<and> \<not> mentions ''handle'' spacedCallFile
   \<and> \<not> callsWrittenIn controllerFile ''handle'' ''run'' [controllerFile, spacedCallFile]"
  by code_simp
section \<open>Renaming a method of an interface\<close>

text \<open>
  The file \<open>test-rename/InterfaceTest.php\<close> of the repository without its \<open>debug\<close> methods:
  an interface with a method \<open>log\<close>, two classes that implement it, and a class whose method
  takes a \<open>LoggerInterface $logger\<close> and calls \<open>$logger->log(1)\<close> (line 21, columns 17-20).
  The index is the one the indexer builds from this file.
\<close>

definition loggerText :: string where
  "loggerText = joinWith [CHR 10]
     [''<?php'', [], ''namespace App'' @ bsl # ''Test;'', [],
      ''interface LoggerInterface {'',
      ''    public function log(string $message): void;'',
      ''}'',
      [],
      ''class FileLogger implements LoggerInterface {'',
      ''    public function log(string $message): void {'',
      ''    }'',
      ''}'',
      [],
      ''class DatabaseLogger implements LoggerInterface {'',
      ''    public function log(string $message): void {'',
      ''    }'',
      ''}'',
      [],
      ''class Application {'',
      ''    public function run(LoggerInterface $logger) {'',
      ''        $logger->log(1);'',
      ''    }'',
      ''}'', []]"

definition loggerAst :: jv where
  "loggerAst =
     nd ''program'' [(''children'', JArr [
       nd ''namespace'' [(''name'', JStr (''App'' @ bsl # ''Test'')), (''loc'', JLoc 3 0 23 1),
         (''children'', JArr [
           nd ''interface'' [(''name'', identAt ''LoggerInterface'' (JLoc 5 10 5 25)),
             (''extends'', JNull), (''loc'', JLoc 5 0 7 1),
             (''body'', JArr [
               methodDecl ''log'' (JLoc 6 20 6 23) [param ''message'' (typeRef ''string'') (JLoc 6 24 6 39)]
                 (typeRef ''void'') JNull (JLoc 6 4 6 47)])],
           nd ''class'' [(''name'', identAt ''FileLogger'' (JLoc 9 6 9 16)),
             (''extends'', JNull), (''implements'', JArr [nameRef ''LoggerInterface'' (JLoc 9 28 9 43)]),
             (''loc'', JLoc 9 0 12 1),
             (''body'', JArr [
               methodDecl ''log'' (JLoc 10 20 10 23) [param ''message'' (typeRef ''string'') (JLoc 10 24 10 39)]
                 (typeRef ''void'') (block []) (JLoc 10 4 11 5)])],
           nd ''class'' [(''name'', identAt ''DatabaseLogger'' (JLoc 14 6 14 20)),
             (''extends'', JNull), (''implements'', JArr [nameRef ''LoggerInterface'' (JLoc 14 32 14 47)]),
             (''loc'', JLoc 14 0 17 1),
             (''body'', JArr [
               methodDecl ''log'' (JLoc 15 20 15 23) [param ''message'' (typeRef ''string'') (JLoc 15 24 15 39)]
                 (typeRef ''void'') (block []) (JLoc 15 4 16 5)])],
           nd ''class'' [(''name'', identAt ''Application'' (JLoc 19 6 19 17)),
             (''extends'', JNull), (''implements'', JNull), (''loc'', JLoc 19 0 23 1),
             (''body'', JArr [
               methodDecl ''run'' (JLoc 20 20 20 23)
                 [param ''logger'' (nameRef ''LoggerInterface'' (JLoc 20 24 20 39)) (JLoc 20 24 20 47)]
                 JNull
                 (block [stmt (methodCall (variable ''logger'') ''log'' (JLoc 21 17 21 20)
                                 [nd ''number'' [(''value'', JStr ''1'')]])])
                 (JLoc 20 4 22 5)])]])]])]"

definition loggerFile :: phpFile where
  "loggerFile = \<lparr>fileUri = \<lparr>uriStr = ''file:///ws/test-rename/InterfaceTest.php'',
                              fsPath = ''/ws/test-rename/InterfaceTest.php''\<rparr>,
                  fileText = Some loggerText, fileAst = Some loggerAst\<rparr>"

definition loggerIndex :: indexer where
  "loggerIndex = scanFile parseFileUri (fileUri loggerFile) (fileAst loggerFile) emptyIndexer"

text \<open>The interface and one implementor, each in a file of its own.\<close>

definition interfaceFile :: phpFile where
  "interfaceFile =
     \<lparr>fileUri = \<lparr>uriStr = ''file:///ws/src/LoggerInterface.php'', fsPath = ''/ws/src/LoggerInterface.php''\<rparr>,
      fileText = Some (joinWith [CHR 10]
        [''<?php'',
         ''namespace App'' @ bsl # ''Test;'',
         ''interface LoggerInterface {'',
         ''    public function log(string $message): void;'',
         ''}'', []]),
      fileAst = Some (nd ''program'' [(''children'', JArr [
        nd ''namespace'' [(''name'', JStr (''App'' @ bsl # ''Test'')), (''loc'', JLoc 2 0 5 1),
          (''children'', JArr [
            nd ''interface'' [(''name'', identAt ''LoggerInterface'' (JLoc 3 10 3 25)),
              (''extends'', JNull), (''loc'', JLoc 3 0 5 1),
              (''body'', JArr [
                methodDecl ''log'' (JLoc 4 20 4 23) [param ''message'' (typeRef ''string'') (JLoc 4 24 4 39)]
                  (typeRef ''void'') JNull (JLoc 4 4 4 47)])]])]])])\<rparr>"

definition implementorFile :: phpFile where
  "implementorFile =
     \<lparr>fileUri = \<lparr>uriStr = ''file:///ws/src/FileLogger.php'', fsPath = ''/ws/src/FileLogger.php''\<rparr>,
      fileText = Some (joinWith [CHR 10]
        [''<?php'',
         ''namespace App'' @ bsl # ''Test;'',
         ''class FileLogger implements LoggerInterface {'',
         ''    public function log(string $message): void {'',
         ''    }'',
         ''}'', []]),
      fileAst = Some (nd ''program'' [(''children'', JArr [
        nd ''namespace'' [(''name'', JStr (''App'' @ bsl # ''Test'')), (''loc'', JLoc 2 0 6 1),
          (''children'', JArr [
            nd ''class'' [(''name'', identAt ''FileLogger'' (JLoc 3 6 3 16)),
              (''extends'', JNull), (''implements'', JArr [nameRef ''LoggerInterface'' (JLoc 3 28 3 43)]),
              (''loc'', JLoc 3 0 6 1),
              (''body'', JArr [
                methodDecl ''log'' (JLoc 4 20 4 23) [param ''message'' (typeRef ''string'') (JLoc 4 24 4 39)]
                  (typeRef ''void'') (block []) (JLoc 4 4 5 5)])]])]])])\<rparr>"

text \<open>
  Claim C2 (interface-aware rename). With the cursor on \<open>log\<close> in \<open>LoggerInterface\<close>, the
  provider finds the interface as target and both classes as its implementations in the
  index, and renames the three definitions; it does not rename the call \<open>$logger->log(1)\<close> at
  (20,17)-(20,20), whose receiver is a parameter typed \<open>LoggerInterface\<close>: the traversal never
  reaches an expression, and \<open>variableTypes\<close> holds no variable. The rename command, run on
  the interface in its own file, renames the definition in the interface and leaves the
  implementor's file without edits, although the index has the inheritance edge.
\<close>

theorem interface_rename_misses_typed_call:
  "provideRenameEdits loggerIndex loggerFile (Some ''log'') (Position 5 21) ''write'' [loggerFile]
     = Provided [(''file:///ws/test-rename/InterfaceTest.php'',
                  replaceEdit (VsRange (Position 5 20) (Position 5 23)) ''write''),
                 (''file:///ws/test-rename/InterfaceTest.php'',
                  replaceEdit (VsRange (Position 9 20) (Position 9 23)) ''write''),
                 (''file:///ws/test-rename/InterfaceTest.php'',
                  replaceEdit (VsRange (Position 14 20) (Position 14 23)) ''write'')]
   \<and> detectTarget loggerFile ''log'' (Position 5 21)
     = Some \<lparr>targetClassName = ''LoggerInterface'', targetType = ''interface''\<rparr>
   \<and> isImplementation loggerIndex ''LoggerInterface'' ''FileLogger''
   \<and> isImplementation loggerIndex ''LoggerInterface'' ''DatabaseLogger''
   \<and> locRange (JLoc 21 17 21 20) = Some (VsRange (Position 20 17) (Position 20 20))
   \<and> createMethodRenameEdit interfaceFile ''log'' ''write'' [interfaceFile, implementorFile]
     = Edits [(''file:///ws/src/LoggerInterface.php'',
               replaceEdit (VsRange (Position 3 20) (Position 3 23)) ''write'')]
   \<and> isImplementation (scanFile parseFileUri (fileUri implementorFile) (fileAst implementorFile)
                         (scanFile parseFileUri (fileUri interfaceFile) (fileAst interfaceFile)
                            emptyIndexer))
         ''LoggerInterface'' ''FileLogger''"
  by code_simp
section \<open>Moving a file: the edits of the moved file\<close>

text \<open>
  Two ranges overlap when each starts before the other ends; ranges that only touch, and an
  insertion at an end of a range, do not.
\<close>

definition overlaps :: "vsRange \<Rightarrow> vsRange \<Rightarrow> bool" where
  "overlaps a b \<longleftrightarrow> posLess (rangeStart a) (rangeEnd b) \<and> posLess (rangeStart b) (rangeEnd a)"

text \<open>
  A workspace whose \<open>composer.json\<close> maps the namespace prefix \<open>root\<close> followed by a backslash
  to \<open>src/\<close>, on a POSIX system; \<open>dirOf\<close> gives the directory of a path relative to the
  workspace folder.
\<close>

definition moveEnv :: "string \<Rightarrow> (string \<Rightarrow> string) \<Rightarrow> psr4Env" where
  "moveEnv root dirOf =
     \<lparr>inWorkspaceFolder = True, composerExists = True,
      readJson = Some \<lparr>autoload = Some [(root @ [bsl], One ''src/'')], autoloadDev = None\<rparr>,
      pathSep = CHR ''/'', relativeDirOf = dirOf\<rparr>"

text \<open>
  A file \<open>src/A/X.php\<close> that declares its class inside a bracketed namespace; the namespace
  node starts at line 2 and the first semicolon from there on is the one of line 4.
\<close>

definition bracketedFile :: phpFile where
  "bracketedFile =
     \<lparr>fileUri = \<lparr>uriStr = ''file:///ws/src/A/X.php'', fsPath = ''/ws/src/A/X.php''\<rparr>,
      fileText = Some (joinWith [CHR 10]
        [''<?php'',
         ''namespace App'' @ bsl # ''A {'',
         ''    class X {'',
         ''        public $a;'',
         ''    }'',
         ''}'', []]),
      fileAst = Some (nd ''program'' [(''children'', JArr [
        nd ''namespace'' [(''name'', JStr (''App'' @ bsl # ''A'')), (''withBrackets'', JBool True),
          (''loc'', JLoc 2 0 6 1),
          (''children'', JArr [
            nd ''class'' [(''name'', identAt ''X'' (JLoc 3 10 3 11)),
              (''extends'', JNull), (''implements'', JNull), (''loc'', JLoc 3 4 5 5),
              (''body'', JArr [
                nd ''propertystatement'' [(''properties'', JArr [
                  nd ''property'' [(''name'', identAt ''a'' (JLoc 4 15 4 17)), (''value'', JNull),
                                   (''type'', JNull), (''loc'', JLoc 4 15 4 17)]]),
                  (''loc'', JLoc 4 8 4 17)]])]])]])])\<rparr>"

text \<open>
  Claim C3 (no two overlapping edits for one file). Moving \<open>src/A/X.php\<close> to \<open>src/B/Y.php\<close>
  changes the namespace and the class name. The edit of the namespace declaration runs from
  the keyword to the first semicolon, which here is inside the class, so it covers the name of
  the class that the edit of the class name replaces. The namespace edit is in the result
  twice: the edits the file already has are set again together with the edit of the class
  name (line 81), and \<open>set\<close> adds to what is there.
\<close>

theorem move_and_rename_edits_overlap:
  "createRefactorEdit
     (moveEnv ''App'' (\<lambda>p. if p = ''/ws/src/A/X.php'' then ''src/A'' else ''src/B''))
     bracketedFile ''/ws/src/B/Y.php'' [bracketedFile]
   = [(''file:///ws/src/A/X.php'',
       replaceEdit (VsRange (Position 1 0) (Position 3 18)) (''namespace App'' @ bsl # ''B;'')),
      (''file:///ws/src/A/X.php'',
       replaceEdit (VsRange (Position 1 0) (Position 3 18)) (''namespace App'' @ bsl # ''B;'')),
      (''file:///ws/src/A/X.php'',
       replaceEdit (VsRange (Position 2 10) (Position 2 11)) ''Y'')]
   \<and> overlaps (VsRange (Position 1 0) (Position 3 18)) (VsRange (Position 2 10) (Position 2 11))"
  by code_simp

section \<open>Moving a file: files that used the class without an import\<close>

text \<open>
  The class \<open>A\Services\X\<close> moves to \<open>A\Utils\<close>. Two other files of \<open>A\Services\<close> use the
  short name \<open>X\<close> without importing it: \<open>Report.php\<close> instantiates it in a method body,
  \<open>Typed.php\<close> has it as the type of a parameter.
\<close>

definition servicesNamespace :: "nat \<Rightarrow> jv list \<Rightarrow> jv" where
  "servicesNamespace lastLine children =
     nd ''program'' [(''children'', JArr [
       nd ''namespace'' [(''name'', JStr (''A'' @ bsl # ''Services'')), (''withBrackets'', JBool False),
         (''loc'', JLoc 2 0 lastLine 1), (''children'', JArr children)]])]"

definition movedFile :: phpFile where
  "movedFile =
     \<lparr>fileUri = \<lparr>uriStr = ''file:///ws/src/Services/X.php'', fsPath = ''/ws/src/Services/X.php''\<rparr>,
      fileText = Some (joinWith [CHR 10]
        [''<?php'',
         ''namespace A'' @ bsl # ''Services;'',
         ''class X {'',
         ''}'', []]),
      fileAst = Some (servicesNamespace 4
        [nd ''class'' [(''name'', identAt ''X'' (JLoc 3 6 3 7)), (''extends'', JNull),
           (''implements'', JNull), (''loc'', JLoc 3 0 4 1), (''body'', JArr [])]])\<rparr>"

definition reportText :: string where
  "reportText = joinWith [CHR 10]
     [''<?php'',
      ''namespace A'' @ bsl # ''Services;'',
      ''class Report {'',
      ''    public function build() {'',
      ''        $x = new X();'',
      ''    }'',
      ''}'', []]"

definition reportAst :: jv where
  "reportAst = servicesNamespace 7
     [nd ''class'' [(''name'', identAt ''Report'' (JLoc 3 6 3 12)), (''extends'', JNull),
        (''implements'', JNull), (''loc'', JLoc 3 0 7 1),
        (''body'', JArr [
          methodDecl ''build'' (JLoc 4 20 4 25) [] JNull
            (block [stmt (assign (variable ''x'') (newObject ''X'' (JLoc 5 17 5 18)))])
            (JLoc 4 4 6 5)])]]"

definition reportFile :: phpFile where
  "reportFile =
     \<lparr>fileUri = \<lparr>uriStr = ''file:///ws/src/Services/Report.php'', fsPath = ''/ws/src/Services/Report.php''\<rparr>,
      fileText = Some reportText, fileAst = Some reportAst\<rparr>"

definition typedFile :: phpFile where
  "typedFile =
     \<lparr>fileUri = \<lparr>uriStr = ''file:///ws/src/Services/Typed.php'', fsPath = ''/ws/src/Services/Typed.php''\<rparr>,
      fileText = Some (joinWith [CHR 10]
        [''<?php'',
         ''namespace A'' @ bsl # ''Services;'',
         ''class Typed {'',
         ''    public function take(X $x) {'',
         ''    }'',
         ''}'', []]),
      fileAst = Some (servicesNamespace 6
        [nd ''class'' [(''name'', identAt ''Typed'' (JLoc 3 6 3 11)), (''extends'', JNull),
           (''implements'', JNull), (''loc'', JLoc 3 0 6 1),
           (''body'', JArr [
             methodDecl ''take'' (JLoc 4 20 4 24)
               [param ''x'' (nameRef ''X'' (JLoc 4 25 4 26)) (JLoc 4 25 4 29)] JNull
               (block []) (JLoc 4 4 5 5)])]])\<rparr>"

text \<open>
  Claim C7 (an import is inserted where the class was used implicitly). The file with the
  type hint gets \<open>use A\Utils\X;\<close> after its namespace line; the file with \<open>new X()\<close> gets no
  edit, since \<open>checkUsage\<close> descends through \<open>children\<close>, \<open>body\<close> and \<open>arguments\<close> only and
  the instantiation is the right-hand side of an assignment inside an expression statement.
\<close>

theorem implicit_instantiation_not_imported:
  "createRefactorEdit
     (moveEnv ''A'' (\<lambda>p. if p = ''/ws/src/Services/X.php'' then ''src/Services'' else ''src/Utils''))
     movedFile ''/ws/src/Utils/X.php'' [movedFile, reportFile, typedFile]
   = [(''file:///ws/src/Services/X.php'',
       replaceEdit (VsRange (Position 1 0) (Position 1 21)) (''namespace A'' @ bsl # ''Utils;'')),
      (''file:///ws/src/Services/Typed.php'',
       insertEdit (Position 2 0) (''use A'' @ bsl # ''Utils'' @ bsl # ''X;'' @ [CHR 10]))]
   \<and> findAndUpdateImports reportAst reportText
       (''A'' @ bsl # ''Services'' @ bsl # ''X'') (''A'' @ bsl # ''Utils'' @ bsl # ''X'')
       (JStr (''A'' @ bsl # ''Services'')) = Done None"
  by code_simp
section \<open>Import diagnostics: occurrences inside statements\<close>

text \<open>
  A file \<open>Helper.php\<close> that defines \<open>App\Helper\<close>, and the index built from it. The file
  \<open>Service.php\<close> of the same namespace has no \<open>use\<close> statement; it names \<open>Helper\<close> and
  \<open>Mailer\<close> as parameter types and instantiates \<open>Missing\<close> in a method body. Neither \<open>Mailer\<close>
  nor \<open>Missing\<close> is in the index.
\<close>

definition helperFile :: phpFile where
  "helperFile =
     \<lparr>fileUri = \<lparr>uriStr = ''file:///ws/src/Helper.php'', fsPath = ''/ws/src/Helper.php''\<rparr>,
      fileText = Some (joinWith [CHR 10]
        [''<?php'',
         ''namespace App;'',
         ''class Helper {'',
         ''}'', []]),
      fileAst = Some (nd ''program'' [(''children'', JArr [
        nd ''namespace'' [(''name'', JStr ''App''), (''withBrackets'', JBool False), (''loc'', JLoc 2 0 4 1),
          (''children'', JArr [
            nd ''class'' [(''name'', identAt ''Helper'' (JLoc 3 6 3 12)), (''extends'', JNull),
              (''implements'', JNull), (''loc'', JLoc 3 0 4 1), (''body'', JArr [])]])]])])\<rparr>"

definition serviceText :: string where
  "serviceText = joinWith [CHR 10]
     [''<?php'',
      ''namespace App;'',
      ''class Service {'',
      ''    public function run(Helper $h, Mailer $m) {'',
      ''        $x = new Missing();'',
      ''    }'',
      ''}'', []]"

definition serviceAst :: jv where
  "serviceAst =
     nd ''program'' [(''children'', JArr [
       nd ''namespace'' [(''name'', JStr ''App''), (''withBrackets'', JBool False), (''loc'', JLoc 2 0 7 1),
         (''children'', JArr [
           nd ''class'' [(''name'', identAt ''Service'' (JLoc 3 6 3 13)), (''extends'', JNull),
             (''implements'', JNull), (''loc'', JLoc 3 0 7 1),
             (''body'', JArr [
               methodDecl ''run'' (JLoc 4 20 4 23)
                 [param ''h'' (nameRef ''Helper'' (JLoc 4 24 4 30)) (JLoc 4 24 4 33),
                  param ''m'' (nameRef ''Mailer'' (JLoc 4 35 4 41)) (JLoc 4 35 4 44)]
                 JNull
                 (block [stmt (assign (variable ''x'') (newObject ''Missing'' (JLoc 5 17 5 24)))])
                 (JLoc 4 4 6 5)])]])]])]"

definition serviceIndex :: indexer where
  "serviceIndex = scanFile parseFileUri (fileUri helperFile) (fileAst helperFile) emptyIndexer"

text \<open>
  Claim C8 (a name is flagged exactly when it is not built in, not imported and not defined in
  the namespace of the file). \<open>Helper\<close>, defined in the same namespace, is not flagged and
  \<open>Mailer\<close> is. \<open>Missing\<close> (line 5, columns 17-24) is not built in, not imported and not in the
  index, and is not flagged: \<open>findClassUsages\<close> descends through \<open>children\<close>, \<open>arguments\<close>,
  \<open>parameters\<close> and \<open>body\<close> only, so the occurrences it records are the two type hints and
  the instantiation inside the expression statement is never looked at.
\<close>

theorem instantiation_in_statement_not_flagged:
  "updateDiagnostics serviceIndex ''php'' (Some serviceAst)
     = DiagnosticsSet [missingImport ''Mailer'' (VsRange (Position 3 35) (Position 3 41))]
   \<and> acc (forEach findClassUsages (field ''children'' serviceAst) \<lparr>acc = [], failed = False\<rparr>)
     = [\<lparr>usedName = ''Helper'', usedLoc = JLoc 4 24 4 30\<rparr>,
        \<lparr>usedName = ''Mailer'', usedLoc = JLoc 4 35 4 41\<rparr>]
   \<and> getDefinitions serviceIndex ''Missing'' = []
   \<and> isBuiltInType ''Missing'' = False
   \<and> locRange (JLoc 5 17 5 24) = Some (VsRange (Position 4 17) (Position 4 24))
   \<and> map defFqn (getDefinitions serviceIndex ''Helper'') = [Some (''App'' @ bsl # ''Helper'')]"
  by code_simp

text \<open>Every string contains the empty string; one matching definition settles \<open>some\<close>.\<close>

lemma strIncludes_empty: "strIncludes s []"
  by (cases s) simp_all

lemma same_namespace_resolves:
  "d \<in> set ds \<Longrightarrow> defFqn d = Some (expectedFQN (JStr c) n) \<Longrightarrow> inSameNamespace (JStr c) n ds = Done True"
proof (induction ds)
  case Nil
  then show ?case by simp
next
  case (Cons d' ds)
  show ?case
  proof (cases "d' = d")
    case True
    show ?thesis
    proof (cases "expectedFQN (JStr c) n = []")
      case e: True
      then have "c = []" by (auto simp: expectedFQN_def split: if_splits)
      with True Cons.prems e show ?thesis by (simp add: strIncludes_empty)
    next
      case False
      with True Cons.prems show ?thesis by simp
    qed
  next
    case False
    with Cons have "inSameNamespace (JStr c) n ds = Done True" by simp
    then show ?thesis by (simp split: option.splits)
  qed
qed

text \<open>
  The second half of the claim holds for the occurrences that are recorded: when every recorded
  name has an indexed definition whose FQN is the one the name has in the namespace of the
  file, no diagnostic is added, whatever the file imports.
\<close>

lemma same_namespace_never_flagged:
  assumes "\<forall>u\<in>set used. \<exists>d\<in>set (getDefinitions s (usedName u)).
             defFqn d = Some (expectedFQN (JStr c) (usedName u))"
  shows "checkUsed s imps (JStr c) used diagnostics = Done diagnostics"
  using assms
proof (induction used arbitrary: diagnostics)
  case Nil
  then show ?case by simp
next
  case (Cons u used)
  then obtain d where "d \<in> set (getDefinitions s (usedName u))"
      "defFqn d = Some (expectedFQN (JStr c) (usedName u))" by auto
  then have "inSameNamespace (JStr c) (usedName u) (getDefinitions s (usedName u)) = Done True"
    by (rule same_namespace_resolves)
  with Cons show ?case by simp
qed

end
